theory Spec2Isabelle
  imports Complex_Main "HOL-Library.Sublist" "HOL-Library.Multiset"
begin

section \<open>JavaScript strings\<close>

text \<open>
  Strings are lists of characters. A \<^typ>\<open>char\<close> is one code unit in the Latin-1 range
  (U+0000 to U+00FF), which covers every text the schedule data and the slot table use.
  The string methods the scheduling code calls are modelled on that range:
  \<^verbatim>\<open>trim\<close>, \<^verbatim>\<open>toLowerCase\<close>, \<^verbatim>\<open>replace(/\s+/g, "")\<close>, \<^verbatim>\<open>split\<close> on a one-character
  separator, \<^verbatim>\<open>padStart(2, "0")\<close> and \<^verbatim>\<open>includes\<close>.
\<close>

definition isWhiteSpace :: "char \<Rightarrow> bool" where
  "isWhiteSpace c =
     (c = CHR 0x09 \<or> c = CHR 0x0A \<or> c = CHR 0x0B \<or> c = CHR 0x0C \<or> c = CHR 0x0D
      \<or> c = CHR '' '' \<or> c = CHR 0xA0)"

definition isUpperChar :: "char \<Rightarrow> bool" where
  "isUpperChar c =
     (let n = (of_char c :: nat)
      in (65 \<le> n \<and> n \<le> 90) \<or> (192 \<le> n \<and> n \<le> 222 \<and> n \<noteq> 215))"

text \<open>The lower-case letter of an upper-case one is 32 code points above it: bit 5 is set.\<close>

definition toLowerChar :: "char \<Rightarrow> char" where
  "toLowerChar c =
     (if isUpperChar c
      then (case c of Char b0 b1 b2 b3 b4 b5 b6 b7 \<Rightarrow> Char b0 b1 b2 b3 b4 True b6 b7)
      else c)"

definition toLowerCase :: "string \<Rightarrow> string" where
  "toLowerCase s = map toLowerChar s"

definition removeWhiteSpace :: "string \<Rightarrow> string" where
  \<comment> \<open>\<^verbatim>\<open>s.replace(/\s+/g, "")\<close>\<close>
  "removeWhiteSpace s = filter (\<lambda>c. \<not> isWhiteSpace c) s"

definition trim :: "string \<Rightarrow> string" where
  "trim s = rev (dropWhile isWhiteSpace (rev (dropWhile isWhiteSpace s)))"

fun split :: "char \<Rightarrow> string \<Rightarrow> string list" where
  "split sep [] = [[]]"
| "split sep (c # cs) =
     (if c = sep then [] # split sep cs
      else (case split sep cs of
              [] \<Rightarrow> [[c]]
            | p # ps \<Rightarrow> (c # p) # ps))"

definition padStart2 :: "string \<Rightarrow> string" where
  \<comment> \<open>\<^verbatim>\<open>s.padStart(2, "0")\<close>\<close>
  "padStart2 s = replicate (2 - length s) (CHR ''0'') @ s"

fun includesStr :: "string \<Rightarrow> string \<Rightarrow> bool" where
  "includesStr [] pat = (pat = [])"
| "includesStr (c # cs) pat = (prefix pat (c # cs) \<or> includesStr cs pat)"

text \<open>\<^verbatim>\<open>a || b\<close> on strings that may be missing: the empty string is falsy.\<close>

definition orElse :: "string option \<Rightarrow> string option \<Rightarrow> string option" where
  "orElse a b = (case a of None \<Rightarrow> b | Some s \<Rightarrow> if s = [] then b else Some s)"

definition orEmpty :: "string option \<Rightarrow> string" where
  \<comment> \<open>\<^verbatim>\<open>a || ""\<close>\<close>
  "orEmpty a = (case a of None \<Rightarrow> [] | Some s \<Rightarrow> s)"

fun findIndex :: "('a \<Rightarrow> bool) \<Rightarrow> 'a list \<Rightarrow> int" where
  "findIndex P [] = -1"
| "findIndex P (x # xs) =
     (if P x then 0 else (let i = findIndex P xs in if i < 0 then -1 else i + 1))"


section \<open>Sessions\<close>

text \<open>
  A session is one row of a course file. A field that a row may lack is an option.
  \<open>DayWeek\<close> holds \<^verbatim>\<open>Number(entry.DayWeek)\<close> when that is an integer and \<open>None\<close>
  otherwise. \<open>courseId\<close>, \<open>courseName\<close> and \<open>source\<close> are the fields that
  \<^verbatim>\<open>flattenSessions\<close> and its siblings add to a row.
\<close>

record session =
  GroupId :: int
  GroupName :: "string option"
  Type :: "string option"
  Time :: "string option"
  DayWeekName :: "string option"
  DayWeek :: "int option"
  Staff :: "string option"
  IntervalId :: "string option"
  NameEn :: "string option"
  courseId :: "string option"
  courseName :: "string option"
  source :: "string option"
  isModified :: bool
  modifiedReason :: string


section \<open>Slot model of the React application (\<^verbatim>\<open>src/lib/time.js\<close>)\<close>

definition DAYS :: "string list" where
  "DAYS = [''Saturday'', ''Sunday'', ''Monday'', ''Tuesday'', ''Wednesday'', ''Thursday'']"

definition TIME_SLOTS :: "string list" where
  "TIME_SLOTS =
     [''08:45 - 09:30'', ''09:30 - 10:15'', ''10:15 - 11:00'', ''11:00 - 11:45'',
      ''11:45 - 12:30'', ''12:30 - 13:15'', ''13:15 - 14:00'', ''14:00 - 14:45'',
      ''14:45 - 15:30'', ''15:30 - 16:15'', ''16:15 - 17:00'', ''17:00 - 17:45'']"

definition DAY_MAP :: "int \<Rightarrow> string option" where
  "DAY_MAP n =
     (if n = 1 then Some ''Sunday'' else if n = 2 then Some ''Monday''
      else if n = 3 then Some ''Tuesday'' else if n = 4 then Some ''Wednesday''
      else if n = 5 then Some ''Thursday'' else if n = 6 then Some ''Friday''
      else if n = 7 then Some ''Saturday'' else None)"

definition normalizeType :: "string option \<Rightarrow> string" where
  "normalizeType ty = removeWhiteSpace (toLowerCase (orEmpty ty))"

definition forcedSpanByType :: "string option \<Rightarrow> int" where
  "forcedSpanByType ty = (if includesStr (normalizeType ty) ''sub'' then 2 else 1)"

definition toHHMM :: "string \<Rightarrow> string option" where
  "toHHMM v =
     (case split (CHR '':'') v of
        h # m # _ \<Rightarrow> Some (padStart2 h @ '':'' @ padStart2 m)
      | _ \<Rightarrow> None)"

definition normalizeDay :: "session \<Rightarrow> string" where
  "normalizeDay e =
     (case DayWeekName e of
        Some n \<Rightarrow>
          if trim n \<noteq> [] then trim n
          else (case Option.bind (DayWeek e) DAY_MAP of Some d \<Rightarrow> d | None \<Rightarrow> ''Unknown'')
      | None \<Rightarrow> (case Option.bind (DayWeek e) DAY_MAP of Some d \<Rightarrow> d | None \<Rightarrow> ''Unknown''))"

definition slotStartOf :: "string \<Rightarrow> string" where
  \<comment> \<open>\<^verbatim>\<open>const [start] = slot.split("-").map((x) => x.trim())\<close>\<close>
  "slotStartOf slot = hd (map trim (split (CHR ''-'') slot))"

definition startSlotIndex :: "string option \<Rightarrow> int" where
  "startSlotIndex t =
     (case t of
        None \<Rightarrow> -1
      | Some time \<Rightarrow>
          (case toHHMM (slotStartOf time) of
             None \<Rightarrow> -1
           | Some hhmm \<Rightarrow> findIndex (\<lambda>slot. slotStartOf slot = hhmm) TIME_SLOTS))"

record slot_range =
  start :: int
  endExclusive :: int  \<comment> \<open>the field \<^verbatim>\<open>end\<close> of the source\<close>
  span :: int

definition slotRange :: "session \<Rightarrow> slot_range option" where
  "slotRange e =
     (let s = startSlotIndex (Time e) in
      if s < 0 then None
      else (let sp = forcedSpanByType (Type e); en = s + sp in
            if en > int (length TIME_SLOTS) then None
            else Some \<lparr>start = s, endExclusive = en, span = sp\<rparr>))"

definition rangesOverlap :: "slot_range \<Rightarrow> slot_range \<Rightarrow> bool" where
  "rangesOverlap a b = (start a < endExclusive b \<and> start b < endExclusive a)"

text \<open>
  \<^verbatim>\<open>overlapLabel\<close> reads \<^verbatim>\<open>TIME_SLOTS[s]\<close> and \<^verbatim>\<open>TIME_SLOTS[e - 1]\<close>. An index
  outside the table makes the source throw (\<^verbatim>\<open>undefined.split\<close>); the label is
  \<open>None\<close> then.
\<close>

definition slotAt :: "int \<Rightarrow> string option" where
  "slotAt i = (if 0 \<le> i \<and> i < int (length TIME_SLOTS) then Some (TIME_SLOTS ! nat i) else None)"

definition overlapLabel :: "slot_range \<Rightarrow> slot_range \<Rightarrow> string option" where
  "overlapLabel a b =
     (let s = max (start a) (start b); e = min (endExclusive a) (endExclusive b) in
      if e \<le> s then Some []
      else (case (slotAt s, slotAt (e - 1)) of
              (Some slotS, Some slotE) \<Rightarrow>
                (case map trim (split (CHR ''-'') slotE) of
                   _ # en # _ \<Rightarrow> Some (slotStartOf slotS @ '' - '' @ en)
                 | _ \<Rightarrow> None)
            | _ \<Rightarrow> None))"

record conflict_info =
  day :: string
  existing :: session
  overlap :: "string option"

fun findConflictIn :: "string \<Rightarrow> slot_range \<Rightarrow> session list \<Rightarrow> conflict_info option" where
  "findConflictIn dayA rangeA [] = None"
| "findConflictIn dayA rangeA (b # bs) =
     (case slotRange b of
        None \<Rightarrow> findConflictIn dayA rangeA bs
      | Some rangeB \<Rightarrow>
          if dayA \<noteq> normalizeDay b then findConflictIn dayA rangeA bs
          else if rangesOverlap rangeA rangeB
          then Some \<lparr>day = dayA, existing = b, overlap = overlapLabel rangeA rangeB\<rparr>
          else findConflictIn dayA rangeA bs)"

fun findConflict :: "session list \<Rightarrow> session list \<Rightarrow> conflict_info option" where
  "findConflict [] es = None"
| "findConflict (a # as) es =
     (if normalizeDay a \<notin> set DAYS then findConflict as es
      else (case slotRange a of
              None \<Rightarrow> findConflict as es
            | Some rangeA \<Rightarrow>
                (case findConflictIn (normalizeDay a) rangeA es of
                   Some c \<Rightarrow> Some c
                 | None \<Rightarrow> findConflict as es)))"


section \<open>Slot model and conflict detector of the plain JavaScript application\<close>

text \<open>
  The module \<^verbatim>\<open>conflict.js\<close> has its own slot table (the same twelve labels), the same
  \<^verbatim>\<open>normalizeType\<close>, and its own span, time-range and day functions.
\<close>

definition DAY_ORDER :: "string list" where
  "DAY_ORDER = [''Sunday'', ''Monday'', ''Tuesday'', ''Wednesday'', ''Thursday'']"

text \<open>
  \<^verbatim>\<open>Number\<close> is applied to the digit groups of a clock text only. The model reads an
  unsigned decimal numeral (the empty text is 0) and gives \<open>None\<close>, for \<^verbatim>\<open>NaN\<close>,
  on any other text.
\<close>

definition digitValue :: "char \<Rightarrow> int option" where
  "digitValue c =
     (let n = (of_char c :: nat) in if 48 \<le> n \<and> n \<le> 57 then Some (int n - 48) else None)"

fun digitsValue :: "int \<Rightarrow> string \<Rightarrow> int option" where
  "digitsValue acc [] = Some acc"
| "digitsValue acc (c # cs) =
     (case digitValue c of None \<Rightarrow> None | Some d \<Rightarrow> digitsValue (10 * acc + d) cs)"

definition toNumber :: "string \<Rightarrow> int option" where
  "toNumber s = digitsValue 0 (trim s)"

definition parseClockToMinutes :: "string \<Rightarrow> int option" where
  "parseClockToMinutes v =
     (case map toNumber (split (CHR '':'') v) of
        Some h # Some m # _ \<Rightarrow> Some (h * 60 + m)
      | _ \<Rightarrow> None)"

definition normalizeClock :: "string \<Rightarrow> string option" where
  "normalizeClock v =
     (case split (CHR '':'') v of
        h # m # _ \<Rightarrow> Some (padStart2 h @ '':'' @ padStart2 m)
      | _ \<Rightarrow> None)"

record slot_info =
  label :: string
  startClock :: "string option"
  endClock :: "string option"
  startMinutes :: "int option"
  endMinutes :: "int option"

definition slotInfo :: "string \<Rightarrow> slot_info" where
  "slotInfo slot =
     (case map trim (split (CHR ''-'') slot) of
        startRaw # endRaw # _ \<Rightarrow>
          \<lparr>label = slot, startClock = normalizeClock startRaw, endClock = normalizeClock endRaw,
           startMinutes = parseClockToMinutes startRaw, endMinutes = parseClockToMinutes endRaw\<rparr>
      | _ \<Rightarrow>
          \<lparr>label = slot, startClock = None, endClock = None,
           startMinutes = None, endMinutes = None\<rparr>)"

definition SLOT_RANGES :: "slot_info list" where
  "SLOT_RANGES = map slotInfo TIME_SLOTS"

definition toClockRange :: "string option \<Rightarrow> (string \<times> string) option" where
  "toClockRange timeRange =
     (case timeRange of
        None \<Rightarrow> None
      | Some t \<Rightarrow>
          if t = [] then None
          else (case map trim (split (CHR ''-'') t) of
                  [p0, p1] \<Rightarrow>
                    (case (normalizeClock p0, normalizeClock p1) of
                       (Some sc, Some ec) \<Rightarrow> Some (sc, ec)
                     | _ \<Rightarrow> None)
                | _ \<Rightarrow> None))"

definition getForcedSpanByType :: "string option \<Rightarrow> int" where
  "getForcedSpanByType typeText =
     (let normalized = normalizeType typeText in
      if normalized = ''subgroup'' \<or> normalized = ''sub'' \<or> includesStr normalized ''sub''
         \<or> includesStr normalized ''lab''
      then 2 else 1)"

record index_range =
  startIndex :: int
  endIndexExclusive :: int

text \<open>The type text defaults to \<^verbatim>\<open>"Group"\<close> when the caller passes none.\<close>

definition parseTimeRangeToSlotRange :: "string option \<Rightarrow> string option \<Rightarrow> index_range option" where
  "parseTimeRangeToSlotRange timeRange typeText =
     (case toClockRange timeRange of
        None \<Rightarrow> None
      | Some clocks \<Rightarrow>
          (let si = findIndex (\<lambda>s. startClock s = Some (fst clocks)) SLOT_RANGES in
           if si < 0 then None
           else (let sp = getForcedSpanByType (case typeText of None \<Rightarrow> Some ''Group'' | Some t \<Rightarrow> Some t);
                     en = si + sp in
                 if en > int (length TIME_SLOTS) then None
                 else Some \<lparr>startIndex = si, endIndexExclusive = en\<rparr>)))"

definition normalizeDayName :: "session \<Rightarrow> string" where
  "normalizeDayName e =
     (case DayWeekName e of
        Some n \<Rightarrow>
          if trim n \<noteq> [] then trim n
          else (case Option.bind (DayWeek e) DAY_MAP of Some d \<Rightarrow> d | None \<Rightarrow> ''Unknown'')
      | None \<Rightarrow> (case Option.bind (DayWeek e) DAY_MAP of Some d \<Rightarrow> d | None \<Rightarrow> ''Unknown''))"

definition isSlotOverlap :: "index_range \<Rightarrow> index_range \<Rightarrow> bool" where
  "isSlotOverlap a b =
     (startIndex a < endIndexExclusive b \<and> startIndex b < endIndexExclusive a)"

definition slotRangeAt :: "int \<Rightarrow> slot_info option" where
  \<comment> \<open>\<^verbatim>\<open>SLOT_RANGES[i]\<close>, \<^verbatim>\<open>undefined\<close> outside the table\<close>
  "slotRangeAt i =
     (if 0 \<le> i \<and> i < int (length SLOT_RANGES) then Some (SLOT_RANGES ! nat i) else None)"

definition printClock :: "string option \<Rightarrow> string" where
  \<comment> \<open>a clock inside a template literal; \<^verbatim>\<open>null\<close> prints as its name\<close>
  "printClock c = (case c of None \<Rightarrow> ''null'' | Some t \<Rightarrow> t)"

definition formatSlotRange :: "index_range option \<Rightarrow> string" where
  "formatSlotRange r =
     (case r of
        None \<Rightarrow> []
      | Some sr \<Rightarrow>
          (case (slotRangeAt (startIndex sr), slotRangeAt (endIndexExclusive sr - 1)) of
             (Some startSlot, Some endSlot) \<Rightarrow>
               printClock (startClock startSlot) @ '' - '' @ printClock (endClock endSlot)
           | _ \<Rightarrow> []))"

record first_conflict =
  candidate :: session
  existingSession :: session  \<comment> \<open>the field \<^verbatim>\<open>existing\<close> of the source\<close>
  overlapSlotRange :: index_range

fun findFirstConflictIn ::
  "session \<Rightarrow> string \<Rightarrow> index_range \<Rightarrow> session list \<Rightarrow> first_conflict option" where
  "findFirstConflictIn s sessionDay sessionRange [] = None"
| "findFirstConflictIn s sessionDay sessionRange (e # es) =
     (if sessionDay \<noteq> normalizeDayName e then findFirstConflictIn s sessionDay sessionRange es
      else (case parseTimeRangeToSlotRange (Time e) (Type e) of
              None \<Rightarrow> findFirstConflictIn s sessionDay sessionRange es
            | Some existingRange \<Rightarrow>
                if isSlotOverlap sessionRange existingRange
                then Some \<lparr>candidate = s, existingSession = e,
                       overlapSlotRange =
                         \<lparr>startIndex = max (startIndex sessionRange) (startIndex existingRange),
                          endIndexExclusive =
                            min (endIndexExclusive sessionRange) (endIndexExclusive existingRange)\<rparr>\<rparr>
                else findFirstConflictIn s sessionDay sessionRange es))"

fun findFirstConflict :: "session list \<Rightarrow> session list \<Rightarrow> first_conflict option" where
  "findFirstConflict [] currentSessions = None"
| "findFirstConflict (s # ss) currentSessions =
     (if normalizeDayName s \<notin> set DAY_ORDER then findFirstConflict ss currentSessions
      else (case parseTimeRangeToSlotRange (Time s) (Type s) of
              None \<Rightarrow> findFirstConflict ss currentSessions
            | Some sessionRange \<Rightarrow>
                (case findFirstConflictIn s (normalizeDayName s) sessionRange currentSessions of
                   Some c \<Rightarrow> Some c
                 | None \<Rightarrow> findFirstConflict ss currentSessions)))"


section \<open>Double-precision arithmetic\<close>

text \<open>
  The overall score is computed in JavaScript numbers, which are IEEE 754 doubles. A finite
  double is written here as a pair \<open>(m, e)\<close> that stands for \<open>m \<cdot> 2\<^sup>e\<close>. Every operation
  computes the exact result and rounds it to a significand of 53 bits, to nearest with ties
  to even. The exponent range is not modelled: the scores stay between 0 and 100.
\<close>

type_synonym double = "int \<times> int"

function excessBits :: "int \<Rightarrow> nat" where
  "excessBits n = (if n < 2 ^ 53 then 0 else Suc (excessBits (n div 2)))"
  by pat_completeness auto
termination
  by (relation "measure nat") auto

declare excessBits.simps [simp del]

definition roundDouble :: "double \<Rightarrow> double" where
  "roundDouble x =
     (case x of (m, e) \<Rightarrow>
        (let k = excessBits \<bar>m\<bar> in
         if k = 0 then (m, e)
         else (let q = m div 2 ^ k; r = m mod 2 ^ k; h = 2 ^ (k - 1)
               in (if r > h \<or> (r = h \<and> odd q) then q + 1 else q, e + int k))))"

definition doubleOfInt :: "int \<Rightarrow> double" where
  "doubleOfInt n = roundDouble (n, 0)"

definition doubleMul :: "double \<Rightarrow> double \<Rightarrow> double" where
  "doubleMul x y = roundDouble (fst x * fst y, snd x + snd y)"

definition doubleAdd :: "double \<Rightarrow> double \<Rightarrow> double" where
  "doubleAdd x y =
     (let e = min (snd x) (snd y)
      in roundDouble (fst x * 2 ^ nat (snd x - e) + fst y * 2 ^ nat (snd y - e), e))"

definition mathRound :: "double \<Rightarrow> int" where
  \<comment> \<open>\<^verbatim>\<open>Math.round\<close>: the nearest integer, a tie going up\<close>
  "mathRound x =
     (case x of (m, e) \<Rightarrow>
        if 0 \<le> e then m * 2 ^ nat e
        else (2 * m + 2 ^ nat (- e)) div 2 ^ (nat (- e) + 1))"

definition doubleValue :: "double \<Rightarrow> real" where
  "doubleValue x = of_int (fst x) * 2 powi (snd x)"

text \<open>The literals \<^verbatim>\<open>0.34\<close>, \<^verbatim>\<open>0.3\<close>, \<^verbatim>\<open>0.2\<close> and \<^verbatim>\<open>0.16\<close> as doubles.\<close>

definition lit_0_34 :: double where "lit_0_34 = (6124895493223875, -54)"
definition lit_0_3 :: double where "lit_0_3 = (5404319552844595, -54)"
definition lit_0_2 :: double where "lit_0_2 = (7205759403792794, -55)"
definition lit_0_16 :: double where "lit_0_16 = (5764607523034235, -55)"


section \<open>Schedule evaluator of the React application\<close>

definition LATE_THRESHOLD_MINUTES :: int where
  "LATE_THRESHOLD_MINUTES = 16 * 60 + 15"

text \<open>
  \<^verbatim>\<open>timeToMinutes\<close> gives \<^verbatim>\<open>null\<close> or \<^verbatim>\<open>NaN\<close> on a text that is not a clock; both
  compare false with the late threshold and both are \<open>None\<close> here.
\<close>

definition timeToMinutes :: "string \<Rightarrow> int option" where
  "timeToMinutes hhmm =
     (case map toNumber (split (CHR '':'') hhmm) of
        Some h # Some m # _ \<Rightarrow> Some (h * 60 + m)
      | _ \<Rightarrow> None)"

definition slotStartMinutes :: "string \<Rightarrow> int option" where
  "slotStartMinutes slotLabel = timeToMinutes (trim (hd (split (CHR ''-'') slotLabel)))"

definition slotStartByIndex :: "int option list" where
  "slotStartByIndex = map slotStartMinutes TIME_SLOTS"

definition slotStartAt :: "int \<Rightarrow> int option" where
  \<comment> \<open>\<^verbatim>\<open>slotStartByIndex[i]\<close>\<close>
  "slotStartAt i =
     (if 0 \<le> i \<and> i < int (length slotStartByIndex) then slotStartByIndex ! nat i else None)"

definition sessionsOverlap :: "session \<Rightarrow> session \<Rightarrow> bool" where
  "sessionsOverlap a b =
     (if normalizeDay a \<noteq> normalizeDay b then False
      else (case (slotRange a, slotRange b) of
              (Some rangeA, Some rangeB) \<Rightarrow> rangesOverlap rangeA rangeB
            | _ \<Rightarrow> False))"

fun countSessionConflicts :: "session list \<Rightarrow> int" where
  "countSessionConflicts [] = 0"
| "countSessionConflicts (s # ss) =
     int (length (filter (sessionsOverlap s) ss)) + countSessionConflicts ss"

text \<open>
  The key of a late session is the text
  \<^verbatim>\<open>`${day}|${s.courseId || s.courseName}|${s.GroupId}|${s.Time}`\<close>; the model keeps its
  four components as a tuple.
\<close>

type_synonym late_key = "string \<times> string option \<times> int \<times> string option"

record eval_state =
  occupied :: "string \<Rightarrow> int set"
  lateSessions :: "late_key set"

definition evalSession :: "eval_state \<Rightarrow> session \<Rightarrow> eval_state" where
  "evalSession st s =
     (let dayName = normalizeDay s in
      case slotRange s of
        None \<Rightarrow> st
      | Some r \<Rightarrow>
          if dayName \<notin> set DAYS then st
          else
            \<lparr>occupied = (occupied st)
               (dayName := occupied st dayName \<union> {start r ..< endExclusive r}),
             lateSessions =
               (if (case slotStartAt (start r) of None \<Rightarrow> -1 | Some m \<Rightarrow> m)
                     \<ge> LATE_THRESHOLD_MINUTES
                then insert (dayName, orElse (courseId s) (courseName s), GroupId s, Time s)
                       (lateSessions st)
                else lateSessions st)\<rparr>)"

definition gapsOfDay :: "int set \<Rightarrow> int" where
  \<comment> \<open>the free slots from the first used slot of a day to its last\<close>
  "gapsOfDay used = int (card ({Min used .. Max used} - used))"

definition evalDay :: "(string \<Rightarrow> int set) \<Rightarrow> int \<times> int \<Rightarrow> string \<Rightarrow> int \<times> int" where
  "evalDay occ acc dayName =
     (if occ dayName = {} then acc
      else (fst acc + 1, snd acc + gapsOfDay (occ dayName)))"

record schedule_score =
  activeDays :: int
  gapSlots :: int
  after4Sessions :: int
  conflictCount :: int
  scoreDays :: int
  scoreGaps :: int
  scoreLate :: int
  scoreConflict :: int
  overall :: int

definition weightedOverall :: "int \<Rightarrow> int \<Rightarrow> int \<Rightarrow> int \<Rightarrow> int" where
  "weightedOverall sd sg sl sc =
     mathRound
       (doubleAdd
          (doubleAdd
             (doubleAdd (doubleMul (doubleOfInt sd) lit_0_34) (doubleMul (doubleOfInt sg) lit_0_3))
             (doubleMul (doubleOfInt sl) lit_0_2))
          (doubleMul (doubleOfInt sc) lit_0_16))"

definition evaluateSchedule :: "session list \<Rightarrow> schedule_score" where
  "evaluateSchedule sessions =
     (let st = foldl evalSession \<lparr>occupied = (\<lambda>d. {}), lateSessions = {}\<rparr> sessions;
          days = foldl (evalDay (occupied st)) (0, 0) DAYS;
          ad = fst days;
          gs = snd days;
          late = int (card (lateSessions st));
          cc = countSessionConflicts sessions;
          sd = max 0 (100 - max 0 (ad - 1) * 18);
          sg = max 0 (100 - gs * 10);
          sl = max 0 (100 - late * 24);
          sc = max 0 (100 - cc * 40)
      in \<lparr>activeDays = ad, gapSlots = gs, after4Sessions = late, conflictCount = cc,
          scoreDays = sd, scoreGaps = sg, scoreLate = sl, scoreConflict = sc,
          overall = weightedOverall sd sg sl sc\<rparr>)"

definition damageOf :: "schedule_score \<Rightarrow> int" where
  "damageOf score =
     conflictCount score * 1200 + gapSlots score * 18 + after4Sessions score * 28
       + activeDays score * 4"


section \<open>Track merger of the React application\<close>

text \<open>
  Upper-casing is modelled for the letters whose upper-case form is a Latin-1 character;
  the three letters whose upper-case form lies outside (sharp s, micro sign and y with
  diaeresis) do not occur in group names and are left unchanged.
\<close>

definition isLowerChar :: "char \<Rightarrow> bool" where
  "isLowerChar c =
     (let n = (of_char c :: nat)
      in (97 \<le> n \<and> n \<le> 122) \<or> (224 \<le> n \<and> n \<le> 254 \<and> n \<noteq> 247))"

definition toUpperChar :: "char \<Rightarrow> char" where
  "toUpperChar c =
     (if isLowerChar c
      then (case c of Char b0 b1 b2 b3 b4 b5 b6 b7 \<Rightarrow> Char b0 b1 b2 b3 b4 False b6 b7)
      else c)"

definition toUpperCase :: "string \<Rightarrow> string" where
  "toUpperCase s = map toUpperChar s"

definition isAsciiLetter :: "char \<Rightarrow> bool" where
  \<comment> \<open>the class \<^verbatim>\<open>[A-Za-z]\<close>\<close>
  "isAsciiLetter c =
     (let n = (of_char c :: nat) in (65 \<le> n \<and> n \<le> 90) \<or> (97 \<le> n \<and> n \<le> 122))"

definition isDigit :: "char \<Rightarrow> bool" where
  \<comment> \<open>the class \<^verbatim>\<open>\d\<close>\<close>
  "isDigit c = (let n = (of_char c :: nat) in 48 \<le> n \<and> n \<le> 57)"

text \<open>A number inside a template literal: its decimal digits, after a minus sign if negative.\<close>

definition digitChar :: "nat \<Rightarrow> char" where
  "digitChar d = ''0123456789'' ! d"

function natToString :: "nat \<Rightarrow> string" where
  "natToString n = (if n < 10 then [digitChar n] else natToString (n div 10) @ [digitChar (n mod 10)])"
  by pat_completeness auto
termination
  by (relation "measure id") auto

declare natToString.simps [simp del]

definition numberToString :: "int \<Rightarrow> string" where
  "numberToString i = (if i < 0 then CHR ''-'' # natToString (nat (- i)) else natToString (nat i))"

text \<open>
  The number of a group name is \<^verbatim>\<open>Number\<close> of a string of digits, and the merger adds and
  subtracts one: these numbers are doubles whose value is an integer not below \<open>-1\<close>, or
  \<^verbatim>\<open>Infinity\<close>. \<open>toDouble\<close> is the double nearest to an integer, ties to even, and
  \<^verbatim>\<open>Infinity\<close> from \<open>2\<^sup>1\<^sup>0\<^sup>2\<^sup>4\<close> on; it is how the hosts read a string of digits of any
  length.
\<close>

datatype jsnum = Num int | Infinite

definition toDouble :: "int \<Rightarrow> jsnum" where
  "toDouble k =
     (case doubleOfInt k of (m, e) \<Rightarrow>
        (let v = m * 2 ^ nat e in if 2 ^ 1024 \<le> v then Infinite else Num v))"

definition isEvenNumber :: "jsnum \<Rightarrow> bool" where
  \<comment> \<open>\<^verbatim>\<open>n % 2 === 0\<close>; \<^verbatim>\<open>Infinity % 2\<close> is \<^verbatim>\<open>NaN\<close>\<close>
  "isEvenNumber n = (case n of Num i \<Rightarrow> i mod 2 = 0 | Infinite \<Rightarrow> False)"

definition addNumber :: "jsnum \<Rightarrow> int \<Rightarrow> jsnum" where
  \<comment> \<open>\<^verbatim>\<open>n + d\<close> for an integer \<open>d\<close>: the exact sum, rounded\<close>
  "addNumber n d = (case n of Num i \<Rightarrow> toDouble (i + d) | Infinite \<Rightarrow> Infinite)"

definition numberLe :: "jsnum \<Rightarrow> jsnum \<Rightarrow> bool" where
  \<comment> \<open>the comparator \<^verbatim>\<open>(a, b) => a - b\<close> puts \<open>a\<close> not after \<open>b\<close>\<close>
  "numberLe a b =
     (case b of
        Infinite \<Rightarrow> True
      | Num j \<Rightarrow> (case a of Infinite \<Rightarrow> False | Num i \<Rightarrow> i \<le> j))"

text \<open>
  A number inside a template literal is printed with the fewest digits that read back as
  the same double; of two such texts the hosts take the one nearest to the value, and of
  two equally near ones the one with an even last digit. A text of more than 21 digits is
  printed with an exponent. \<open>shortestFrom v j\<close> looks for a multiple of \<open>10\<^sup>j\<close>, then of
  \<open>10\<^sup>j\<^sup>-\<^sup>1\<close> and so on, that reads back as \<open>v\<close>.
\<close>

fun shortestFrom :: "int \<Rightarrow> nat \<Rightarrow> int" where
  "shortestFrom v 0 = v"
| "shortestFrom v (Suc j) =
     (let u = 10 ^ Suc j; lower = (v div u) * u; upper = lower + u;
          okLower = (0 < lower \<and> toDouble lower = Num v);
          okUpper = (toDouble upper = Num v)
      in if okLower \<and> okUpper
         then (if v - lower < upper - v then lower
               else if upper - v < v - lower then upper
               else if even (lower div u) then lower else upper)
         else if okLower then lower
         else if okUpper then upper
         else shortestFrom v j)"

function intDigits :: "int \<Rightarrow> string" where
  \<comment> \<open>the decimal digits of a non-negative integer\<close>
  "intDigits n =
     (if n < 10 then [digitChar (nat n)] else intDigits (n div 10) @ [digitChar (nat (n mod 10))])"
  by pat_completeness auto
termination
  by (relation "measure nat") auto

declare intDigits.simps [simp del]

definition dropTrailingZeros :: "string \<Rightarrow> string" where
  "dropTrailingZeros ds = rev (dropWhile (\<lambda>c. c = CHR ''0'') (rev ds))"

definition positiveNumberToText :: "int \<Rightarrow> string" where
  "positiveNumberToText v =
     (let ds = intDigits (shortestFrom v (length (intDigits v)));
          n = length ds
      in if n \<le> 21 then ds
         else (let sig = dropTrailingZeros ds;
                   ex = ''e+'' @ natToString (n - 1)
               in if length sig = 1 then sig @ ex else hd sig # ''.'' @ tl sig @ ex))"

definition numberToText :: "jsnum \<Rightarrow> string" where
  "numberToText n =
     (case n of
        Infinite \<Rightarrow> ''Infinity''
      | Num i \<Rightarrow>
          if i < 0 then CHR ''-'' # positiveNumberToText (- i) else positiveNumberToText i)"

record parsed_name =
  raw :: string
  upper :: string
  prefixText :: string  \<comment> \<open>the field \<^verbatim>\<open>prefix\<close> of the source\<close>
  number :: jsnum

text \<open>
  The pattern \<^verbatim>\<open>/^([A-Za-z]+)\s*(\d+)$/\<close>: letters, white space and digits are disjoint
  classes, so the match is the one found by reading the letters, then the white space,
  then asking that digits, and nothing else, remain. \<^verbatim>\<open>Number\<close> of the digits is the
  double nearest to the integer that they denote.
\<close>

definition parseSectionGroupName :: "string option \<Rightarrow> parsed_name option" where
  "parseSectionGroupName groupName =
     (let v = trim (orEmpty groupName);
          letters = takeWhile isAsciiLetter v;
          digits = dropWhile isWhiteSpace (dropWhile isAsciiLetter v)
      in if letters \<noteq> [] \<and> digits \<noteq> [] \<and> list_all isDigit digits
         then (case digitsValue 0 digits of
                 None \<Rightarrow> None
               | Some n \<Rightarrow>
                   Some \<lparr>raw = v, upper = toUpperCase v, prefixText = toUpperCase letters,
                         number = toDouble n\<rparr>)
         else None)"

definition extractSectionPrefix :: "string option \<Rightarrow> string" where
  \<comment> \<open>the pattern \<^verbatim>\<open>/^([A-Za-z]+)/\<close>\<close>
  "extractSectionPrefix groupName = toUpperCase (takeWhile isAsciiLetter (trim (orEmpty groupName)))"

definition pairStartOf :: "jsnum \<Rightarrow> jsnum" where
  \<comment> \<open>\<^verbatim>\<open>n % 2 === 0 ? n - 1 : n\<close>\<close>
  "pairStartOf n = (if isEvenNumber n then addNumber n (- 1) else n)"

definition pairedSectionGroupNames :: "string option \<Rightarrow> string list" where
  "pairedSectionGroupNames groupName =
     (case parseSectionGroupName groupName of
        None \<Rightarrow>
          (let single = toUpperCase (trim (orEmpty groupName))
           in if single \<noteq> [] then [single] else [])
      | Some parsed \<Rightarrow>
          [prefixText parsed @ numberToText (pairStartOf (number parsed)),
           prefixText parsed @ numberToText (addNumber (pairStartOf (number parsed)) 1)])"

fun joinWith :: "string \<Rightarrow> string list \<Rightarrow> string" where
  "joinWith sep [] = []"
| "joinWith sep [x] = x"
| "joinWith sep (x # y # ys) = x @ sep @ joinWith sep (y # ys)"

definition pairedSectionLabel :: "string option \<Rightarrow> string" where
  "pairedSectionLabel groupName =
     (let pair = pairedSectionGroupNames groupName
      in if pair = [] then trim (orEmpty groupName) else joinWith ''/'' pair)"

text \<open>
  A \<^verbatim>\<open>Map\<close> keeps its keys in insertion order; setting a key that is present replaces the
  value in place. It is an association list with that update.
\<close>

fun mapSet :: "'k \<Rightarrow> 'v \<Rightarrow> ('k \<times> 'v) list \<Rightarrow> ('k \<times> 'v) list" where
  "mapSet k v [] = [(k, v)]"
| "mapSet k v ((k', v') # m) = (if k = k' then (k, v) # m else (k', v') # mapSet k v m)"

definition mapGet :: "('k \<times> 'v) list \<Rightarrow> 'k \<Rightarrow> 'v option" where
  "mapGet m k = map_of m k"

record track_option =
  trackId :: string  \<comment> \<open>the field \<^verbatim>\<open>id\<close>\<close>
  trackLabel :: string  \<comment> \<open>the field \<^verbatim>\<open>label\<close>\<close>
  trackPrefix :: string  \<comment> \<open>the field \<^verbatim>\<open>prefix\<close>\<close>
  sections :: "string list"
  trackIsModified :: bool  \<comment> \<open>the field \<^verbatim>\<open>isModified\<close>\<close>
  mode :: string
  baseTrackId :: "string option"

text \<open>
  \<^verbatim>\<open>Array.prototype.sort\<close> with a comparator is a stable sort. The comparator is given as
  the relation "compares less or equal"; for the labels it is
  \<^verbatim>\<open>localeCompare(_, undefined, { numeric: true })\<close>, which the host provides and which is a
  parameter here.
\<close>

fun insertBy :: "('a \<Rightarrow> 'a \<Rightarrow> bool) \<Rightarrow> 'a \<Rightarrow> 'a list \<Rightarrow> 'a list" where
  "insertBy le x [] = [x]"
| "insertBy le x (y # ys) = (if le x y then x # y # ys else y # insertBy le x ys)"

definition sortBy :: "('a \<Rightarrow> 'a \<Rightarrow> bool) \<Rightarrow> 'a list \<Rightarrow> 'a list" where
  "sortBy le xs = foldr (insertBy le) xs []"

definition addParsed ::
  "(string \<times> (jsnum \<times> string) list) list \<Rightarrow> parsed_name
     \<Rightarrow> (string \<times> (jsnum \<times> string) list) list" where
  "addParsed byPrefix item =
     (let inner = (case mapGet byPrefix (prefixText item) of None \<Rightarrow> [] | Some m \<Rightarrow> m)
      in mapSet (prefixText item) (mapSet (number item) (raw item) inner) byPrefix)"

definition regularTrack :: "string \<Rightarrow> string \<Rightarrow> string list \<Rightarrow> track_option" where
  "regularTrack lbl pre secs =
     \<lparr>trackId = ''regular-'' @ lbl, trackLabel = lbl, trackPrefix = pre, sections = secs,
      trackIsModified = False, mode = ''regular'', baseTrackId = None\<rparr>"

fun pairTracks ::
  "string \<Rightarrow> (jsnum \<times> string) list \<Rightarrow> jsnum list \<Rightarrow> jsnum list \<Rightarrow> track_option list" where
  "pairTracks pre byNumber seenStarts [] = []"
| "pairTracks pre byNumber seenStarts (n # ns) =
     (let pairStart = pairStartOf n in
      if pairStart \<in> set seenStarts then pairTracks pre byNumber seenStarts ns
      else (let secs = List.map_filter id
                         [mapGet byNumber pairStart, mapGet byNumber (addNumber pairStart 1)]
            in if secs = [] then pairTracks pre byNumber (pairStart # seenStarts) ns
               else regularTrack
                      (if length secs = 2
                       then pre @ numberToText pairStart @ ''/'' @ pre
                              @ numberToText (addNumber pairStart 1)
                       else hd secs)
                      pre secs
                    # pairTracks pre byNumber (pairStart # seenStarts) ns))"

definition prefixTracks :: "string \<times> (jsnum \<times> string) list \<Rightarrow> track_option list" where
  "prefixTracks entry =
     pairTracks (fst entry) (snd entry) [] (sortBy numberLe (map fst (snd entry)))"

definition singleTracks :: "string list \<Rightarrow> track_option list" where
  "singleTracks unmatched =
     concat (map (\<lambda>name.
        (let pre = extractSectionPrefix (Some name)
         in if pre = [] then [] else [regularTrack name pre [name]])) unmatched)"

definition buildMergedTrackOptions ::
  "(string \<Rightarrow> string \<Rightarrow> bool) \<Rightarrow> string list \<Rightarrow> track_option list" where
  "buildMergedTrackOptions localeLe subgroupNames =
     (let parsed = List.map_filter (\<lambda>n. parseSectionGroupName (Some n)) subgroupNames;
          byPrefix = foldl addParsed [] parsed;
          unmatched = filter (\<lambda>n. parseSectionGroupName (Some n) = None) subgroupNames;
          options = concat (map prefixTracks byPrefix) @ singleTracks (sortBy localeLe unmatched)
      in sortBy (\<lambda>a b. localeLe (trackLabel a) (trackLabel b)) options)"

text \<open>A comparator for examples: the order of the code units.\<close>

fun codeUnitLe :: "string \<Rightarrow> string \<Rightarrow> bool" where
  "codeUnitLe [] ys = True"
| "codeUnitLe (x # xs) [] = False"
| "codeUnitLe (x # xs) (y # ys) =
     ((of_char x :: nat) < of_char y \<or> (x = y \<and> codeUnitLe xs ys))"


section \<open>Courses and registrations\<close>

record course =
  courseKey :: string  \<comment> \<open>the field \<^verbatim>\<open>id\<close>\<close>
  courseTitle :: string  \<comment> \<open>the field \<^verbatim>\<open>name\<close>\<close>
  courseSessions :: "session list"  \<comment> \<open>\<^verbatim>\<open>sessions\<close> (React), \<^verbatim>\<open>groups\<close> (plain JavaScript)\<close>

record registration =
  regCourseId :: string  \<comment> \<open>the field \<^verbatim>\<open>courseId\<close>\<close>
  selectedGroupIds :: "int list"

text \<open>
  \<^verbatim>\<open>new Map(courses.map((c) => [c.id, c]))\<close>: of two courses with one id the later one
  stays.
\<close>

definition coursesById :: "course list \<Rightarrow> string \<Rightarrow> course option" where
  "coursesById courses = map_of (rev (map (\<lambda>c. (courseKey c, c)) courses))"

definition isSubgroup :: "string option \<Rightarrow> bool" where
  "isSubgroup ty = includesStr (normalizeType ty) ''sub''"

definition isLecture :: "string option \<Rightarrow> bool" where
  "isLecture ty = (\<not> isSubgroup ty)"

definition flattenSessions :: "(string \<Rightarrow> course option) \<Rightarrow> registration list \<Rightarrow> session list" where
  "flattenSessions byId registrations =
     concat (map (\<lambda>reg.
        (case byId (regCourseId reg) of
           None \<Rightarrow> []
         | Some c \<Rightarrow>
             map (\<lambda>s. s\<lparr>courseId := Some (courseKey c), courseName := Some (courseTitle c),
                        source := Some ''registered''\<rparr>)
               (filter (\<lambda>s. GroupId s \<in> set (selectedGroupIds reg)) (courseSessions c))))
        registrations)"

record group_info =
  groupIdOf :: int  \<comment> \<open>the field \<^verbatim>\<open>id\<close>\<close>
  groupNameOf :: string  \<comment> \<open>the field \<^verbatim>\<open>name\<close>\<close>
  groupType :: string  \<comment> \<open>the field \<^verbatim>\<open>type\<close>\<close>
  groupSessions :: "session list"  \<comment> \<open>the field \<^verbatim>\<open>sessions\<close>\<close>

definition addToGroups :: "(int \<times> group_info) list \<Rightarrow> session \<Rightarrow> (int \<times> group_info) list" where
  "addToGroups m s =
     (let g = (case mapGet m (GroupId s) of
                 Some g \<Rightarrow> g
               | None \<Rightarrow>
                   \<lparr>groupIdOf = GroupId s,
                    groupNameOf =
                      (case orElse (GroupName s) None of
                         Some n \<Rightarrow> n
                       | None \<Rightarrow> ''Group '' @ numberToString (GroupId s)),
                    groupType = (case orElse (Type s) None of Some t \<Rightarrow> t | None \<Rightarrow> ''Group''),
                    groupSessions = []\<rparr>)
      in mapSet (GroupId s) (g\<lparr>groupSessions := groupSessions g @ [s]\<rparr>) m)"

definition collectGroups :: "course \<Rightarrow> group_info list" where
  "collectGroups c = map snd (foldl addToGroups [] (courseSessions c))"


section \<open>Registration in the React application\<close>

record notice =
  noticeType :: string
  noticeTitle :: string
  noticeMessage :: string

datatype register_result = NotAttempted | ValidationError | ConflictError | Saved

record app_state =
  registrations :: "registration list"
  currentNotice :: "notice option"

definition showNotice :: "string \<Rightarrow> string \<Rightarrow> string \<Rightarrow> app_state \<Rightarrow> app_state" where
  "showNotice ty title msg st =
     st\<lparr>currentNotice := Some \<lparr>noticeType = ty, noticeTitle = title, noticeMessage = msg\<rparr>\<rparr>"

definition upsert :: "registration \<Rightarrow> registration list \<Rightarrow> registration list" where
  \<comment> \<open>replace the first registration of the course, or append\<close>
  "upsert payload prev =
     (let idx = findIndex (\<lambda>r. regCourseId r = regCourseId payload) prev
      in if idx = -1 then prev @ [payload] else prev[nat idx := payload])"

text \<open>
  A pick is the number that \<^verbatim>\<open>Number\<close> makes of the chosen value, \<open>None\<close> when nothing is
  chosen or the value is not a number; the number 0 is falsy as well.
\<close>

definition truthyId :: "int option \<Rightarrow> bool" where
  "truthyId p = (case p of None \<Rightarrow> False | Some n \<Rightarrow> n \<noteq> 0)"

definition printText :: "string option \<Rightarrow> string" where
  \<comment> \<open>a text inside a template literal; a missing one prints as \<^verbatim>\<open>undefined\<close>\<close>
  "printText t = (case t of None \<Rightarrow> ''undefined'' | Some x \<Rightarrow> x)"

definition conflictMessage :: "course \<Rightarrow> conflict_info \<Rightarrow> string" where
  "conflictMessage c conflict =
     ''Course: '' @ courseTitle c @ '' | Day: '' @ day conflict @ '' | Time: ''
       @ (case overlap conflict of
            None \<Rightarrow> ''Slot overlap''
          | Some t \<Rightarrow> if t = [] then ''Slot overlap'' else t)
       @ '' | Conflicting group: '' @ printText (GroupName (existing conflict))
       @ '' ('' @ printText (courseName (existing conflict)) @ '')''"

definition registerSelection ::
  "course list \<Rightarrow> course option \<Rightarrow> int option \<Rightarrow> int option \<Rightarrow> app_state
     \<Rightarrow> app_state \<times> register_result" where
  "registerSelection courses selectedCourse lecturePick subPick st =
     (case selectedCourse of
        None \<Rightarrow> (st, NotAttempted)
      | Some c \<Rightarrow>
          (let hasSubgroups = (filter (\<lambda>g. isSubgroup (Some (groupType g))) (collectGroups c) \<noteq> [])
           in if \<not> truthyId lecturePick
              then (showNotice ''error'' ''Registration Error'' ''Select one lecture group first.'' st,
                    ValidationError)
              else if hasSubgroups \<and> \<not> truthyId subPick
              then (showNotice ''error'' ''Registration Error''
                      ''This course requires selecting one section/subgroup.'' st,
                    ValidationError)
              else
                (let chosenIds = the lecturePick # (if truthyId subPick then [the subPick] else []);
                     selectedEntries =
                       List.map_filter (\<lambda>i. List.find (\<lambda>s. GroupId s = i) (courseSessions c)) chosenIds;
                     lectureCount = length (filter (\<lambda>s. isLecture (Type s)) selectedEntries);
                     subCount = length (filter (\<lambda>s. isSubgroup (Type s)) selectedEntries)
                 in if lectureCount > 1 \<or> subCount > 1
                    then (showNotice ''error'' ''Registration Error''
                            ''You can only register one lecture and one lab per course.'' st,
                          ValidationError)
                    else
                      (let candidate =
                             map (\<lambda>s. s\<lparr>courseName := Some (courseTitle c)\<rparr>)
                               (filter (\<lambda>s. GroupId s \<in> set chosenIds) (courseSessions c));
                           others = filter (\<lambda>r. regCourseId r \<noteq> courseKey c) (registrations st);
                           existingSessions = flattenSessions (coursesById courses) others
                       in case findConflict candidate existingSessions of
                            Some conflict \<Rightarrow>
                              (showNotice ''error'' ''Conflict Detected'' (conflictMessage c conflict) st,
                               ConflictError)
                          | None \<Rightarrow>
                              (showNotice ''success'' ''Saved''
                                 (courseTitle c @ '' registration updated successfully.'')
                                 (st\<lparr>registrations :=
                                       upsert \<lparr>regCourseId = courseKey c, selectedGroupIds = chosenIds\<rparr>
                                         (registrations st)\<rparr>),
                               Saved)))))"


section \<open>Registration in the plain JavaScript application\<close>

definition isSubgroupType :: "string option \<Rightarrow> bool" where
  "isSubgroupType typeText =
     (let v = normalizeType typeText
      in v = ''subgroup'' \<or> includesStr v ''sub'' \<or> includesStr v ''lab''
         \<or> includesStr v ''practical'')"

definition isLectureType :: "string option \<Rightarrow> bool" where
  "isLectureType typeText = (\<not> isSubgroupType typeText)"

datatype validation = Accepted | TooManyGroups | NoLecture

definition validateRegistrationSelection :: "course \<Rightarrow> int list \<Rightarrow> validation" where
  "validateRegistrationSelection c selectedIds =
     (let selectedGroups =
            List.map_filter (\<lambda>i. List.find (\<lambda>g. GroupId g = i) (courseSessions c))
              (rev (remdups (rev selectedIds)));
          lectureCount = length (filter (\<lambda>g. isLectureType (Type g)) selectedGroups);
          subgroupCount = length (filter (\<lambda>g. isSubgroupType (Type g)) selectedGroups)
      in if lectureCount > 1 \<or> subgroupCount > 1 then TooManyGroups
         else if lectureCount = 0 then NoLecture
         else Accepted)"

definition collectRegisteredSessions ::
  "(string \<Rightarrow> course option) \<Rightarrow> registration list \<Rightarrow> session list" where
  "collectRegisteredSessions byId regs =
     concat (map (\<lambda>reg.
        (case byId (regCourseId reg) of
           None \<Rightarrow> []
         | Some c \<Rightarrow>
             map (\<lambda>g. g\<lparr>courseId := Some (courseKey c), courseName := Some (courseTitle c)\<rparr>)
               (filter (\<lambda>g. GroupId g \<in> set (selectedGroupIds reg)) (courseSessions c))))
        regs)"

definition upsertRegistration :: "string \<Rightarrow> int list \<Rightarrow> registration list \<Rightarrow> registration list" where
  "upsertRegistration cid ids regs =
     (let existingIndex = findIndex (\<lambda>r. regCourseId r = cid) regs
      in if existingIndex \<ge> 0
         then regs[nat existingIndex := \<lparr>regCourseId = cid, selectedGroupIds = ids\<rparr>]
         else regs @ [\<lparr>regCourseId = cid, selectedGroupIds = ids\<rparr>])"

text \<open>
  The page state of the plain application: the loaded courses, the registrations, the
  selected course, and the alerts shown so far. The checked radio inputs give the lecture
  and lab values, \<open>None\<close> when none is checked or the value is empty.
\<close>

record page_state =
  pageCourses :: "course list"
  pageRegistrations :: "registration list"
  selectedCourseId :: "string option"
  alerts :: "string list"

datatype submit_result = Ignored | Invalid validation | Conflicting first_conflict | Registered

definition conflictAlert :: "course \<Rightarrow> first_conflict \<Rightarrow> string" where
  "conflictAlert c conflict =
     (let dayText =
            (case orElse (DayWeekName (candidate conflict)) None of
               Some d \<Rightarrow> d
             | None \<Rightarrow>
                 (case DayWeek (candidate conflict) of
                    None \<Rightarrow> ''undefined''
                  | Some n \<Rightarrow> numberToString n));
          conflictingGroup =
            (case orElse (GroupName (existingSession conflict)) None of
               Some g \<Rightarrow> g
             | None \<Rightarrow> numberToString (GroupId (existingSession conflict)));
          overlapText =
            (if formatSlotRange (Some (overlapSlotRange conflict)) \<noteq> []
             then formatSlotRange (Some (overlapSlotRange conflict))
             else printText (Time (candidate conflict)))
      in ''Conflict detected'' @ [CHR 0x0A] @ ''Course: '' @ courseTitle c @ [CHR 0x0A]
           @ ''Day: '' @ dayText @ [CHR 0x0A] @ ''Time: '' @ overlapText @ [CHR 0x0A]
           @ ''Conflicting group: '' @ conflictingGroup
           @ '' ('' @ printText (courseName (existingSession conflict)) @ '')'')"

definition handleRegistrationSubmit ::
  "int option \<Rightarrow> int option \<Rightarrow> page_state \<Rightarrow> page_state \<times> submit_result" where
  "handleRegistrationSubmit lectureValue labValue st =
     (case selectedCourseId st of
        None \<Rightarrow> (st, Ignored)
      | Some cid \<Rightarrow>
          if cid = [] then (st, Ignored)
          else
          (case coursesById (pageCourses st) cid of
             None \<Rightarrow> (st, Ignored)
           | Some c \<Rightarrow>
               (case lectureValue of
                  None \<Rightarrow> (st\<lparr>alerts := alerts st @ [''Select one lecture group.'']\<rparr>, Invalid NoLecture)
                | Some lec \<Rightarrow>
                    (let selectedIds = lec # (case labValue of None \<Rightarrow> [] | Some lab \<Rightarrow> [lab]) in
                     case validateRegistrationSelection c selectedIds of
                       TooManyGroups \<Rightarrow>
                         (st\<lparr>alerts := alerts st
                               @ [''You can only register one lecture and one lab per course.'']\<rparr>,
                          Invalid TooManyGroups)
                     | NoLecture \<Rightarrow>
                         (st\<lparr>alerts := alerts st @ [''Select one lecture group.'']\<rparr>, Invalid NoLecture)
                     | Accepted \<Rightarrow>
                         (let candidateSessions =
                                map (\<lambda>g. g\<lparr>courseName := Some (courseTitle c)\<rparr>)
                                  (filter (\<lambda>g. GroupId g \<in> set selectedIds) (courseSessions c));
                              otherRegistrations =
                                filter (\<lambda>r. regCourseId r \<noteq> cid) (pageRegistrations st);
                              existingSessions =
                                collectRegisteredSessions (coursesById (pageCourses st)) otherRegistrations
                          in case findFirstConflict candidateSessions existingSessions of
                               Some conflict \<Rightarrow>
                                 (st\<lparr>alerts := alerts st @ [conflictAlert c conflict]\<rparr>,
                                  Conflicting conflict)
                             | None \<Rightarrow>
                                 (st\<lparr>pageRegistrations :=
                                       upsertRegistration cid selectedIds (pageRegistrations st)\<rparr>,
                                  Registered))))))"


section \<open>The displayed session table of the React application\<close>

definition PRESET_C1_MODIFIED_ID :: string where
  "PRESET_C1_MODIFIED_ID = ''preset-c1-modified''"

definition FORCED_STAFF_NAME :: string where
  "FORCED_STAFF_NAME = ''Islam Bendary''"

definition FORCED_STAFF_GROUPS :: "string list" where
  "FORCED_STAFF_GROUPS =
     [''C1'', ''C2'', ''B5'', ''B6'', ''B1'', ''B2'', ''A5'', ''A6'', ''C3'', ''C4'', ''B7'', ''B8'']"

text \<open>
  The key of a session inside a track is the text
  \<^verbatim>\<open>`${courseId}|${GroupId}|${DayWeek}|${IntervalId || ""}|${NameEn || ""}`\<close>, and the key that
  removes duplicates from the table is
  \<^verbatim>\<open>`${courseId || courseName}|${GroupId}|${DayWeek}|${Time}`\<close>. The model keeps the
  components of each as a tuple. An override map is an object indexed by the first key.
\<close>

type_synonym session_key = "string \<times> int \<times> int option \<times> string \<times> string"

type_synonym table_key = "string option \<times> int \<times> int option \<times> string option"

record override =
  overrideStaff :: "string option"
  overrideTime :: "string option"
  overrideDayWeekName :: "string option"
  overrideDayWeek :: "int option"

definition sessionKeyForTrack :: "string \<Rightarrow> session \<Rightarrow> session_key" where
  "sessionKeyForTrack cid s =
     (cid, GroupId s, DayWeek s, orEmpty (IntervalId s), orEmpty (NameEn s))"

definition applyStaffPreset :: "session \<Rightarrow> session" where
  "applyStaffPreset s =
     (if toUpperCase (trim (orEmpty (GroupName s))) \<in> set FORCED_STAFF_GROUPS
      then s\<lparr>Staff := Some FORCED_STAFF_NAME\<rparr>
      else s)"

definition orOption :: "'a option \<Rightarrow> 'a option \<Rightarrow> 'a option" where
  \<comment> \<open>\<^verbatim>\<open>a ?? b\<close>\<close>
  "orOption a b = (case a of None \<Rightarrow> b | Some x \<Rightarrow> Some x)"

definition isPresetC1ModifiedTrack :: "track_option option \<Rightarrow> bool" where
  "isPresetC1ModifiedTrack track =
     (case track of
        None \<Rightarrow> False
      | Some t \<Rightarrow> trackId t = PRESET_C1_MODIFIED_ID \<or> baseTrackId t = Some PRESET_C1_MODIFIED_ID)"

record adjusted =
  adjSession :: session  \<comment> \<open>the field \<^verbatim>\<open>session\<close>\<close>
  adjIsModified :: bool
  adjModifiedReason :: string
  adjKey :: session_key

definition applyTrackSpecificAdjustments ::
  "session \<Rightarrow> string \<Rightarrow> track_option option \<Rightarrow> (session_key \<times> override) list \<Rightarrow> adjusted" where
  "applyTrackSpecificAdjustments rawSession cid track overrideMap =
     (let s0 = applyStaffPreset rawSession;
          groupUpper = toUpperCase (trim (orEmpty (GroupName s0)));
          c1 = (isPresetC1ModifiedTrack track \<and> toLowerCase cid = ''operative''
                \<and> groupUpper \<in> set (pairedSectionGroupNames (Some ''C1''))
                \<and> includesStr (orEmpty (Time s0)) ''12:30'');
          s1 = (if c1 then s0\<lparr>Time := Some ''08:45:00 - 10:15:00''\<rparr> else s0);
          key = sessionKeyForTrack cid rawSession
      in case mapGet overrideMap key of
           None \<Rightarrow>
             \<lparr>adjSession = s1, adjIsModified = c1,
              adjModifiedReason = (if c1 then ''Time changed for C1 Modified'' else []),
              adjKey = key\<rparr>
         | Some ov \<Rightarrow>
             \<lparr>adjSession =
                s1\<lparr>Staff := orOption (overrideStaff ov) (Staff s1),
                   Time := orOption (overrideTime ov) (Time s1),
                   DayWeekName := orOption (overrideDayWeekName ov) (DayWeekName s1),
                   DayWeek := orOption (overrideDayWeek ov) (DayWeek s1)\<rparr>,
              adjIsModified = True, adjModifiedReason = ''Manual modify'', adjKey = key\<rparr>)"

definition previewSessions ::
  "course list \<Rightarrow> (string \<Rightarrow> (bool \<times> bool) option) \<Rightarrow> session list" where
  \<comment> \<open>the flags of a course are \<^verbatim>\<open>(lectures, subgroups)\<close>\<close>
  "previewSessions courses preview =
     concat (map (\<lambda>c.
        (case preview (courseKey c) of
           None \<Rightarrow> []
         | Some flags \<Rightarrow>
             concat (map (\<lambda>s.
                (if fst flags \<and> isLecture (Type s)
                 then [s\<lparr>courseId := Some (courseKey c), courseName := Some (courseTitle c),
                         source := Some ''preview''\<rparr>]
                 else [])
                @ (if snd flags \<and> isSubgroup (Type s)
                   then [s\<lparr>courseId := Some (courseKey c), courseName := Some (courseTitle c),
                           source := Some ''preview''\<rparr>]
                   else []))
               (courseSessions c)))) courses)"

record table_inputs =
  registeredSessions :: "session list"
  globalTrackSessions :: "session list"
  shownPreviewSessions :: "session list"  \<comment> \<open>\<^verbatim>\<open>previewSessions\<close>\<close>
  globalOverridesMap :: "(session_key \<times> override) list"
  activeTrackOption :: "track_option option"
  activeTrackOverrideMap :: "(session_key \<times> override) list"

definition shouldSyncWithModified :: "table_inputs \<Rightarrow> bool" where
  "shouldSyncWithModified inp =
     (case activeTrackOption inp of
        None \<Rightarrow> False
      | Some t \<Rightarrow> trackIsModified t \<or> activeTrackOverrideMap inp \<noteq> [])"

definition tableRow :: "table_inputs \<Rightarrow> session \<Rightarrow> session" where
  "tableRow inp s =
     (let n0 = applyStaffPreset s;
          notTrack = (source s \<noteq> Some ''track'');
          globalOverride =
            (if notTrack
             then mapGet (globalOverridesMap inp) (sessionKeyForTrack (orEmpty (courseId n0)) n0)
             else None);
          n1 = (case globalOverride of
                  None \<Rightarrow> n0
                | Some ov \<Rightarrow>
                    n0\<lparr>Staff := orOption (overrideStaff ov) (Staff n0),
                       Time := orOption (overrideTime ov) (Time n0)\<rparr>);
          m1 = (isModified s \<or> globalOverride \<noteq> None);
          r1 = (if globalOverride \<noteq> None then ''Synced from modified track''
                else modifiedReason s);
          adj = applyTrackSpecificAdjustments n1 (orEmpty (courseId n1)) (activeTrackOption inp)
                  (activeTrackOverrideMap inp);
          sync = (shouldSyncWithModified inp \<and> notTrack);
          n2 = (if sync then adjSession adj else n1);
          m2 = (if sync \<and> adjIsModified adj then True else m1);
          r2 = (if sync \<and> adjIsModified adj then adjModifiedReason adj else r1)
      in n2\<lparr>isModified := m2, modifiedReason := r2\<rparr>)"

definition tableKey :: "session \<Rightarrow> table_key" where
  "tableKey s = (orElse (courseId s) (courseName s), GroupId s, DayWeek s, Time s)"

fun dedupeByKey :: "table_key list \<Rightarrow> session list \<Rightarrow> session list" where
  "dedupeByKey seen [] = []"
| "dedupeByKey seen (s # ss) =
     (if tableKey s \<in> set seen then dedupeByKey seen ss
      else s # dedupeByKey (tableKey s # seen) ss)"

definition tableSessions :: "table_inputs \<Rightarrow> session list" where
  "tableSessions inp =
     dedupeByKey []
       (map (tableRow inp)
          (registeredSessions inp @ globalTrackSessions inp @ shownPreviewSessions inp))"


section \<open>Low-damage planner of the React application\<close>

definition MAX_PLAN_SEARCH_LIMIT :: nat where
  "MAX_PLAN_SEARCH_LIMIT = 20000"

record combo =
  comboKey :: string  \<comment> \<open>the field \<^verbatim>\<open>key\<close>\<close>
  groupIds :: "int list"
  lectureId :: int
  sectionId :: "int option"
  comboLabel :: string  \<comment> \<open>the field \<^verbatim>\<open>label\<close>\<close>

record alternatives =
  altCourseId :: string  \<comment> \<open>the field \<^verbatim>\<open>courseId\<close>\<close>
  altCourseName :: string  \<comment> \<open>the field \<^verbatim>\<open>courseName\<close>\<close>
  currentKey :: string
  combos :: "combo list"
  hasSections :: bool

definition lecturesOf :: "course \<Rightarrow> group_info list" where
  "lecturesOf c = filter (\<lambda>g. isLecture (Some (groupType g))) (collectGroups c)"

definition subgroupsOf :: "course \<Rightarrow> group_info list" where
  "subgroupsOf c = filter (\<lambda>g. isSubgroup (Some (groupType g))) (collectGroups c)"

definition joinIds :: "int list \<Rightarrow> string" where
  \<comment> \<open>\<^verbatim>\<open>ids.join("-")\<close>\<close>
  "joinIds ids = joinWith ''-'' (map numberToString ids)"

definition combosOf :: "course \<Rightarrow> combo list" where
  "combosOf c =
     concat (map (\<lambda>lecture.
        (if subgroupsOf c = []
         then [\<lparr>comboKey = joinIds [groupIdOf lecture], groupIds = [groupIdOf lecture],
                 lectureId = groupIdOf lecture, sectionId = None,
                 comboLabel = groupNameOf lecture\<rparr>]
         else map (\<lambda>section.
                \<lparr>comboKey = joinIds [groupIdOf lecture, groupIdOf section],
                 groupIds = [groupIdOf lecture, groupIdOf section],
                 lectureId = groupIdOf lecture, sectionId = Some (groupIdOf section),
                 comboLabel = groupNameOf lecture @ '' + ''
                   @ pairedSectionLabel (Some (groupNameOf section))\<rparr>)
              (subgroupsOf c)))
       (lecturesOf c))"

text \<open>
  The current lecture and section ids are the first selected ids that name a lecture and a
  section group; an id that is missing or 0 is \<^verbatim>\<open>null\<close>, which \<^verbatim>\<open>join\<close> writes as the
  empty text.
\<close>

definition currentIdIn :: "group_info list \<Rightarrow> int list \<Rightarrow> int option" where
  "currentIdIn gs ids =
     (case List.find (\<lambda>i. \<exists>g\<in>set gs. groupIdOf g = i) ids of
        None \<Rightarrow> None
      | Some i \<Rightarrow> if i = 0 then None else Some i)"

definition currentKeyOf :: "course \<Rightarrow> registration \<Rightarrow> string" where
  "currentKeyOf c reg =
     joinWith ''-''
       ((case currentIdIn (lecturesOf c) (selectedGroupIds reg) of
           None \<Rightarrow> []
         | Some i \<Rightarrow> numberToString i)
        # (case currentIdIn (subgroupsOf c) (selectedGroupIds reg) of
             None \<Rightarrow> []
           | Some i \<Rightarrow> [numberToString i]))"

definition registeredCourseAlternatives :: "course list \<Rightarrow> registration list \<Rightarrow> alternatives list" where
  "registeredCourseAlternatives courses regs =
     concat (map (\<lambda>reg.
        (case coursesById courses (regCourseId reg) of
           None \<Rightarrow> []
         | Some c \<Rightarrow>
             if lecturesOf c = [] then []
             else [\<lparr>altCourseId = courseKey c, altCourseName = courseTitle c,
                    currentKey = currentKeyOf c reg, combos = combosOf c,
                    hasSections = (subgroupsOf c \<noteq> [])\<rparr>]))
       regs)"

record choice = combo +
  changeCost :: int

record plan_course = alternatives +
  allowChange :: bool
  choices :: "choice list"

record change =
  changeCourseId :: string  \<comment> \<open>the field \<^verbatim>\<open>courseId\<close>\<close>
  changeCourseName :: string  \<comment> \<open>the field \<^verbatim>\<open>courseName\<close>\<close>
  changeFrom :: string  \<comment> \<open>the field \<^verbatim>\<open>from\<close>\<close>
  changeTo :: string  \<comment> \<open>the field \<^verbatim>\<open>to\<close>\<close>

record plan =
  planId :: string  \<comment> \<open>the field \<^verbatim>\<open>id\<close>\<close>
  changes :: "change list"
  changeCount :: int
  nextRegistrations :: "registration list"
  score :: schedule_score
  damage :: int
  improves :: bool

record planner_request =
  plannerMaxChanges :: int
  plannerLocks :: "string \<Rightarrow> string option"
  plannerChangeFlags :: "string \<Rightarrow> bool option"

definition toPlanCourse :: "planner_request \<Rightarrow> alternatives \<Rightarrow> plan_course" where
  "toPlanCourse req item =
     (let lockKey = orEmpty (plannerLocks req (altCourseId item));
          lockMatch = List.find (\<lambda>c. comboKey c = lockKey) (combos item);
          filtered = (case lockMatch of None \<Rightarrow> combos item | Some c \<Rightarrow> [c])
      in alternatives.extend item
           \<lparr>allowChange = (plannerChangeFlags req (altCourseId item) \<noteq> Some False),
            choices =
              map (\<lambda>c. combo.extend c
                          \<lparr>changeCost = (if comboKey c = currentKey item then 0 else 1)\<rparr>)
                filtered\<rparr>)"

record planner_context =
  request :: planner_request
  currentRegistrations :: "registration list"  \<comment> \<open>\<^verbatim>\<open>registrations\<close>\<close>
  catalog :: "string \<Rightarrow> course option"  \<comment> \<open>\<^verbatim>\<open>coursesById\<close>\<close>
  coursesToPlan :: "plan_course list"
  currentDamageScore :: int

record search_state =
  selectedChoices :: "string \<Rightarrow> choice option"
  pool :: "plan list"
  explored :: nat

definition leafPlan :: "planner_context \<Rightarrow> search_state \<Rightarrow> plan" where
  "leafPlan ctx st =
     (let next =
            map (\<lambda>reg.
                   (case selectedChoices st (regCourseId reg) of
                      None \<Rightarrow> reg
                    | Some picked \<Rightarrow> reg\<lparr>selectedGroupIds := groupIds picked\<rparr>))
              (currentRegistrations ctx);
          sc = evaluateSchedule (flattenSessions (catalog ctx) next);
          dmg = conflictCount sc * 1200 + gapSlots sc * 18 + after4Sessions sc * 28
                  + activeDays sc * 4;
          changed =
            concat (map (\<lambda>c.
               (case selectedChoices st (altCourseId c) of
                  None \<Rightarrow> []
                | Some nextChoice \<Rightarrow>
                    if comboKey nextChoice = currentKey c then []
                    else [\<lparr>changeCourseId = altCourseId c, changeCourseName = altCourseName c,
                           changeFrom =
                             (case List.find (\<lambda>k. comboKey k = currentKey c) (combos c) of
                                None \<Rightarrow> ''Current''
                              | Some cur \<Rightarrow>
                                  if comboLabel cur = [] then ''Current'' else comboLabel cur),
                           changeTo = comboLabel nextChoice\<rparr>]))
              (coursesToPlan ctx))
      in \<lparr>planId = ''plan-'' @ numberToString (int (length (pool st)) + 1),
          changes = changed, changeCount = int (length changed), nextRegistrations = next,
          score = sc, damage = dmg, improves = (dmg < currentDamageScore ctx)\<rparr>)"

text \<open>
  The depth-first search. \<open>dfs\<close> takes the courses from \<^verbatim>\<open>ordered[index]\<close> on;
  \<open>dfsChoices\<close> is the loop over the choices of one course. The map of selected choices,
  the pool and the counter of explored leaves are the state that the calls share.
\<close>

function dfs :: "planner_context \<Rightarrow> plan_course list \<Rightarrow> int \<Rightarrow> search_state \<Rightarrow> search_state"
  and dfsChoices ::
    "planner_context \<Rightarrow> plan_course \<Rightarrow> plan_course list \<Rightarrow> choice list \<Rightarrow> int \<Rightarrow> search_state
       \<Rightarrow> search_state" where
  "dfs ctx rest changeCnt st =
     (if explored st \<ge> MAX_PLAN_SEARCH_LIMIT then st
      else if changeCnt > plannerMaxChanges (request ctx) then st
      else (case rest of
              [] \<Rightarrow>
                (let st1 = st\<lparr>explored := explored st + 1\<rparr>
                 in st1\<lparr>pool := pool st1 @ [leafPlan ctx st1]\<rparr>)
            | c # cs \<Rightarrow> dfsChoices ctx c cs (choices c) changeCnt st))"
| "dfsChoices ctx c cs [] changeCnt st = st"
| "dfsChoices ctx c cs (ch # chs) changeCnt st =
     (if \<not> allowChange c \<and> comboKey ch \<noteq> currentKey c then dfsChoices ctx c cs chs changeCnt st
      else (let st1 = st\<lparr>selectedChoices := (selectedChoices st)(altCourseId c \<mapsto> ch)\<rparr>;
                st2 = dfs ctx cs (changeCnt + changeCost ch) st1;
                st3 = st2\<lparr>selectedChoices := (selectedChoices st2)(altCourseId c := None)\<rparr>
            in dfsChoices ctx c cs chs changeCnt st3))"
  by pat_completeness auto
termination
  by (relation "measures
        [\<lambda>x. case x of Inl (ctx, rest, n, st) \<Rightarrow> 2 * length rest
                       | Inr (ctx, c, cs, chs, n, st) \<Rightarrow> 2 * length cs + 1,
         \<lambda>x. case x of Inl (ctx, rest, n, st) \<Rightarrow> 0
                       | Inr (ctx, c, cs, chs, n, st) \<Rightarrow> length chs]")
     auto

declare dfs.simps [simp del]

definition planLe :: "plan \<Rightarrow> plan \<Rightarrow> bool" where
  \<comment> \<open>the comparator of the ranking does not put \<open>a\<close> after \<open>b\<close>\<close>
  "planLe a b =
     (if damage a \<noteq> damage b then damage a - damage b \<le> 0
      else if changeCount a \<noteq> changeCount b then changeCount a - changeCount b \<le> 0
      else overall (score b) - overall (score a) \<le> 0)"

record planner_inputs =
  plannerCourses :: "course list"  \<comment> \<open>\<^verbatim>\<open>courses\<close>\<close>
  plannerRegistrations :: "registration list"  \<comment> \<open>\<^verbatim>\<open>registrations\<close>\<close>
  plannerRequest :: planner_request
  trackSessionsShown :: "session list"  \<comment> \<open>\<^verbatim>\<open>globalTrackSessions\<close>\<close>
  previewFlags :: "string \<Rightarrow> (bool \<times> bool) option"  \<comment> \<open>\<^verbatim>\<open>preview\<close>\<close>
  overridesOfAllTracks :: "(session_key \<times> override) list"  \<comment> \<open>\<^verbatim>\<open>globalOverridesMap\<close>\<close>
  activeTrack :: "track_option option"  \<comment> \<open>\<^verbatim>\<open>activeTrackOption\<close>\<close>
  activeTrackOverrides :: "(session_key \<times> override) list"  \<comment> \<open>\<^verbatim>\<open>activeTrackOverrideMap\<close>\<close>

definition tableInputsOf :: "planner_inputs \<Rightarrow> table_inputs" where
  "tableInputsOf inp =
     \<lparr>registeredSessions =
        flattenSessions (coursesById (plannerCourses inp)) (plannerRegistrations inp),
      globalTrackSessions = trackSessionsShown inp,
      shownPreviewSessions = previewSessions (plannerCourses inp) (previewFlags inp),
      globalOverridesMap = overridesOfAllTracks inp,
      activeTrackOption = activeTrack inp,
      activeTrackOverrideMap = activeTrackOverrides inp\<rparr>"

definition currentScheduleScore :: "planner_inputs \<Rightarrow> schedule_score" where
  "currentScheduleScore inp = evaluateSchedule (tableSessions (tableInputsOf inp))"

definition currentDamageOf :: "planner_inputs \<Rightarrow> int" where
  \<comment> \<open>\<^verbatim>\<open>currentDamageScore\<close>\<close>
  "currentDamageOf inp =
     conflictCount (currentScheduleScore inp) * 1200 + gapSlots (currentScheduleScore inp) * 18
       + after4Sessions (currentScheduleScore inp) * 28 + activeDays (currentScheduleScore inp) * 4"

definition plannerContext :: "planner_inputs \<Rightarrow> planner_context" where
  "plannerContext inp =
     \<lparr>request = plannerRequest inp,
      currentRegistrations = plannerRegistrations inp,
      catalog = coursesById (plannerCourses inp),
      coursesToPlan =
        map (toPlanCourse (plannerRequest inp))
          (registeredCourseAlternatives (plannerCourses inp) (plannerRegistrations inp)),
      currentDamageScore = currentDamageOf inp\<rparr>"

definition generateDamagePlans :: "planner_inputs \<Rightarrow> plan list" where
  "generateDamagePlans inp =
     (if registeredCourseAlternatives (plannerCourses inp) (plannerRegistrations inp) = [] then []
      else (let ctx = plannerContext inp;
                ordered = sortBy (\<lambda>a b. int (length (choices a)) - int (length (choices b)) \<le> 0)
                            (coursesToPlan ctx);
                final = dfs ctx ordered 0 \<lparr>selectedChoices = Map.empty, pool = [], explored = 0\<rparr>
            in take 8 (sortBy planLe (pool final))))"


section \<open>Notions used to state the properties\<close>

text \<open>A row with only its day name, time text and type filled in.\<close>

definition sessionAt :: "string \<Rightarrow> string \<Rightarrow> string \<Rightarrow> session" where
  "sessionAt d t ty =
     \<lparr>GroupId = 0, GroupName = None, Type = Some ty, Time = Some t, DayWeekName = Some d,
      DayWeek = None, Staff = None, IntervalId = None, NameEn = None, courseId = None,
      courseName = None, source = None, isModified = False, modifiedReason = []\<rparr>"

text \<open>
  The start clock of a time text as \<^verbatim>\<open>startSlotIndex\<close> reads it: the first part before
  a dash, trimmed, with hour and minute padded to two digits.
\<close>

definition startClockOf :: "string option \<Rightarrow> string option" where
  "startClockOf t = Option.bind t (\<lambda>time. toHHMM (slotStartOf time))"

text \<open>The start clock of a time text as \<^verbatim>\<open>toClockRange\<close> reads it.\<close>

definition clockRangeStart :: "string option \<Rightarrow> string option" where
  "clockRangeStart t = map_option fst (toClockRange t)"

definition typeOrGroup :: "string option \<Rightarrow> string option" where
  \<comment> \<open>the default parameter \<^verbatim>\<open>typeText = "Group"\<close>\<close>
  "typeOrGroup ty = (case ty of None \<Rightarrow> Some ''Group'' | Some t \<Rightarrow> Some t)"


subsection \<open>Conflicting pairs\<close>

text \<open>
  The first pair, in candidate-then-existing order, that satisfies a relation: the
  candidates are the outer loop and the existing sessions the inner one.
\<close>

definition firstConflictingPair ::
  "(session \<Rightarrow> session \<Rightarrow> bool) \<Rightarrow> session list \<Rightarrow> session list \<Rightarrow> (session \<times> session) option" where
  "firstConflictingPair P cs es = List.find (\<lambda>(a, b). P a b) (List.product cs es)"

text \<open>
  Two sessions conflict when the candidate's day is a day of the grid, both are on that
  day, both have a slot range and the ranges overlap.
\<close>

definition conflictsReact :: "session \<Rightarrow> session \<Rightarrow> bool" where
  "conflictsReact a b =
     (normalizeDay a \<in> set DAYS \<and> normalizeDay a = normalizeDay b \<and>
      (case slotRange a of
         None \<Rightarrow> False
       | Some ra \<Rightarrow> (case slotRange b of None \<Rightarrow> False | Some rb \<Rightarrow> rangesOverlap ra rb)))"

definition conflictsPlain :: "session \<Rightarrow> session \<Rightarrow> bool" where
  "conflictsPlain a b =
     (normalizeDayName a \<in> set DAY_ORDER \<and> normalizeDayName a = normalizeDayName b \<and>
      (case parseTimeRangeToSlotRange (Time a) (Type a) of
         None \<Rightarrow> False
       | Some ra \<Rightarrow>
           (case parseTimeRangeToSlotRange (Time b) (Type b) of
              None \<Rightarrow> False
            | Some rb \<Rightarrow> isSlotOverlap ra rb)))"

text \<open>A session takes part in conflict analysis when its day is mapped and its time parses.\<close>

definition schedulableReact :: "session \<Rightarrow> bool" where
  "schedulableReact s = (normalizeDay s \<in> set DAYS \<and> slotRange s \<noteq> None)"

definition schedulablePlain :: "session \<Rightarrow> bool" where
  "schedulablePlain s =
     (normalizeDayName s \<in> set DAY_ORDER \<and> parseTimeRangeToSlotRange (Time s) (Type s) \<noteq> None)"

text \<open>What each detector reports for a conflicting pair.\<close>

definition reactInfo :: "session \<times> session \<Rightarrow> conflict_info" where
  "reactInfo p =
     \<lparr>day = normalizeDay (fst p), existing = snd p,
      overlap = overlapLabel (the (slotRange (fst p))) (the (slotRange (snd p)))\<rparr>"

text \<open>
  The report of the React detector with its overlap written out: the clock at which the
  first common slot starts and the clock at which the last common slot ends, read from
  the table of the twelve slots. The common slots of two ranges are those from the later
  start to the earlier end.
\<close>

definition slotClocks :: "(string \<times> string) list" where
  "slotClocks =
     [(''08:45'', ''09:30''), (''09:30'', ''10:15''), (''10:15'', ''11:00''),
      (''11:00'', ''11:45''), (''11:45'', ''12:30''), (''12:30'', ''13:15''),
      (''13:15'', ''14:00''), (''14:00'', ''14:45''), (''14:45'', ''15:30''),
      (''15:30'', ''16:15''), (''16:15'', ''17:00''), (''17:00'', ''17:45'')]"

definition overlapText :: "int \<Rightarrow> int \<Rightarrow> string" where
  \<comment> \<open>the slots from \<open>s\<close> to \<open>e - 1\<close>\<close>
  "overlapText s e = fst (slotClocks ! nat s) @ '' - '' @ snd (slotClocks ! nat (e - 1))"

definition reactReport :: "session \<times> session \<Rightarrow> conflict_info" where
  "reactReport p =
     (let ra = the (slotRange (fst p)); rb = the (slotRange (snd p))
      in \<lparr>day = normalizeDay (fst p), existing = snd p,
          overlap = Some (overlapText (max (start ra) (start rb))
                            (min (endExclusive ra) (endExclusive rb)))\<rparr>)"

definition overlapOf :: "index_range \<Rightarrow> index_range \<Rightarrow> index_range" where
  "overlapOf a b =
     \<lparr>startIndex = max (startIndex a) (startIndex b),
      endIndexExclusive = min (endIndexExclusive a) (endIndexExclusive b)\<rparr>"

definition plainInfo :: "session \<times> session \<Rightarrow> first_conflict" where
  "plainInfo p =
     \<lparr>candidate = fst p, existingSession = snd p,
      overlapSlotRange =
        overlapOf (the (parseTimeRangeToSlotRange (Time (fst p)) (Type (fst p))))
          (the (parseTimeRangeToSlotRange (Time (snd p)) (Type (snd p))))\<rparr>"

text \<open>
  Sessions on which the two applications derive the same slot range: a kind that contains
  "lab" also contains "sub", and a time text whose start aligns to a slot is made of two
  clocks around one dash.
\<close>

definition sameForcedSpan :: "session \<Rightarrow> bool" where
  "sameForcedSpan s =
     (includesStr (normalizeType (Type s)) ''lab'' \<longrightarrow> includesStr (normalizeType (Type s)) ''sub'')"

definition twoClockTime :: "session \<Rightarrow> bool" where
  "twoClockTime s = (toClockRange (Time s) \<noteq> None \<or> startSlotIndex (Time s) < 0)"

definition rangePair :: "slot_range \<Rightarrow> int \<times> int" where
  "rangePair r = (start r, endExclusive r)"

definition indexPair :: "index_range \<Rightarrow> int \<times> int" where
  "indexPair r = (startIndex r, endIndexExclusive r)"


subsection \<open>The overall score in exact arithmetic\<close>

text \<open>
  The weighted sum of the four sub-scores with the weights 0.34, 0.30, 0.20 and 0.16 as
  exact fractions, rounded to the nearest integer with a tie going up.
\<close>

definition exactOverall :: "int \<Rightarrow> int \<Rightarrow> int \<Rightarrow> int \<Rightarrow> int" where
  "exactOverall sd sg sl sc =
     \<lfloor>(34 / 100) * real_of_int sd + (30 / 100) * real_of_int sg + (20 / 100) * real_of_int sl
        + (16 / 100) * real_of_int sc + 1 / 2\<rfloor>"


subsection \<open>A small catalog for examples\<close>

definition groupRow :: "int \<Rightarrow> string \<Rightarrow> string \<Rightarrow> string \<Rightarrow> string \<Rightarrow> session" where
  "groupRow g nm d t ty = (sessionAt d t ty)\<lparr>GroupId := g, GroupName := Some nm\<rparr>"

text \<open>
  Microbiology has two lecture groups (1 on Monday and 2 on Tuesday, both in slot 0) and the
  section group 3 (Monday, slots 2 and 3). Pathology has the lecture group 1 on Monday in
  slot 0 and the lecture group 2 on Wednesday in slot 0.
\<close>

definition exampleMicro :: course where
  "exampleMicro =
     \<lparr>courseKey = ''micro'', courseTitle = ''Microbiology'',
      courseSessions =
        [groupRow 1 ''A'' ''Monday'' ''08:45 - 09:30'' ''Group'',
         groupRow 2 ''B'' ''Tuesday'' ''08:45 - 09:30'' ''Group'',
         groupRow 3 ''A1'' ''Monday'' ''10:15 - 11:45'' ''SubGroup'']\<rparr>"

definition examplePatho :: course where
  "examplePatho =
     \<lparr>courseKey = ''patho'', courseTitle = ''Pathology'',
      courseSessions =
        [groupRow 1 ''A'' ''Monday'' ''08:45 - 09:30'' ''Group'',
         groupRow 2 ''B'' ''Wednesday'' ''08:45 - 09:30'' ''Group'']\<rparr>"

definition exampleRegistrations :: "registration list" where
  "exampleRegistrations =
     [\<lparr>regCourseId = ''patho'', selectedGroupIds = [1]\<rparr>,
      \<lparr>regCourseId = ''micro'', selectedGroupIds = [2, 3]\<rparr>]"

text \<open>
  Lists for the conflict detectors: the first candidate has no time, the second is on a
  Friday, the third is a Monday section in slots 2 and 3; of the existing sessions the
  first has a time that aligns to no slot and the next two are Monday sessions in slot 3
  and in slot 2.
\<close>

definition conflictCandidates :: "session list" where
  "conflictCandidates =
     [(sessionAt ''Monday'' ''10:15 - 11:45'' ''SubGroup'')\<lparr>Time := None\<rparr>,
      sessionAt ''Friday'' ''10:15 - 11:45'' ''SubGroup'',
      sessionAt ''Monday'' ''10:15 - 11:45'' ''SubGroup'']"

definition conflictExisting :: "session list" where
  "conflictExisting =
     [sessionAt ''Monday'' ''10:20 - 11:45'' ''SubGroup'',
      sessionAt ''Monday'' ''11:00 - 11:45'' ''Group'',
      sessionAt ''Monday'' ''10:15 - 11:00'' ''Group'']"

definition exampleApp :: app_state where
  "exampleApp = \<lparr>registrations = exampleRegistrations, currentNotice = None\<rparr>"

definition examplePage :: page_state where
  "examplePage =
     \<lparr>pageCourses = [exampleMicro, examplePatho], pageRegistrations = exampleRegistrations,
      selectedCourseId = Some ''micro'', alerts = []\<rparr>"


subsection \<open>The search of the planner\<close>

text \<open>
  The state and the course list that \<^verbatim>\<open>generateDamagePlans\<close> starts the search with, and
  the test that makes a call of \<open>dfs\<close> return at once.
\<close>

definition startState :: search_state where
  "startState = \<lparr>selectedChoices = Map.empty, pool = [], explored = 0\<rparr>"

definition orderedCourses :: "planner_inputs \<Rightarrow> plan_course list" where
  "orderedCourses inp =
     sortBy (\<lambda>a b. int (length (choices a)) - int (length (choices b)) \<le> 0)
       (coursesToPlan (plannerContext inp))"

definition searchStops :: "planner_context \<Rightarrow> int \<Rightarrow> search_state \<Rightarrow> bool" where
  "searchStops ctx n st =
     (explored st \<ge> MAX_PLAN_SEARCH_LIMIT \<or> n > plannerMaxChanges (request ctx))"


text \<open>
  A plan is consistent with a context when its damage is the damage of its own score, its
  score is the evaluation of the sessions of its registrations, and its flag compares its
  damage with the damage that the context holds for the current schedule.
\<close>

definition planConsistent :: "planner_context \<Rightarrow> plan \<Rightarrow> bool" where
  "planConsistent ctx p =
     (improves p = (damage p < currentDamageScore ctx)
      \<and> damage p = damageOf (score p)
      \<and> score p = evaluateSchedule (flattenSessions (catalog ctx) (nextRegistrations p)))"






subsection \<open>An example for the planner\<close>

text \<open>
  The catalog above with Pathology group 1 and Microbiology groups 2 and 3 registered, and
  a request that allows one change. In the second input the lectures of Microbiology are
  shown as a preview in the table.
\<close>

definition exampleRequest :: planner_request where
  "exampleRequest =
     \<lparr>plannerMaxChanges = 1, plannerLocks = (\<lambda>c. None), plannerChangeFlags = (\<lambda>c. None)\<rparr>"

definition examplePlanner :: planner_inputs where
  "examplePlanner =
     \<lparr>plannerCourses = [exampleMicro, examplePatho],
      plannerRegistrations = exampleRegistrations,
      plannerRequest = exampleRequest, trackSessionsShown = [], previewFlags = (\<lambda>c. None),
      overridesOfAllTracks = [], activeTrack = None, activeTrackOverrides = []\<rparr>"

definition examplePreviewPlanner :: planner_inputs where
  "examplePreviewPlanner =
     examplePlanner\<lparr>previewFlags := (\<lambda>c. if c = ''micro'' then Some (True, False) else None)\<rparr>"

text \<open>The identifier, change count, damage, overall score and flag of a plan.\<close>

definition planSummary :: "plan \<Rightarrow> string \<times> int \<times> int \<times> int \<times> bool" where
  "planSummary p = (planId p, changeCount p, damage p, overall (score p), improves p)"

text \<open>
  The courses to plan of the example, the context of the search when the damage of the
  current schedule is \<open>current\<close>, and the three plans that the search collects.
\<close>

definition examplePathoPlan :: plan_course where
  "examplePathoPlan =
     \<lparr>altCourseId = ''patho'', altCourseName = ''Pathology'', currentKey = ''1'',
      combos =
        [\<lparr>comboKey = ''1'', groupIds = [1], lectureId = 1, sectionId = None, comboLabel = ''A''\<rparr>,
         \<lparr>comboKey = ''2'', groupIds = [2], lectureId = 2, sectionId = None, comboLabel = ''B''\<rparr>],
      hasSections = False, allowChange = True,
      choices =
        [\<lparr>comboKey = ''1'', groupIds = [1], lectureId = 1, sectionId = None, comboLabel = ''A'',
          changeCost = 0\<rparr>,
         \<lparr>comboKey = ''2'', groupIds = [2], lectureId = 2, sectionId = None, comboLabel = ''B'',
          changeCost = 1\<rparr>]\<rparr>"

definition exampleMicroPlan :: plan_course where
  "exampleMicroPlan =
     \<lparr>altCourseId = ''micro'', altCourseName = ''Microbiology'', currentKey = ''2-3'',
      combos =
        [\<lparr>comboKey = ''1-3'', groupIds = [1, 3], lectureId = 1, sectionId = Some 3,
          comboLabel = ''A + A1/A2''\<rparr>,
         \<lparr>comboKey = ''2-3'', groupIds = [2, 3], lectureId = 2, sectionId = Some 3,
          comboLabel = ''B + A1/A2''\<rparr>],
      hasSections = True, allowChange = True,
      choices =
        [\<lparr>comboKey = ''1-3'', groupIds = [1, 3], lectureId = 1, sectionId = Some 3,
          comboLabel = ''A + A1/A2'', changeCost = 1\<rparr>,
         \<lparr>comboKey = ''2-3'', groupIds = [2, 3], lectureId = 2, sectionId = Some 3,
          comboLabel = ''B + A1/A2'', changeCost = 0\<rparr>]\<rparr>"

definition exampleContext :: "int \<Rightarrow> planner_context" where
  "exampleContext current =
     \<lparr>request = exampleRequest, currentRegistrations = exampleRegistrations,
      catalog = coursesById [exampleMicro, examplePatho],
      coursesToPlan = [examplePathoPlan, exampleMicroPlan], currentDamageScore = current\<rparr>"

definition examplePool :: "int \<Rightarrow> plan list" where
  "examplePool current =
     [\<lparr>planId = ''plan-1'',
       changes = [\<lparr>changeCourseId = ''micro'', changeCourseName = ''Microbiology'',
                   changeFrom = ''B + A1/A2'', changeTo = ''A + A1/A2''\<rparr>],
       changeCount = 1,
       nextRegistrations = [\<lparr>regCourseId = ''patho'', selectedGroupIds = [1]\<rparr>,
                            \<lparr>regCourseId = ''micro'', selectedGroupIds = [1, 3]\<rparr>],
       score = \<lparr>activeDays = 1, gapSlots = 1, after4Sessions = 0, conflictCount = 1,
                 scoreDays = 100, scoreGaps = 90, scoreLate = 100, scoreConflict = 60,
                 overall = 91\<rparr>,
       damage = 1222, improves = (1222 < current)\<rparr>,
      \<lparr>planId = ''plan-2'', changes = [], changeCount = 0,
       nextRegistrations = [\<lparr>regCourseId = ''patho'', selectedGroupIds = [1]\<rparr>,
                            \<lparr>regCourseId = ''micro'', selectedGroupIds = [2, 3]\<rparr>],
       score = \<lparr>activeDays = 2, gapSlots = 1, after4Sessions = 0, conflictCount = 0,
                 scoreDays = 82, scoreGaps = 90, scoreLate = 100, scoreConflict = 100,
                 overall = 91\<rparr>,
       damage = 26, improves = (26 < current)\<rparr>,
      \<lparr>planId = ''plan-3'',
       changes = [\<lparr>changeCourseId = ''patho'', changeCourseName = ''Pathology'',
                   changeFrom = ''A'', changeTo = ''B''\<rparr>],
       changeCount = 1,
       nextRegistrations = [\<lparr>regCourseId = ''patho'', selectedGroupIds = [2]\<rparr>,
                            \<lparr>regCourseId = ''micro'', selectedGroupIds = [2, 3]\<rparr>],
       score = \<lparr>activeDays = 3, gapSlots = 0, after4Sessions = 0, conflictCount = 0,
                 scoreDays = 64, scoreGaps = 100, scoreLate = 100, scoreConflict = 100,
                 overall = 88\<rparr>,
       damage = 12, improves = (12 < current)\<rparr>]"









subsection \<open>Tracks of the merger\<close>

text \<open>
  The names that parse, in input order. Among the names with the same prefix and number,
  the last one is the one that the merger keeps for that number.
\<close>

definition parsedNames :: "string list \<Rightarrow> parsed_name list" where
  "parsedNames names = List.map_filter (\<lambda>n. parseSectionGroupName (Some n)) names"

definition rawOf :: "parsed_name list \<Rightarrow> string \<Rightarrow> jsnum \<Rightarrow> string option" where
  "rawOf ps P n =
     (case List.find (\<lambda>p. prefixText p = P \<and> number p = n) (rev ps) of
        None \<Rightarrow> None
      | Some p \<Rightarrow> Some (raw p))"

text \<open>
  A group number is safe when it is a non-negative integer below \<open>2\<^sup>5\<^sup>3\<close>: these are the
  numbers that their digits denote exactly and on which adding and subtracting one is
  exact.
\<close>

definition safeNumber :: "jsnum \<Rightarrow> bool" where
  "safeNumber n = (case n of Num i \<Rightarrow> 0 \<le> i \<and> i < 9007199254740992 | Infinite \<Rightarrow> False)"

definition safeNames :: "string list \<Rightarrow> bool" where
  "safeNames names = list_all (\<lambda>p. safeNumber (number p)) (parsedNames names)"

text \<open>
  A parsed name belongs to the pair of its prefix that starts at its odd-aligned number.
  The track of a pair has both names as sections and the label \<^verbatim>\<open>P{s}/P{s+1}\<close> when both
  numbers occur, and otherwise the one name that occurs as its label and only section.
\<close>

definition pairKeyOf :: "parsed_name \<Rightarrow> string \<times> jsnum" where
  "pairKeyOf p = (prefixText p, pairStartOf (number p))"

definition pairTrack :: "string \<Rightarrow> (jsnum \<Rightarrow> string option) \<Rightarrow> jsnum \<Rightarrow> track_option" where
  "pairTrack P rawAt s =
     (case (rawAt s, rawAt (addNumber s 1)) of
        (Some a, Some b) \<Rightarrow>
          regularTrack (P @ numberToText s @ ''/'' @ P @ numberToText (addNumber s 1)) P [a, b]
      | (Some a, None) \<Rightarrow> regularTrack a P [a]
      | (None, Some b) \<Rightarrow> regularTrack b P [b]
      | (None, None) \<Rightarrow> regularTrack [] P [])"

definition pairTrackOf :: "parsed_name list \<Rightarrow> string \<times> jsnum \<Rightarrow> track_option" where
  "pairTrackOf ps k = pairTrack (fst k) (rawOf ps (fst k)) (snd k)"

text \<open>
  A name that does not parse is kept, as a track of its own, when it starts with a letter.
\<close>

definition keptUnpaired :: "string \<Rightarrow> bool" where
  "keptUnpaired name =
     (parseSectionGroupName (Some name) = None \<and> extractSectionPrefix (Some name) \<noteq> [])"

definition singleTrack :: "string \<Rightarrow> track_option" where
  "singleTrack name = regularTrack name (extractSectionPrefix (Some name)) [name]"

text \<open>
  The pair starts that the loop over the sorted numbers of one prefix visits, the lookup
  in the two-level map, and the keys of the pairs of all prefixes.
\<close>

fun pairStarts :: "jsnum list \<Rightarrow> jsnum list \<Rightarrow> jsnum list" where
  "pairStarts seen [] = []"
| "pairStarts seen (n # ns) =
     (if pairStartOf n \<in> set seen then pairStarts seen ns
      else pairStartOf n # pairStarts (pairStartOf n # seen) ns)"

definition lookup2 ::
  "(string \<times> (jsnum \<times> string) list) list \<Rightarrow> string \<Rightarrow> jsnum \<Rightarrow> string option" where
  "lookup2 bp P n = (case map_of bp P of None \<Rightarrow> None | Some m \<Rightarrow> map_of m n)"

definition pairKeysOf ::
  "(string \<times> (jsnum \<times> string) list) list \<Rightarrow> (string \<times> jsnum) list" where
  "pairKeysOf bp =
     concat (map (\<lambda>e. map (Pair (fst e))
                        (pairStarts [] (sortBy numberLe (map fst (snd e))))) bp)"


section \<open>Properties of the slot model\<close>

lemma length_TIME_SLOTS: "length TIME_SLOTS = 12"
  by (simp add: TIME_SLOTS_def)

lemma length_SLOT_RANGES: "length SLOT_RANGES = 12"
  by (simp add: SLOT_RANGES_def length_TIME_SLOTS)

lemma includesStr_sublist: "includesStr s pat = sublist pat s"
  by (induction s) (simp_all add: sublist_Cons_right)

lemma findIndex_bounds: "-1 \<le> findIndex P xs \<and> findIndex P xs < int (length xs)"
  by (induction xs) (auto simp: Let_def)

lemma findIndex_neg_iff: "(findIndex P xs < 0) = (\<forall>x\<in>set xs. \<not> P x)"
proof (induction xs)
  case Nil
  show ?case by simp
next
  case (Cons x xs)
  have "-1 \<le> findIndex P xs" using findIndex_bounds[of P xs] by simp
  with Cons show ?case by (auto simp: Let_def)
qed

lemma findIndex_first:
  "0 \<le> findIndex P xs \<Longrightarrow>
     P (xs ! nat (findIndex P xs)) \<and> (\<forall>j < nat (findIndex P xs). \<not> P (xs ! j))"
proof (induction xs)
  case Nil
  then show ?case by simp
next
  case (Cons x xs)
  show ?case
  proof (cases "P x")
    case True
    then show ?thesis by simp
  next
    case False
    with Cons.prems have nn: "0 \<le> findIndex P xs"
      by (simp add: Let_def split: if_splits)
    have eq: "findIndex P (x # xs) = findIndex P xs + 1"
      using False nn by (simp add: Let_def)
    have nat_eq: "nat (findIndex P xs + 1) = Suc (nat (findIndex P xs))"
      using nn by simp
    from Cons.IH[OF nn] False show ?thesis
      unfolding eq nat_eq by (auto simp: less_Suc_eq_0_disj)
  qed
qed

text \<open>
  Two non-empty ranges pass the overlap test exactly when some slot lies in both.
\<close>

lemma rangesOverlap_common_slot:
  assumes "start a < endExclusive a" and "start b < endExclusive b"
  shows "rangesOverlap a b =
     (\<exists>i. start a \<le> i \<and> i < endExclusive a \<and> start b \<le> i \<and> i < endExclusive b)"
proof
  assume "rangesOverlap a b"
  then have "start a \<le> max (start a) (start b) \<and> max (start a) (start b) < endExclusive a
     \<and> start b \<le> max (start a) (start b) \<and> max (start a) (start b) < endExclusive b"
    using assms by (auto simp: rangesOverlap_def)
  then show "\<exists>i. start a \<le> i \<and> i < endExclusive a \<and> start b \<le> i \<and> i < endExclusive b"
    by blast
next
  assume "\<exists>i. start a \<le> i \<and> i < endExclusive a \<and> start b \<le> i \<and> i < endExclusive b"
  then show "rangesOverlap a b" by (auto simp: rangesOverlap_def)
qed

text \<open>
  Claim C1. The overlap test of both applications is the half-open interval test: two
  ranges overlap exactly when each starts before the other ends. Slots [2,3) and [3,5),
  which touch at a boundary, do not overlap, and a Monday lecture in slot 2 does not
  conflict with a Monday section in slots 3 and 4. Slots [2,4) and [3,5) overlap, and the
  conflict reported for two such Monday sections carries the overlap [3,4), which is the
  slot from 11:00 to 11:45.
\<close>

theorem overlap_is_half_open_test:
  "rangesOverlap a b = (start a < endExclusive b \<and> start b < endExclusive a)
   \<and> isSlotOverlap c d
       = (startIndex c < endIndexExclusive d \<and> startIndex d < endIndexExclusive c)
   \<and> \<not> rangesOverlap \<lparr>start = 2, endExclusive = 3, span = 1\<rparr>
          \<lparr>start = 3, endExclusive = 5, span = 2\<rparr>
   \<and> \<not> isSlotOverlap \<lparr>startIndex = 2, endIndexExclusive = 3\<rparr>
          \<lparr>startIndex = 3, endIndexExclusive = 5\<rparr>
   \<and> rangesOverlap \<lparr>start = 2, endExclusive = 4, span = 2\<rparr>
        \<lparr>start = 3, endExclusive = 5, span = 2\<rparr>
   \<and> isSlotOverlap \<lparr>startIndex = 2, endIndexExclusive = 4\<rparr>
        \<lparr>startIndex = 3, endIndexExclusive = 5\<rparr>
   \<and> findFirstConflict [sessionAt ''Monday'' ''10:15 - 11:00'' ''Group'']
         [sessionAt ''Monday'' ''11:00 - 12:30'' ''SubGroup''] = None
   \<and> findConflict [sessionAt ''Monday'' ''10:15 - 11:00'' ''Group'']
         [sessionAt ''Monday'' ''11:00 - 12:30'' ''SubGroup''] = None
   \<and> map_option overlapSlotRange
         (findFirstConflict [sessionAt ''Monday'' ''10:15 - 11:45'' ''SubGroup'']
            [sessionAt ''Monday'' ''11:00 - 12:30'' ''SubGroup''])
       = Some \<lparr>startIndex = 3, endIndexExclusive = 4\<rparr>
   \<and> map_option overlap
         (findConflict [sessionAt ''Monday'' ''10:15 - 11:45'' ''SubGroup'']
            [sessionAt ''Monday'' ''11:00 - 12:30'' ''SubGroup''])
       = Some (Some ''11:00 - 11:45'')"
proof -
  have 1: "findFirstConflict [sessionAt ''Monday'' ''10:15 - 11:00'' ''Group'']
         [sessionAt ''Monday'' ''11:00 - 12:30'' ''SubGroup''] = None"
    by code_simp
  have 2: "findConflict [sessionAt ''Monday'' ''10:15 - 11:00'' ''Group'']
         [sessionAt ''Monday'' ''11:00 - 12:30'' ''SubGroup''] = None"
    by code_simp
  have 3: "map_option overlapSlotRange
         (findFirstConflict [sessionAt ''Monday'' ''10:15 - 11:45'' ''SubGroup'']
            [sessionAt ''Monday'' ''11:00 - 12:30'' ''SubGroup''])
       = Some \<lparr>startIndex = 3, endIndexExclusive = 4\<rparr>"
    by code_simp
  have 4: "map_option overlap
         (findConflict [sessionAt ''Monday'' ''10:15 - 11:45'' ''SubGroup'']
            [sessionAt ''Monday'' ''11:00 - 12:30'' ''SubGroup''])
       = Some (Some ''11:00 - 11:45'')"
    by code_simp
  show ?thesis
    unfolding 1 2 3 4 by (simp add: rangesOverlap_def isSlotOverlap_def)
qed


subsection \<open>Forced span\<close>

lemma forcedSpanByType_iff:
  "forcedSpanByType ty = (if sublist ''sub'' (normalizeType ty) then 2 else 1)"
  by (simp add: forcedSpanByType_def includesStr_sublist)

lemma getForcedSpanByType_iff:
  "getForcedSpanByType ty =
     (if sublist ''sub'' (normalizeType ty) \<or> sublist ''lab'' (normalizeType ty) then 2 else 1)"
  by (auto simp: getForcedSpanByType_def includesStr_sublist Let_def)

lemma slotRange_span:
  "slotRange e = Some r \<Longrightarrow>
     span r = forcedSpanByType (Type e) \<and> endExclusive r = start r + forcedSpanByType (Type e)"
  by (auto simp: slotRange_def Let_def split: if_splits)

lemma parseTimeRangeToSlotRange_span:
  "parseTimeRangeToSlotRange t ty = Some r \<Longrightarrow>
     endIndexExclusive r = startIndex r + getForcedSpanByType (typeOrGroup ty)"
  by (cases "toClockRange t")
     (auto simp: parseTimeRangeToSlotRange_def typeOrGroup_def Let_def split: if_splits)

text \<open>
  The kind \<^verbatim>\<open>Lab\<close> contains "lab" once normalized, and the React application gives it a
  span of one slot: a Monday session of that kind from 10:15 to 11:45 occupies slot 2 only.
\<close>

theorem forced_span_lab_is_one_slot:
  "includesStr (normalizeType (Some ''Lab'')) ''lab'' \<and> forcedSpanByType (Some ''Lab'') = 1
   \<and> slotRange (sessionAt ''Monday'' ''10:15 - 11:45'' ''Lab'')
        = Some \<lparr>start = 2, endExclusive = 3, span = 1\<rparr>"
  by code_simp

text \<open>
  Claim C2, amended. After normalization (lower case, white space removed) the plain
  JavaScript application gives a span of 2 slots to every kind that contains "sub" or "lab"
  and 1 slot to every other kind; the React application gives 2 slots to every kind that
  contains "sub" and 1 slot to every other kind. In both, a derived slot range ends exactly
  that span after its start, whatever end the time text names.
\<close>

theorem forced_span_policy:
  "getForcedSpanByType ty =
     (if sublist ''sub'' (normalizeType ty) \<or> sublist ''lab'' (normalizeType ty) then 2 else 1)
   \<and> forcedSpanByType ty = (if sublist ''sub'' (normalizeType ty) then 2 else 1)
   \<and> (case slotRange e of
         None \<Rightarrow> True
       | Some r \<Rightarrow> span r = forcedSpanByType (Type e)
            \<and> endExclusive r = start r + forcedSpanByType (Type e))
   \<and> (case parseTimeRangeToSlotRange t ty' of
         None \<Rightarrow> True
       | Some r \<Rightarrow> endIndexExclusive r = startIndex r + getForcedSpanByType (typeOrGroup ty'))"
  using slotRange_span[of e] parseTimeRangeToSlotRange_span[of t ty']
  by (simp add: forcedSpanByType_iff getForcedSpanByType_iff split: option.splits)

theorem forced_span_policy_witness:
  "getForcedSpanByType (Some '' Sub Group'') = 2 \<and> getForcedSpanByType (Some ''LAB 3'') = 2
   \<and> getForcedSpanByType (Some ''Group'') = 1 \<and> getForcedSpanByType None = 1
   \<and> forcedSpanByType (Some '' Sub Group'') = 2 \<and> forcedSpanByType (Some ''Group'') = 1
   \<and> forcedSpanByType None = 1
   \<and> slotRange (sessionAt ''Monday'' ''10:15 - 17:45'' ''SubGroup'')
        = Some \<lparr>start = 2, endExclusive = 4, span = 2\<rparr>
   \<and> parseTimeRangeToSlotRange (Some ''10:15 - 17:45'') (Some ''Group'')
        = Some \<lparr>startIndex = 2, endIndexExclusive = 3\<rparr>"
proof -
  have s1: "sublist ''sub'' (normalizeType (Some '' Sub Group''))"
    and s2: "sublist ''lab'' (normalizeType (Some ''LAB 3''))"
    and s3: "\<not> sublist ''sub'' (normalizeType (Some ''Group''))"
    and s4: "\<not> sublist ''lab'' (normalizeType (Some ''Group''))"
    and s5: "\<not> sublist ''sub'' (normalizeType None)"
    and s6: "\<not> sublist ''lab'' (normalizeType None)"
    by code_simp+
  have r1: "slotRange (sessionAt ''Monday'' ''10:15 - 17:45'' ''SubGroup'')
        = Some \<lparr>start = 2, endExclusive = 4, span = 2\<rparr>"
    by code_simp
  have r2: "parseTimeRangeToSlotRange (Some ''10:15 - 17:45'') (Some ''Group'')
        = Some \<lparr>startIndex = 2, endIndexExclusive = 3\<rparr>"
    by code_simp
  show ?thesis
    using forced_span_policy[of "Some '' Sub Group''"] forced_span_policy[of "Some ''LAB 3''"]
      forced_span_policy[of "Some ''Group''"] forced_span_policy[of None]
      s1 s2 s3 s4 s5 s6 r1 r2
    by simp
qed


subsection \<open>When a slot range is null\<close>

lemma startSlotIndex_neg_iff:
  "(startSlotIndex t < 0) =
     (\<not> (\<exists>slot\<in>set TIME_SLOTS. Some (slotStartOf slot) = startClockOf t))"
  by (auto simp: startSlotIndex_def startClockOf_def findIndex_neg_iff split: option.splits)

lemma startSlotIndex_slot:
  assumes "0 \<le> startSlotIndex t"
  shows "nat (startSlotIndex t) < length TIME_SLOTS
     \<and> Some (slotStartOf (TIME_SLOTS ! nat (startSlotIndex t))) = startClockOf t"
proof -
  from assms obtain time hhmm where t: "t = Some time" and h: "toHHMM (slotStartOf time) = Some hhmm"
    by (auto simp: startSlotIndex_def split: option.splits)
  let ?P = "\<lambda>slot. slotStartOf slot = hhmm"
  have idx: "startSlotIndex t = findIndex ?P TIME_SLOTS"
    by (simp add: startSlotIndex_def t h)
  have "findIndex ?P TIME_SLOTS < int (length TIME_SLOTS)"
    using findIndex_bounds[of ?P TIME_SLOTS] by simp
  moreover have "?P (TIME_SLOTS ! nat (findIndex ?P TIME_SLOTS))"
    using findIndex_first[of ?P TIME_SLOTS] assms idx by simp
  ultimately show ?thesis
    using assms unfolding idx by (simp add: startClockOf_def t h)
qed

lemma slotRange_None_iff:
  "(slotRange e = None) =
     (\<not> (\<exists>slot\<in>set TIME_SLOTS. Some (slotStartOf slot) = startClockOf (Time e))
      \<or> startSlotIndex (Time e) + forcedSpanByType (Type e) > int (length TIME_SLOTS))"
  using startSlotIndex_neg_iff[of "Time e"]
  by (auto simp: slotRange_def Let_def)

lemma slotRange_Some:
  "slotRange e = None \<or>
     (\<exists>i < length TIME_SLOTS.
        Some (slotStartOf (TIME_SLOTS ! i)) = startClockOf (Time e)
        \<and> slotRange e = Some \<lparr>start = int i,
               endExclusive = int i + forcedSpanByType (Type e),
               span = forcedSpanByType (Type e)\<rparr>)"
proof (cases "slotRange e")
  case None
  then show ?thesis by simp
next
  case (Some r)
  then have nn: "0 \<le> startSlotIndex (Time e)"
    by (auto simp: slotRange_def Let_def split: if_splits)
  from startSlotIndex_slot[OF nn] Some show ?thesis
    by (intro disjI2 exI[of _ "nat (startSlotIndex (Time e))"])
       (auto simp: slotRange_def Let_def nn split: if_splits)
qed

lemma parseTimeRangeToSlotRange_None_iff:
  "(parseTimeRangeToSlotRange t ty = None) =
     (toClockRange t = None
      \<or> \<not> (\<exists>s\<in>set SLOT_RANGES. startClock s = clockRangeStart t)
      \<or> findIndex (\<lambda>s. startClock s = clockRangeStart t) SLOT_RANGES
            + getForcedSpanByType (typeOrGroup ty) > int (length TIME_SLOTS))"
  by (cases "toClockRange t")
     (auto simp: parseTimeRangeToSlotRange_def clockRangeStart_def typeOrGroup_def Let_def
        findIndex_neg_iff)

lemma parseTimeRangeToSlotRange_Some:
  "parseTimeRangeToSlotRange t ty = None \<or>
     (\<exists>i < length SLOT_RANGES.
        startClock (SLOT_RANGES ! i) = clockRangeStart t
        \<and> parseTimeRangeToSlotRange t ty
            = Some \<lparr>startIndex = int i,
                 endIndexExclusive = int i + getForcedSpanByType (typeOrGroup ty)\<rparr>)"
proof (cases "parseTimeRangeToSlotRange t ty")
  case None
  then show ?thesis by simp
next
  case (Some r)
  then obtain clocks where c: "toClockRange t = Some clocks"
    by (auto simp: parseTimeRangeToSlotRange_def split: option.splits)
  let ?P = "\<lambda>s. startClock s = Some (fst clocks)"
  from Some c have nn: "0 \<le> findIndex ?P SLOT_RANGES"
    by (auto simp: parseTimeRangeToSlotRange_def Let_def split: if_splits)
  have lt: "nat (findIndex ?P SLOT_RANGES) < length SLOT_RANGES"
    using findIndex_bounds[of ?P SLOT_RANGES] nn by simp
  have "?P (SLOT_RANGES ! nat (findIndex ?P SLOT_RANGES))"
    using findIndex_first[OF nn] by simp
  with Some c nn lt show ?thesis
    by (intro disjI2 exI[of _ "nat (findIndex ?P SLOT_RANGES)"])
       (auto simp: parseTimeRangeToSlotRange_def clockRangeStart_def typeOrGroup_def Let_def
          split: if_splits)
qed

text \<open>
  A session whose time text is \<^verbatim>\<open>08:45\<close>, with no end clock, starts on the boundary of
  slot 0, and its span of one slot fits. The React application derives the range [0,1) for
  it; the plain JavaScript application derives none, because its parser asks for exactly two
  clocks.
\<close>

theorem slot_range_null_without_end_clock:
  "startClockOf (Some ''08:45'') = Some (slotStartOf (TIME_SLOTS ! 0))
   \<and> normalizeClock (slotStartOf ''08:45'') = startClock (SLOT_RANGES ! 0)
   \<and> 0 + getForcedSpanByType (Some ''Group'') \<le> int (length TIME_SLOTS)
   \<and> parseTimeRangeToSlotRange (Some ''08:45'') (Some ''Group'') = None
   \<and> slotRange (sessionAt ''Monday'' ''08:45'' ''Group'')
        = Some \<lparr>start = 0, endExclusive = 1, span = 1\<rparr>"
  by code_simp

text \<open>
  Claim C9, amended. In the React application, deriving a session's slot range gives null
  exactly when the start clock of the time text is the start boundary of none of the
  configured slots, or the start index plus the forced span exceeds their number; otherwise
  it gives the index of a slot with that start boundary and that index plus the span. In
  the plain JavaScript application it gives null exactly when the time text is not made of
  two clocks around one dash, or one of the same two conditions holds; otherwise it gives
  the same kind of range.
\<close>

theorem slot_range_null_exactly_when:
  "(slotRange e = None) =
     (\<not> (\<exists>slot\<in>set TIME_SLOTS. Some (slotStartOf slot) = startClockOf (Time e))
      \<or> startSlotIndex (Time e) + forcedSpanByType (Type e) > int (length TIME_SLOTS))
   \<and> (slotRange e = None \<or>
       (\<exists>i < length TIME_SLOTS.
          Some (slotStartOf (TIME_SLOTS ! i)) = startClockOf (Time e)
          \<and> slotRange e = Some \<lparr>start = int i,
                 endExclusive = int i + forcedSpanByType (Type e),
                 span = forcedSpanByType (Type e)\<rparr>))
   \<and> (parseTimeRangeToSlotRange t ty = None) =
     (toClockRange t = None
      \<or> \<not> (\<exists>s\<in>set SLOT_RANGES. startClock s = clockRangeStart t)
      \<or> findIndex (\<lambda>s. startClock s = clockRangeStart t) SLOT_RANGES
            + getForcedSpanByType (typeOrGroup ty) > int (length TIME_SLOTS))
   \<and> (parseTimeRangeToSlotRange t ty = None \<or>
       (\<exists>i < length SLOT_RANGES.
          startClock (SLOT_RANGES ! i) = clockRangeStart t
          \<and> parseTimeRangeToSlotRange t ty
              = Some \<lparr>startIndex = int i,
                   endIndexExclusive = int i + getForcedSpanByType (typeOrGroup ty)\<rparr>))"
  using slotRange_None_iff[of e] slotRange_Some[of e]
    parseTimeRangeToSlotRange_None_iff[of t ty] parseTimeRangeToSlotRange_Some[of t ty]
  by blast

theorem slot_range_null_exactly_when_witness:
  "slotRange (sessionAt ''Monday'' ''17:00 - 17:45'' ''SubGroup'') = None
   \<and> (\<exists>slot\<in>set TIME_SLOTS. Some (slotStartOf slot) = startClockOf (Some ''17:00 - 17:45''))
   \<and> startSlotIndex (Some ''17:00 - 17:45'') + forcedSpanByType (Some ''SubGroup'')
        > int (length TIME_SLOTS)
   \<and> parseTimeRangeToSlotRange (Some ''16:15 - 17:00'') (Some ''Group'')
        = Some \<lparr>startIndex = 10, endIndexExclusive = 11\<rparr>
   \<and> toClockRange (Some ''16:15 - 17:00'') \<noteq> None
   \<and> (\<exists>s\<in>set SLOT_RANGES. startClock s = clockRangeStart (Some ''16:15 - 17:00''))
   \<and> \<not> findIndex (\<lambda>s. startClock s = clockRangeStart (Some ''16:15 - 17:00'')) SLOT_RANGES
            + getForcedSpanByType (typeOrGroup (Some ''Group'')) > int (length TIME_SLOTS)"
proof -
  have a: "\<exists>slot\<in>set TIME_SLOTS. Some (slotStartOf slot) = startClockOf (Some ''17:00 - 17:45'')"
    by code_simp
  have b: "startSlotIndex (Some ''17:00 - 17:45'') + forcedSpanByType (Some ''SubGroup'')
        > int (length TIME_SLOTS)"
    by code_simp
  have c: "parseTimeRangeToSlotRange (Some ''16:15 - 17:00'') (Some ''Group'')
        = Some \<lparr>startIndex = 10, endIndexExclusive = 11\<rparr>"
    by code_simp
  have d: "Time (sessionAt ''Monday'' ''17:00 - 17:45'' ''SubGroup'') = Some ''17:00 - 17:45''"
    "Type (sessionAt ''Monday'' ''17:00 - 17:45'' ''SubGroup'') = Some ''SubGroup''"
    by (simp_all add: sessionAt_def)
  show ?thesis
    using slot_range_null_exactly_when[of "sessionAt ''Monday'' ''17:00 - 17:45'' ''SubGroup''"
        "Some ''16:15 - 17:00''" "Some ''Group''"] a b c
    unfolding d by auto
qed

section \<open>Properties of the conflict detectors\<close>

lemma find_append_option:
  "List.find P (xs @ ys) = (case List.find P xs of None \<Rightarrow> List.find P ys | Some x \<Rightarrow> Some x)"
  by (induction xs) auto

lemma find_map_option: "List.find P (map f xs) = map_option f (List.find (\<lambda>x. P (f x)) xs)"
  by (induction xs) auto

lemma find_filter_implied:
  "(\<And>x. P x \<Longrightarrow> Q x) \<Longrightarrow> List.find P (filter Q xs) = List.find P xs"
  by (induction xs) auto

lemma find_cong_set: "(\<And>x. x \<in> set xs \<Longrightarrow> P x = Q x) \<Longrightarrow> List.find P xs = List.find Q xs"
  by (induction xs) auto

lemma product_filter:
  "List.product (filter S xs) (filter T ys) = filter (\<lambda>(a, b). S a \<and> T b) (List.product xs ys)"
  by (induction xs) (auto simp: filter_map comp_def)

lemma firstConflictingPair_Cons:
  "firstConflictingPair P (a # as) es =
     (case List.find (P a) es of
        Some b \<Rightarrow> Some (a, b)
      | None \<Rightarrow> firstConflictingPair P as es)"
  by (simp add: firstConflictingPair_def find_append_option find_map_option split: option.splits)

lemma firstConflictingPair_filter:
  assumes "\<And>a b. P a b \<Longrightarrow> S a \<and> T b"
  shows "firstConflictingPair P (filter S cs) (filter T es) = firstConflictingPair P cs es"
  unfolding firstConflictingPair_def product_filter
  by (rule find_filter_implied) (use assms in auto)

lemma firstConflictingPair_None_iff:
  "(firstConflictingPair P cs es = None) = (\<not> (\<exists>a\<in>set cs. \<exists>b\<in>set es. P a b))"
  by (auto simp: firstConflictingPair_def find_None_iff)

lemma firstConflictingPair_cong:
  assumes "\<And>a b. a \<in> set cs \<Longrightarrow> b \<in> set es \<Longrightarrow> P a b = Q a b"
  shows "firstConflictingPair P cs es = firstConflictingPair Q cs es"
  unfolding firstConflictingPair_def
  by (rule find_cong_set) (use assms in auto)

lemma findConflictIn_find:
  "findConflictIn dayA rangeA es =
     map_option (\<lambda>b. \<lparr>day = dayA, existing = b, overlap = overlapLabel rangeA (the (slotRange b))\<rparr>)
       (List.find (\<lambda>b. dayA = normalizeDay b \<and>
           (case slotRange b of None \<Rightarrow> False | Some rb \<Rightarrow> rangesOverlap rangeA rb)) es)"
  by (induction es) (auto split: option.splits)

lemma findConflict_first_pair:
  "findConflict cs es = map_option reactInfo (firstConflictingPair conflictsReact cs es)"
proof (induction cs)
  case Nil
  show ?case by (simp add: firstConflictingPair_def)
next
  case (Cons a as)
  show ?case
  proof (cases "normalizeDay a \<in> set DAYS")
    case False
    then have "List.find (conflictsReact a) es = None"
      by (simp add: find_None_iff conflictsReact_def)
    with False Cons show ?thesis by (simp add: firstConflictingPair_Cons)
  next
    case True
    show ?thesis
    proof (cases "slotRange a")
      case None
      then have "List.find (conflictsReact a) es = None"
        by (simp add: find_None_iff conflictsReact_def)
      with None True Cons show ?thesis by (simp add: firstConflictingPair_Cons)
    next
      case (Some ra)
      have eq: "conflictsReact a = (\<lambda>b. normalizeDay a = normalizeDay b \<and>
           (case slotRange b of None \<Rightarrow> False | Some rb \<Rightarrow> rangesOverlap ra rb))"
        using True Some by (auto simp: conflictsReact_def fun_eq_iff)
      show ?thesis
        using True Some Cons
        by (simp add: firstConflictingPair_Cons findConflictIn_find eq[symmetric] reactInfo_def
            split: option.splits)
    qed
  qed
qed

lemma findFirstConflictIn_find:
  "findFirstConflictIn s sessionDay sessionRange es =
     map_option (\<lambda>e. \<lparr>candidate = s, existingSession = e,
          overlapSlotRange =
            overlapOf sessionRange (the (parseTimeRangeToSlotRange (Time e) (Type e)))\<rparr>)
       (List.find (\<lambda>e. sessionDay = normalizeDayName e \<and>
           (case parseTimeRangeToSlotRange (Time e) (Type e) of
              None \<Rightarrow> False | Some rb \<Rightarrow> isSlotOverlap sessionRange rb)) es)"
  by (induction es) (auto simp: overlapOf_def split: option.splits)

lemma findFirstConflict_first_pair:
  "findFirstConflict cs es = map_option plainInfo (firstConflictingPair conflictsPlain cs es)"
proof (induction cs)
  case Nil
  show ?case by (simp add: firstConflictingPair_def)
next
  case (Cons a as)
  show ?case
  proof (cases "normalizeDayName a \<in> set DAY_ORDER")
    case False
    then have "List.find (conflictsPlain a) es = None"
      by (simp add: find_None_iff conflictsPlain_def)
    with False Cons show ?thesis by (simp add: firstConflictingPair_Cons)
  next
    case True
    show ?thesis
    proof (cases "parseTimeRangeToSlotRange (Time a) (Type a)")
      case None
      then have "List.find (conflictsPlain a) es = None"
        by (simp add: find_None_iff conflictsPlain_def)
      with None True Cons show ?thesis by (simp add: firstConflictingPair_Cons)
    next
      case (Some ra)
      have eq: "conflictsPlain a = (\<lambda>b. normalizeDayName a = normalizeDayName b \<and>
           (case parseTimeRangeToSlotRange (Time b) (Type b) of
              None \<Rightarrow> False | Some rb \<Rightarrow> isSlotOverlap ra rb))"
        using True Some by (auto simp: conflictsPlain_def fun_eq_iff)
      show ?thesis
        using True Some Cons
        by (simp add: firstConflictingPair_Cons findFirstConflictIn_find eq[symmetric]
            plainInfo_def split: option.splits)
    qed
  qed
qed

lemma conflictsReact_schedulable:
  "conflictsReact a b \<Longrightarrow> schedulableReact a \<and> schedulableReact b"
  by (auto simp: conflictsReact_def schedulableReact_def split: option.splits)

lemma conflictsPlain_schedulable:
  "conflictsPlain a b \<Longrightarrow> schedulablePlain a \<and> schedulablePlain b"
  by (auto simp: conflictsPlain_def schedulablePlain_def split: option.splits)

lemma slotRange_bounds:
  "slotRange e = Some r \<Longrightarrow> 0 \<le> start r \<and> start r < endExclusive r \<and> endExclusive r \<le> 12"
  by (auto simp: slotRange_def Let_def length_TIME_SLOTS forcedSpanByType_def split: if_splits)

lemma slot_clock_table:
  "\<forall>i\<in>set [0..<12].
     slotStartOf (TIME_SLOTS ! i) = fst (slotClocks ! i)
     \<and> map trim (split (CHR ''-'') (TIME_SLOTS ! i)) = [fst (slotClocks ! i), snd (slotClocks ! i)]"
  by code_simp

lemma overlapLabel_text:
  assumes "0 \<le> max (start a) (start b)"
    and "max (start a) (start b) < min (endExclusive a) (endExclusive b)"
    and "min (endExclusive a) (endExclusive b) \<le> 12"
  shows "overlapLabel a b
     = Some (overlapText (max (start a) (start b)) (min (endExclusive a) (endExclusive b)))"
proof -
  define s where "s = max (start a) (start b)"
  define e where "e = min (endExclusive a) (endExclusive b)"
  from assms have se: "0 \<le> s" "s < e" "e \<le> 12" by (simp_all add: s_def e_def)
  then have "nat s \<in> set [0..<12]" "nat (e - 1) \<in> set [0..<12]" by auto
  with slot_clock_table
  have ts: "slotStartOf (TIME_SLOTS ! nat s) = fst (slotClocks ! nat s)"
    and te: "map trim (split (CHR ''-'') (TIME_SLOTS ! nat (e - 1)))
        = [fst (slotClocks ! nat (e - 1)), snd (slotClocks ! nat (e - 1))]"
    by blast+
  from se have "slotAt s = Some (TIME_SLOTS ! nat s)"
    "slotAt (e - 1) = Some (TIME_SLOTS ! nat (e - 1))"
    by (simp_all add: slotAt_def length_TIME_SLOTS)
  with se ts te show ?thesis
    unfolding overlapLabel_def Let_def s_def[symmetric] e_def[symmetric]
    by (simp add: overlapText_def)
qed

lemma reactInfo_report:
  assumes "conflictsReact a b"
  shows "reactInfo (a, b) = reactReport (a, b)"
proof -
  from assms obtain ra rb where r: "slotRange a = Some ra" "slotRange b = Some rb"
    and ov: "rangesOverlap ra rb"
    by (auto simp: conflictsReact_def split: option.splits)
  from slotRange_bounds[OF r(1)] slotRange_bounds[OF r(2)] ov
  have "overlapLabel ra rb
     = Some (overlapText (max (start ra) (start rb)) (min (endExclusive ra) (endExclusive rb)))"
    by (intro overlapLabel_text) (auto simp: rangesOverlap_def)
  with r show ?thesis by (simp add: reactInfo_def reactReport_def)
qed

lemma findConflict_report:
  "findConflict cs es = map_option reactReport (firstConflictingPair conflictsReact cs es)"
proof (cases "firstConflictingPair conflictsReact cs es")
  case None
  then show ?thesis by (simp add: findConflict_first_pair)
next
  case (Some p)
  then have "conflictsReact (fst p) (snd p)"
    by (auto simp: firstConflictingPair_def find_Some_iff)
  from reactInfo_report[OF this] Some show ?thesis
    by (simp add: findConflict_first_pair)
qed

text \<open>
  Claim C3 says that the detector returns the first conflicting pair. The detector of the
  React application returns the day, the existing session and the overlap, and not the
  candidate: two different candidates that conflict with the same existing session give
  the same report, while the detector of the plain JavaScript application names each.
\<close>

theorem react_report_has_no_candidate:
  "findConflict [groupRow 1 ''A'' ''Monday'' ''08:45 - 09:30'' ''Group'']
       [groupRow 7 ''C'' ''Monday'' ''08:45 - 09:30'' ''Group'']
     = findConflict [groupRow 2 ''B'' ''Monday'' ''08:45 - 09:30'' ''Group'']
         [groupRow 7 ''C'' ''Monday'' ''08:45 - 09:30'' ''Group'']
   \<and> findConflict [groupRow 1 ''A'' ''Monday'' ''08:45 - 09:30'' ''Group'']
       [groupRow 7 ''C'' ''Monday'' ''08:45 - 09:30'' ''Group'']
     = Some \<lparr>day = ''Monday'',
              existing = groupRow 7 ''C'' ''Monday'' ''08:45 - 09:30'' ''Group'',
              overlap = Some ''08:45 - 09:30''\<rparr>
   \<and> map_option candidate
        (findFirstConflict [groupRow 1 ''A'' ''Monday'' ''08:45 - 09:30'' ''Group'']
           [groupRow 7 ''C'' ''Monday'' ''08:45 - 09:30'' ''Group''])
     = Some (groupRow 1 ''A'' ''Monday'' ''08:45 - 09:30'' ''Group'')
   \<and> map_option candidate
        (findFirstConflict [groupRow 2 ''B'' ''Monday'' ''08:45 - 09:30'' ''Group'']
           [groupRow 7 ''C'' ''Monday'' ''08:45 - 09:30'' ''Group''])
     = Some (groupRow 2 ''B'' ''Monday'' ''08:45 - 09:30'' ''Group'')
   \<and> groupRow 1 ''A'' ''Monday'' ''08:45 - 09:30'' ''Group''
       \<noteq> groupRow 2 ''B'' ''Monday'' ''08:45 - 09:30'' ''Group''"
  by code_simp

text \<open>
  Claim C3, amended. Each conflict detector finds the first conflicting pair in
  candidate-then-existing order and returns null when no pair conflicts. For that pair the
  detector of the plain JavaScript application returns the candidate, the existing
  session and the overlap sub-range, from the later start to the earlier end; the
  detector of the React application returns the day of the candidate, the existing
  session and the same sub-range as clock text, and not the candidate. A session whose
  day is unmapped or whose time fails to parse is skipped: removing every such session
  from both lists leaves the result unchanged, so it neither blocks nor is blocked.
\<close>

theorem first_conflict_in_input_order:
  "findFirstConflict cs es = map_option plainInfo (firstConflictingPair conflictsPlain cs es)
   \<and> findConflict cs es = map_option reactReport (firstConflictingPair conflictsReact cs es)
   \<and> findFirstConflict (filter schedulablePlain cs) (filter schedulablePlain es)
       = findFirstConflict cs es
   \<and> findConflict (filter schedulableReact cs) (filter schedulableReact es) = findConflict cs es
   \<and> (findFirstConflict cs es = None) = (\<not> (\<exists>a\<in>set cs. \<exists>b\<in>set es. conflictsPlain a b))
   \<and> (findConflict cs es = None) = (\<not> (\<exists>a\<in>set cs. \<exists>b\<in>set es. conflictsReact a b))"
proof -
  have "findFirstConflict (filter schedulablePlain cs) (filter schedulablePlain es)
       = findFirstConflict cs es"
    using firstConflictingPair_filter[of conflictsPlain schedulablePlain schedulablePlain cs es]
      conflictsPlain_schedulable
    by (simp add: findFirstConflict_first_pair)
  moreover have "findConflict (filter schedulableReact cs) (filter schedulableReact es)
       = findConflict cs es"
    using firstConflictingPair_filter[of conflictsReact schedulableReact schedulableReact cs es]
      conflictsReact_schedulable
    by (simp add: findConflict_first_pair)
  moreover have "(findFirstConflict cs es = None)
       = (\<not> (\<exists>a\<in>set cs. \<exists>b\<in>set es. conflictsPlain a b))"
    by (simp add: findFirstConflict_first_pair firstConflictingPair_None_iff)
  moreover have "(findConflict cs es = None)
       = (\<not> (\<exists>a\<in>set cs. \<exists>b\<in>set es. conflictsReact a b))"
    by (simp add: findConflict_first_pair firstConflictingPair_None_iff)
  ultimately show ?thesis
    using findFirstConflict_first_pair[of cs es] findConflict_report[of cs es] by blast
qed

text \<open>
  An instance, on the lists \<open>conflictCandidates\<close> and \<open>conflictExisting\<close>: both detectors
  report the conflict of the Monday section with the Monday session in slot 3, which
  comes first among the existing sessions, and slot 3 as the overlap. The Friday
  candidate alone conflicts with nothing.
\<close>

theorem first_conflict_in_input_order_witness:
  "findFirstConflict conflictCandidates conflictExisting
     = Some \<lparr>candidate = sessionAt ''Monday'' ''10:15 - 11:45'' ''SubGroup'',
              existingSession = sessionAt ''Monday'' ''11:00 - 11:45'' ''Group'',
              overlapSlotRange = \<lparr>startIndex = 3, endIndexExclusive = 4\<rparr>\<rparr>
   \<and> findConflict conflictCandidates conflictExisting
     = Some \<lparr>day = ''Monday'', existing = sessionAt ''Monday'' ''11:00 - 11:45'' ''Group'',
              overlap = Some ''11:00 - 11:45''\<rparr>
   \<and> findConflict [sessionAt ''Friday'' ''10:15 - 11:45'' ''SubGroup''] conflictExisting = None"
proof -
  have p: "firstConflictingPair conflictsPlain conflictCandidates conflictExisting
     = Some (sessionAt ''Monday'' ''10:15 - 11:45'' ''SubGroup'',
             sessionAt ''Monday'' ''11:00 - 11:45'' ''Group'')"
    by code_simp
  have r: "firstConflictingPair conflictsReact conflictCandidates conflictExisting
     = Some (sessionAt ''Monday'' ''10:15 - 11:45'' ''SubGroup'',
             sessionAt ''Monday'' ''11:00 - 11:45'' ''Group'')"
    by code_simp
  have n: "\<not> (\<exists>a\<in>set [sessionAt ''Friday'' ''10:15 - 11:45'' ''SubGroup''].
             \<exists>b\<in>set conflictExisting. conflictsReact a b)"
    by code_simp
  have pi: "plainInfo (sessionAt ''Monday'' ''10:15 - 11:45'' ''SubGroup'',
             sessionAt ''Monday'' ''11:00 - 11:45'' ''Group'')
     = \<lparr>candidate = sessionAt ''Monday'' ''10:15 - 11:45'' ''SubGroup'',
        existingSession = sessionAt ''Monday'' ''11:00 - 11:45'' ''Group'',
        overlapSlotRange = \<lparr>startIndex = 3, endIndexExclusive = 4\<rparr>\<rparr>"
    by code_simp
  have ri: "reactReport (sessionAt ''Monday'' ''10:15 - 11:45'' ''SubGroup'',
             sessionAt ''Monday'' ''11:00 - 11:45'' ''Group'')
     = \<lparr>day = ''Monday'', existing = sessionAt ''Monday'' ''11:00 - 11:45'' ''Group'',
        overlap = Some ''11:00 - 11:45''\<rparr>"
    by code_simp
  note t = first_conflict_in_input_order[of conflictCandidates conflictExisting]
  from t have "findFirstConflict conflictCandidates conflictExisting
     = map_option plainInfo (firstConflictingPair conflictsPlain conflictCandidates conflictExisting)"
    by blast
  then have a: "findFirstConflict conflictCandidates conflictExisting
     = Some \<lparr>candidate = sessionAt ''Monday'' ''10:15 - 11:45'' ''SubGroup'',
              existingSession = sessionAt ''Monday'' ''11:00 - 11:45'' ''Group'',
              overlapSlotRange = \<lparr>startIndex = 3, endIndexExclusive = 4\<rparr>\<rparr>"
    unfolding p by (simp add: pi)
  from t have "findConflict conflictCandidates conflictExisting
     = map_option reactReport (firstConflictingPair conflictsReact conflictCandidates conflictExisting)"
    by blast
  then have b: "findConflict conflictCandidates conflictExisting
     = Some \<lparr>day = ''Monday'', existing = sessionAt ''Monday'' ''11:00 - 11:45'' ''Group'',
              overlap = Some ''11:00 - 11:45''\<rparr>"
    unfolding r by (simp add: ri)
  from first_conflict_in_input_order[of "[sessionAt ''Friday'' ''10:15 - 11:45'' ''SubGroup'']"
      conflictExisting] n
  have c: "findConflict [sessionAt ''Friday'' ''10:15 - 11:45'' ''SubGroup''] conflictExisting = None"
    by blast
  show ?thesis by (intro conjI a b c)
qed


subsection \<open>The two detectors compared\<close>

lemma normalizeDayName_eq: "normalizeDayName s = normalizeDay s"
  by (simp add: normalizeDayName_def normalizeDay_def)

lemma normalizeClock_eq: "normalizeClock v = toHHMM v"
  by (simp add: normalizeClock_def toHHMM_def)

lemma findIndex_map: "findIndex P (map f xs) = findIndex (\<lambda>x. P (f x)) xs"
  by (induction xs) (auto simp: Let_def)

lemma findIndex_cong_set:
  "(\<And>x. x \<in> set xs \<Longrightarrow> P x = Q x) \<Longrightarrow> findIndex P xs = findIndex Q xs"
  by (induction xs) (auto simp: Let_def)

lemma slot_table_start_clocks:
  "\<forall>slot\<in>set TIME_SLOTS. startClock (slotInfo slot) = Some (slotStartOf slot)"
  by code_simp

lemma findIndex_SLOT_RANGES:
  "findIndex (\<lambda>s. startClock s = Some c) SLOT_RANGES
     = findIndex (\<lambda>slot. slotStartOf slot = c) TIME_SLOTS"
  unfolding SLOT_RANGES_def findIndex_map
  by (rule findIndex_cong_set) (use slot_table_start_clocks in auto)

lemma forced_span_typeOrGroup: "getForcedSpanByType (typeOrGroup None) = 1"
  by code_simp

lemma sameForcedSpan_span:
  assumes "sameForcedSpan s"
  shows "getForcedSpanByType (typeOrGroup (Type s)) = forcedSpanByType (Type s)"
proof (cases "Type s")
  case None
  have "forcedSpanByType None = 1" by code_simp
  with None forced_span_typeOrGroup show ?thesis by simp
next
  case (Some t)
  with assms show ?thesis
    by (auto simp: sameForcedSpan_def getForcedSpanByType_def forcedSpanByType_def
        typeOrGroup_def Let_def)
qed

lemma toClockRange_start:
  "toClockRange t = Some (sc, ec) \<Longrightarrow> startClockOf t = Some sc"
  by (auto simp: toClockRange_def startClockOf_def slotStartOf_def normalizeClock_eq
      split: option.splits if_splits list.splits)

lemma startSlotIndex_eq:
  "startClockOf t = Some sc \<Longrightarrow>
     startSlotIndex t = findIndex (\<lambda>slot. slotStartOf slot = sc) TIME_SLOTS"
  by (auto simp: startClockOf_def startSlotIndex_def split: option.splits Option.bind_splits)

lemma same_slot_range:
  assumes "sameForcedSpan s" and "twoClockTime s"
  shows "map_option indexPair (parseTimeRangeToSlotRange (Time s) (Type s))
     = map_option rangePair (slotRange s)"
proof (cases "toClockRange (Time s)")
  case None
  with assms(2) have "startSlotIndex (Time s) < 0" by (simp add: twoClockTime_def)
  with None show ?thesis
    by (simp add: parseTimeRangeToSlotRange_def slotRange_def)
next
  case (Some clocks)
  obtain sc ec where clocks: "clocks = (sc, ec)" by (cases clocks)
  have idx: "startSlotIndex (Time s) = findIndex (\<lambda>sl. startClock sl = Some sc) SLOT_RANGES"
    using toClockRange_start[of "Time s" sc ec] Some clocks
    by (simp add: startSlotIndex_eq findIndex_SLOT_RANGES)
  have sp: "getForcedSpanByType (case Type s of None \<Rightarrow> Some ''Group'' | Some t \<Rightarrow> Some t)
     = forcedSpanByType (Type s)"
    using sameForcedSpan_span[OF assms(1)] by (simp add: typeOrGroup_def)
  show ?thesis
    by (simp add: parseTimeRangeToSlotRange_def slotRange_def Some clocks idx[symmetric] sp
        Let_def indexPair_def rangePair_def)
qed

lemma overlap_pairs:
  "indexPair ra = rangePair rb \<Longrightarrow> indexPair ra' = rangePair rb' \<Longrightarrow>
     isSlotOverlap ra ra' = rangesOverlap rb rb'"
  by (simp add: indexPair_def rangePair_def isSlotOverlap_def rangesOverlap_def)

lemma day_sets: "d \<noteq> ''Saturday'' \<Longrightarrow> (d \<in> set DAYS) = (d \<in> set DAY_ORDER)"
  by (auto simp: DAYS_def DAY_ORDER_def)

lemma conflicts_agree:
  assumes "normalizeDay a \<noteq> ''Saturday''"
    and "sameForcedSpan a" "twoClockTime a" "sameForcedSpan b" "twoClockTime b"
  shows "conflictsReact a b = conflictsPlain a b"
proof -
  have d: "(normalizeDay a \<in> set DAYS) = (normalizeDay a \<in> set DAY_ORDER)"
    using assms(1) by (rule day_sets)
  from same_slot_range[OF assms(2,3)] same_slot_range[OF assms(4,5)]
  show ?thesis
    unfolding conflictsReact_def conflictsPlain_def normalizeDayName_eq d
    by (auto split: option.splits dest: overlap_pairs)
qed

text \<open>
  Two identical Saturday lectures in slot 0: the React application, whose grid has a
  Saturday, reports the conflict; the plain JavaScript application, whose grid runs from
  Sunday to Thursday, reports none.
\<close>

theorem detectors_disagree_on_saturday:
  "findConflict [sessionAt ''Saturday'' ''08:45 - 09:30'' ''Group'']
       [sessionAt ''Saturday'' ''08:45 - 09:30'' ''Group'']
     = Some \<lparr>day = ''Saturday'', existing = sessionAt ''Saturday'' ''08:45 - 09:30'' ''Group'',
          overlap = Some ''08:45 - 09:30''\<rparr>
   \<and> findFirstConflict [sessionAt ''Saturday'' ''08:45 - 09:30'' ''Group'']
       [sessionAt ''Saturday'' ''08:45 - 09:30'' ''Group''] = None"
  by code_simp

text \<open>
  The detectors also part on a kind that contains "lab" and not "sub" (two slots in the
  plain application, one in the React application) and on a time text with a start clock
  only (no range in the plain application).
\<close>

lemma detectors_disagree_on_lab:
  "findConflict [sessionAt ''Monday'' ''10:15 - 11:00'' ''Lab'']
       [sessionAt ''Monday'' ''11:00 - 11:45'' ''Group''] = None
   \<and> map_option existingSession
       (findFirstConflict [sessionAt ''Monday'' ''10:15 - 11:00'' ''Lab'']
          [sessionAt ''Monday'' ''11:00 - 11:45'' ''Group''])
     = Some (sessionAt ''Monday'' ''11:00 - 11:45'' ''Group'')"
  by code_simp

lemma detectors_disagree_on_single_clock:
  "map_option existing
       (findConflict [sessionAt ''Monday'' ''08:45'' ''Group'']
          [sessionAt ''Monday'' ''08:45 - 09:30'' ''Group''])
     = Some (sessionAt ''Monday'' ''08:45 - 09:30'' ''Group'')
   \<and> findFirstConflict [sessionAt ''Monday'' ''08:45'' ''Group'']
       [sessionAt ''Monday'' ''08:45 - 09:30'' ''Group''] = None"
  by code_simp

text \<open>
  Claim C10, amended. When no candidate falls on a Saturday, and for every session a kind
  that contains "lab" also contains "sub" and a time text whose start aligns to a slot is
  made of two clocks around one dash, the two detectors report a conflict for the same
  lists, and on the same pair: the first pair, in candidate-then-existing order, that
  conflicts. They report the same existing session and the day of the same candidate.
\<close>

theorem detectors_agree_when:
  assumes "\<forall>c\<in>set cs. normalizeDay c \<noteq> ''Saturday''"
    and "\<forall>s\<in>set (cs @ es). sameForcedSpan s \<and> twoClockTime s"
  shows "(findConflict cs es = None) = (findFirstConflict cs es = None)
     \<and> findConflict cs es = map_option reactInfo (firstConflictingPair conflictsPlain cs es)
     \<and> findFirstConflict cs es = map_option plainInfo (firstConflictingPair conflictsPlain cs es)
     \<and> map_option existing (findConflict cs es)
         = map_option existingSession (findFirstConflict cs es)
     \<and> map_option day (findConflict cs es)
         = map_option (\<lambda>c. normalizeDayName (candidate c)) (findFirstConflict cs es)"
proof -
  have "firstConflictingPair conflictsReact cs es = firstConflictingPair conflictsPlain cs es"
    by (rule firstConflictingPair_cong) (use assms conflicts_agree in auto)
  then show ?thesis
    by (simp add: findConflict_first_pair findFirstConflict_first_pair option.map_comp comp_def
        reactInfo_def plainInfo_def normalizeDayName_eq)
qed

theorem detectors_agree_when_witness:
  "findConflict [sessionAt ''Monday'' ''10:15 - 11:45'' ''SubGroup'']
       [sessionAt ''Monday'' ''08:45 - 09:30'' ''Group'',
        sessionAt ''Monday'' ''11:00 - 12:30'' ''Lab Sub'']
     = Some \<lparr>day = ''Monday'', existing = sessionAt ''Monday'' ''11:00 - 12:30'' ''Lab Sub'',
          overlap = Some ''11:00 - 11:45''\<rparr>
   \<and> findFirstConflict [sessionAt ''Monday'' ''10:15 - 11:45'' ''SubGroup'']
       [sessionAt ''Monday'' ''08:45 - 09:30'' ''Group'',
        sessionAt ''Monday'' ''11:00 - 12:30'' ''Lab Sub'']
     = Some \<lparr>candidate = sessionAt ''Monday'' ''10:15 - 11:45'' ''SubGroup'',
          existingSession = sessionAt ''Monday'' ''11:00 - 12:30'' ''Lab Sub'',
          overlapSlotRange = \<lparr>startIndex = 3, endIndexExclusive = 4\<rparr>\<rparr>"
proof -
  let ?cs = "[sessionAt ''Monday'' ''10:15 - 11:45'' ''SubGroup'']"
  let ?es = "[sessionAt ''Monday'' ''08:45 - 09:30'' ''Group'',
        sessionAt ''Monday'' ''11:00 - 12:30'' ''Lab Sub'']"
  have h1: "\<forall>c\<in>set ?cs. normalizeDay c \<noteq> ''Saturday''"
    by code_simp
  have h2: "\<forall>s\<in>set (?cs @ ?es). sameForcedSpan s \<and> twoClockTime s"
    by code_simp
  have p: "firstConflictingPair conflictsPlain ?cs ?es
     = Some (sessionAt ''Monday'' ''10:15 - 11:45'' ''SubGroup'',
             sessionAt ''Monday'' ''11:00 - 12:30'' ''Lab Sub'')"
    by code_simp
  have r: "reactInfo (sessionAt ''Monday'' ''10:15 - 11:45'' ''SubGroup'',
             sessionAt ''Monday'' ''11:00 - 12:30'' ''Lab Sub'')
     = \<lparr>day = ''Monday'', existing = sessionAt ''Monday'' ''11:00 - 12:30'' ''Lab Sub'',
          overlap = Some ''11:00 - 11:45''\<rparr>"
    by code_simp
  have q: "plainInfo (sessionAt ''Monday'' ''10:15 - 11:45'' ''SubGroup'',
             sessionAt ''Monday'' ''11:00 - 12:30'' ''Lab Sub'')
     = \<lparr>candidate = sessionAt ''Monday'' ''10:15 - 11:45'' ''SubGroup'',
          existingSession = sessionAt ''Monday'' ''11:00 - 12:30'' ''Lab Sub'',
          overlapSlotRange = \<lparr>startIndex = 3, endIndexExclusive = 4\<rparr>\<rparr>"
    by code_simp
  from detectors_agree_when[OF h1 h2] show ?thesis
    unfolding p by (simp add: r q)
qed


section \<open>Properties of the double-precision arithmetic\<close>

text \<open>
  Rounding a non-negative exact result to 53 bits changes it by at most the fraction
  \<open>2\<^sup>-\<^sup>5\<^sup>3\<close> of its value, so a product and a sum of doubles are that close to the
  exact product and sum.
\<close>

lemma excessBits_bounds:
  "0 \<le> n \<Longrightarrow>
     (excessBits n = 0 \<longrightarrow> n < 2 ^ 53) \<and>
     (0 < excessBits n \<longrightarrow> 2 ^ (52 + excessBits n) \<le> n \<and> n < 2 ^ (53 + excessBits n))"
proof (induction n rule: excessBits.induct)
  case (1 n)
  show ?case
  proof (cases "n < 2 ^ 53")
    case True
    then show ?thesis by (simp add: excessBits.simps[of n])
  next
    case False
    then have unf: "excessBits n = Suc (excessBits (n div 2))"
      by (simp add: excessBits.simps[of n])
    have nn: "0 \<le> n div 2" using "1.prems" by simp
    note IH = "1.IH"[OF False nn]
    show ?thesis
    proof (cases "excessBits (n div 2) = 0")
      case True
      with IH have "n div 2 < 2 ^ 53" by simp
      then have "n < 2 ^ 54" by simp
      with False True unf show ?thesis by simp
    next
      case nz: False
      with IH have lo: "2 ^ (52 + excessBits (n div 2)) \<le> n div 2"
        and hi: "n div 2 < 2 ^ (53 + excessBits (n div 2))" by simp_all
      have p1: "(2::int) ^ (52 + Suc (excessBits (n div 2))) = 2 * 2 ^ (52 + excessBits (n div 2))"
        and p2: "(2::int) ^ (53 + Suc (excessBits (n div 2))) = 2 * 2 ^ (53 + excessBits (n div 2))"
        by (simp_all add: power_add)
      from lo have "2 * 2 ^ (52 + excessBits (n div 2)) \<le> n" by linarith
      moreover from hi have "n < 2 * 2 ^ (53 + excessBits (n div 2))" by linarith
      ultimately show ?thesis unfolding unf p1 p2 by simp
    qed
  qed
qed

lemma doubleValue_pair: "doubleValue (m, e) = of_int m * 2 powi e"
  by (simp add: doubleValue_def)

lemma roundDouble_error:
  assumes "0 \<le> m"
  shows "\<bar>doubleValue (roundDouble (m, e)) - doubleValue (m, e)\<bar> \<le> doubleValue (m, e) / 2 ^ 53
     \<and> 0 \<le> fst (roundDouble (m, e))"
proof (cases "excessBits \<bar>m\<bar> = 0")
  case True
  then show ?thesis using assms by (simp add: roundDouble_def doubleValue_pair)
next
  case False
  define k where "k = excessBits m"
  have k: "0 < k" "excessBits \<bar>m\<bar> = k" using False assms by (simp_all add: k_def)
  from excessBits_bounds[OF assms] k have lo: "2 ^ (52 + k) \<le> m"
    using assms by (simp add: k_def)
  define q where "q = m div 2 ^ k"
  define r where "r = m mod 2 ^ k"
  define h where "h = (2::int) ^ (k - 1)"
  define q' where "q' = (if r > h \<or> (r = h \<and> odd q) then q + 1 else q)"
  have two_h: "(2::int) ^ k = 2 * h"
    using k(1) by (cases k) (simp_all add: h_def)
  have m_eq: "m = q * 2 ^ k + r"
    unfolding q_def r_def by (rule div_mult_mod_eq[symmetric])
  have r_bounds: "0 \<le> r" "r < 2 ^ k" by (simp_all add: r_def)
  have err: "\<bar>q' * 2 ^ k - m\<bar> \<le> h"
    using r_bounds unfolding q'_def m_eq two_h by (auto simp: algebra_simps)
  have q'_nonneg: "0 \<le> q'"
  proof -
    have "0 \<le> q" using assms by (simp add: q_def pos_imp_zdiv_nonneg_iff)
    then show ?thesis by (simp add: q'_def)
  qed
  have res: "roundDouble (m, e) = (q', e + int k)"
    using k by (simp add: roundDouble_def Let_def q'_def q_def r_def h_def)
  have pw: "(2::real) powi (e + int k) = 2 powi e * 2 ^ k"
    by (simp add: power_int_add)
  have pos: "0 < (2::real) powi e" by simp
  have "doubleValue (roundDouble (m, e)) - doubleValue (m, e)
      = of_int (q' * 2 ^ k - m) * 2 powi e"
    unfolding res doubleValue_pair pw by (simp add: algebra_simps)
  then have "\<bar>doubleValue (roundDouble (m, e)) - doubleValue (m, e)\<bar>
      = \<bar>of_int (q' * 2 ^ k - m)\<bar> * 2 powi e"
    using pos by (simp only: abs_mult abs_of_pos)
  also have "\<dots> \<le> of_int h * 2 powi e"
  proof -
    have "\<bar>real_of_int (q' * 2 ^ k - m)\<bar> \<le> of_int h"
      using err by (metis of_int_abs of_int_le_iff)
    then show ?thesis by (intro mult_right_mono) simp_all
  qed
  also have "\<dots> \<le> (of_int m / 2 ^ 53) * 2 powi e"
  proof -
    have "h * 2 ^ 53 \<le> m"
    proof -
      have "h * 2 ^ 53 = 2 ^ (52 + k)"
        using k(1) by (cases k) (simp_all add: h_def power_add)
      with lo show ?thesis by simp
    qed
    then have "real_of_int h * 2 ^ 53 \<le> of_int m"
      by (metis of_int_le_iff of_int_mult of_int_numeral of_int_power)
    then have "real_of_int h \<le> of_int m / 2 ^ 53"
      by (simp add: pos_le_divide_eq)
    then show ?thesis by (intro mult_right_mono) simp_all
  qed
  finally show ?thesis
    using q'_nonneg by (simp add: res doubleValue_pair)
qed

lemma doubleMul_error:
  assumes "0 \<le> fst x" "0 \<le> fst y"
  shows "\<bar>doubleValue (doubleMul x y) - doubleValue x * doubleValue y\<bar>
       \<le> doubleValue x * doubleValue y / 2 ^ 53
     \<and> 0 \<le> fst (doubleMul x y)"
proof -
  have v: "doubleValue (fst x * fst y, snd x + snd y) = doubleValue x * doubleValue y"
    by (simp add: doubleValue_def power_int_add)
  have "0 \<le> fst x * fst y" using assms by simp
  from roundDouble_error[OF this, of "snd x + snd y"] show ?thesis
    unfolding doubleMul_def v .
qed

lemma shift_powi:
  assumes "e \<le> d"
  shows "(2::real) ^ nat (d - e) * 2 powi e = 2 powi d"
proof -
  have "(2::real) ^ nat (d - e) = 2 powi (d - e)"
    using assms by (simp add: power_int_def)
  moreover have "(2::real) powi (d - e) * 2 powi e = 2 powi ((d - e) + e)"
    by (rule power_int_add[symmetric]) simp
  ultimately show ?thesis by simp
qed

lemma doubleAdd_error:
  assumes "0 \<le> fst x" "0 \<le> fst y"
  shows "\<bar>doubleValue (doubleAdd x y) - (doubleValue x + doubleValue y)\<bar>
       \<le> (doubleValue x + doubleValue y) / 2 ^ 53
     \<and> 0 \<le> fst (doubleAdd x y)"
proof -
  define e where "e = min (snd x) (snd y)"
  have ex: "e \<le> snd x" and ey: "e \<le> snd y" by (simp_all add: e_def)
  have "doubleValue (fst x * 2 ^ nat (snd x - e) + fst y * 2 ^ nat (snd y - e), e)
      = of_int (fst x) * (2 ^ nat (snd x - e) * 2 powi e)
        + of_int (fst y) * (2 ^ nat (snd y - e) * 2 powi e)"
    unfolding doubleValue_pair by (simp add: algebra_simps)
  also have "\<dots> = doubleValue x + doubleValue y"
    unfolding shift_powi[OF ex] shift_powi[OF ey] by (simp add: doubleValue_def)
  finally have v: "doubleValue (fst x * 2 ^ nat (snd x - e) + fst y * 2 ^ nat (snd y - e), e)
      = doubleValue x + doubleValue y" .
  have "0 \<le> fst x * 2 ^ nat (snd x - e) + fst y * 2 ^ nat (snd y - e)"
    using assms by simp
  from roundDouble_error[OF this, of e] show ?thesis
    unfolding doubleAdd_def Let_def e_def[symmetric] v .
qed

lemma floor_int_plus_half: "\<lfloor>real_of_int z + 1 / 2\<rfloor> = z"
  by (rule floor_unique) simp_all

lemma powi_nonneg_exp: "0 \<le> e \<Longrightarrow> (2::real) powi e = 2 ^ nat e"
  by (simp add: power_int_def)

lemma powi_neg_exp:
  assumes "\<not> 0 \<le> e"
  shows "(2::real) powi e = 1 / 2 ^ nat (- e)"
proof -
  from assms have "(2::real) powi e = inverse 2 ^ nat (- e)"
    by (simp only: power_int_def if_False)
  also have "\<dots> = inverse (2 ^ nat (- e))"
    by (rule power_inverse)
  also have "\<dots> = 1 / 2 ^ nat (- e)"
    by (rule inverse_eq_divide)
  finally show ?thesis .
qed

lemma half_split:
  "real_of_int (2 * m + 2 ^ n) / of_int (2 ^ (n + 1)) = of_int m * (1 / 2 ^ n) + 1 / 2"
proof -
  have "real_of_int (2 * m + 2 ^ n) / of_int (2 ^ (n + 1))
        = (2 * of_int m) / (2 * 2 ^ n) + 2 ^ n / (2 * 2 ^ n)"
    by (simp add: add_divide_distrib)
  also have "(2 * real_of_int m) / (2 * 2 ^ n) = of_int m * (1 / 2 ^ n)"
    by simp
  also have "(2::real) ^ n / (2 * 2 ^ n) = 1 / 2"
    by simp
  finally show ?thesis .
qed

lemma mathRound_floor: "mathRound x = \<lfloor>doubleValue x + 1 / 2\<rfloor>"
proof (cases x)
  case (Pair m e)
  show ?thesis
  proof (cases "0 \<le> e")
    case True
    have "doubleValue (m, e) + 1 / 2 = of_int (m * 2 ^ nat e) + 1 / 2"
      by (simp add: doubleValue_pair powi_nonneg_exp[OF True])
    then have "\<lfloor>doubleValue (m, e) + 1 / 2\<rfloor> = m * 2 ^ nat e"
      by (simp only: floor_int_plus_half)
    with True Pair show ?thesis by (simp add: mathRound_def)
  next
    case False
    have "doubleValue (m, e) + 1 / 2
        = of_int (2 * m + 2 ^ nat (- e)) / of_int (2 ^ (nat (- e) + 1))"
      by (simp only: doubleValue_pair powi_neg_exp[OF False] half_split)
    then have "\<lfloor>doubleValue (m, e) + 1 / 2\<rfloor> = (2 * m + 2 ^ nat (- e)) div 2 ^ (nat (- e) + 1)"
      by (simp only: floor_divide_of_int_eq)
    with False Pair show ?thesis by (simp add: mathRound_def)
  qed
qed

lemma doubleOfInt_small:
  assumes "0 \<le> n" "n \<le> 100"
  shows "doubleOfInt n = (n, 0)"
proof -
  have "excessBits n = 0"
    using assms by (simp add: excessBits.simps[of n])
  moreover have "\<bar>n\<bar> = n" using assms by simp
  ultimately show ?thesis by (simp add: doubleOfInt_def roundDouble_def)
qed

lemma powi_minus_54: "(2::real) powi (- 54) = 1 / 2 ^ 54"
  using powi_neg_exp[of "- 54"] by simp

lemma powi_minus_55: "(2::real) powi (- 55) = 1 / 2 ^ 55"
  using powi_neg_exp[of "- 55"] by simp

lemma literal_values:
  "doubleValue lit_0_34 = 6124895493223875 / 2 ^ 54"
  "doubleValue lit_0_3 = 5404319552844595 / 2 ^ 54"
  "doubleValue lit_0_2 = 7205759403792794 / 2 ^ 55"
  "doubleValue lit_0_16 = 5764607523034235 / 2 ^ 55"
  unfolding doubleValue_def lit_0_34_def lit_0_3_def lit_0_2_def lit_0_16_def
    fst_conv snd_conv powi_minus_54 powi_minus_55
  by simp_all

lemma unit_roundoff: "(100::real) / 2 ^ 53 \<le> 1 / 10000000000000" "(150::real) / 2 ^ 53 \<le> 1 / 10000000000000"
  by simp_all

lemma product_close:
  assumes n: "0 \<le> n" "n \<le> 100"
    and c: "0 \<le> fst c" "\<bar>doubleValue c - w\<bar> \<le> 1 / 1000000000000000" "0 \<le> w" "w \<le> 1 / 2"
  shows "\<bar>doubleValue (doubleMul (doubleOfInt n) c) - of_int n * w\<bar> \<le> 2 / 10000000000000
     \<and> 0 \<le> fst (doubleMul (doubleOfInt n) c)"
proof -
  let ?p = "doubleValue (doubleMul (doubleOfInt n) c)"
  let ?a = "doubleValue c"
  have v: "doubleValue (doubleOfInt n) = of_int n" and f: "0 \<le> fst (doubleOfInt n)"
    using n by (simp_all add: doubleOfInt_small doubleValue_pair)
  from doubleMul_error[OF f c(1)]
  have e: "\<bar>?p - of_int n * ?a\<bar> \<le> of_int n * ?a / 2 ^ 53"
    and nn: "0 \<le> fst (doubleMul (doubleOfInt n) c)"
    by (simp_all add: v)
  have rn: "0 \<le> real_of_int n" "real_of_int n \<le> 100" using n by simp_all
  have a_hi: "?a \<le> 1" using c(2-4) by linarith
  have "real_of_int n * \<bar>?a - w\<bar> \<le> 100 * (1 / 1000000000000000)"
    using rn c(2) by (intro mult_mono) simp_all
  moreover have "\<bar>of_int n * ?a - of_int n * w\<bar> = real_of_int n * \<bar>?a - w\<bar>"
    using rn by (simp add: abs_mult flip: right_diff_distrib)
  ultimately have d1: "\<bar>of_int n * ?a - of_int n * w\<bar> \<le> 1 / 10000000000000"
    by simp
  have a_lo: "0 \<le> ?a" using c(1) by (simp add: doubleValue_def)
  have "real_of_int n * ?a \<le> 100 * 1"
    using rn a_hi a_lo by (intro mult_mono) simp_all
  then have "real_of_int n * ?a / 2 ^ 53 \<le> 100 / 2 ^ 53"
    by (intro divide_right_mono) simp_all
  with e unit_roundoff(1) have d2: "\<bar>?p - of_int n * ?a\<bar> \<le> 1 / 10000000000000" by linarith
  have "\<bar>?p - of_int n * w\<bar> \<le> 2 / 10000000000000"
    using d1 d2 by linarith
  with nn show ?thesis by simp
qed

lemma sum_close:
  assumes x: "0 \<le> fst x" "\<bar>doubleValue x - a\<bar> \<le> dx" "0 \<le> a"
    and y: "0 \<le> fst y" "\<bar>doubleValue y - b\<bar> \<le> dy" "0 \<le> b"
    and small: "a + b + dx + dy \<le> 150"
  shows "\<bar>doubleValue (doubleAdd x y) - (a + b)\<bar> \<le> dx + dy + 1 / 10000000000000
     \<and> 0 \<le> fst (doubleAdd x y)"
proof -
  let ?s = "doubleValue (doubleAdd x y)"
  from doubleAdd_error[OF x(1) y(1)]
  have e: "\<bar>?s - (doubleValue x + doubleValue y)\<bar> \<le> (doubleValue x + doubleValue y) / 2 ^ 53"
    and nn: "0 \<le> fst (doubleAdd x y)" by simp_all
  have "doubleValue x + doubleValue y \<le> 150" using x(2) y(2) small by linarith
  then have "(doubleValue x + doubleValue y) / 2 ^ 53 \<le> 150 / 2 ^ 53"
    by (intro divide_right_mono) simp_all
  with e unit_roundoff(2) have "\<bar>?s - (doubleValue x + doubleValue y)\<bar> \<le> 1 / 10000000000000"
    by linarith
  with x(2) y(2) have "\<bar>?s - (a + b)\<bar> \<le> dx + dy + 1 / 10000000000000" by linarith
  with nn show ?thesis by simp
qed

lemma literals_close:
  "0 \<le> fst lit_0_34" "\<bar>doubleValue lit_0_34 - 34 / 100\<bar> \<le> 1 / 1000000000000000"
  "0 \<le> fst lit_0_3" "\<bar>doubleValue lit_0_3 - 30 / 100\<bar> \<le> 1 / 1000000000000000"
  "0 \<le> fst lit_0_2" "\<bar>doubleValue lit_0_2 - 20 / 100\<bar> \<le> 1 / 1000000000000000"
  "0 \<le> fst lit_0_16" "\<bar>doubleValue lit_0_16 - 16 / 100\<bar> \<le> 1 / 1000000000000000"
  unfolding literal_values
  by (simp_all add: lit_0_34_def lit_0_3_def lit_0_2_def lit_0_16_def)

text \<open>
  The sub-scores are even integers between 0 and 100, so the exact weighted sum is a
  multiple of 0.04 and never within 0.02 of a rounding boundary; the rounding errors of
  the seven double operations are far smaller. The score computed in doubles is therefore
  the exactly rounded one.
\<close>

lemma tie_free:
  fixes s :: int
  assumes "s mod 4 = 0"
  shows "2 \<le> (s + 50) mod 100 \<and> (s + 50) mod 100 \<le> 98"
  using assms by presburger

lemma weightedOverall_exact:
  assumes sd: "0 \<le> sd" "sd \<le> 100" "even sd"
    and sg: "0 \<le> sg" "sg \<le> 100" "even sg"
    and sl: "0 \<le> sl" "sl \<le> 100" "even sl"
    and sc: "0 \<le> sc" "sc \<le> 100" "even sc"
  shows "weightedOverall sd sg sl sc = (34 * sd + 30 * sg + 20 * sl + 16 * sc + 50) div 100"
proof -
  define p1 where "p1 = doubleMul (doubleOfInt sd) lit_0_34"
  define p2 where "p2 = doubleMul (doubleOfInt sg) lit_0_3"
  define p3 where "p3 = doubleMul (doubleOfInt sl) lit_0_2"
  define p4 where "p4 = doubleMul (doubleOfInt sc) lit_0_16"
  define s1 where "s1 = doubleAdd p1 p2"
  define s2 where "s2 = doubleAdd s1 p3"
  define s3 where "s3 = doubleAdd s2 p4"
  define S where "S = 34 * sd + 30 * sg + 20 * sl + 16 * sc"
  define n where "n = (S + 50) div 100"
  define r where "r = (S + 50) mod 100"
  have w: "weightedOverall sd sg sl sc = \<lfloor>doubleValue s3 + 1 / 2\<rfloor>"
    by (simp add: weightedOverall_def mathRound_floor s3_def s2_def s1_def p1_def p2_def p3_def p4_def)
  have rsd: "0 \<le> real_of_int sd" "real_of_int sd \<le> 100"
    and rsg: "0 \<le> real_of_int sg" "real_of_int sg \<le> 100"
    and rsl: "0 \<le> real_of_int sl" "real_of_int sl \<le> 100"
    and rsc: "0 \<le> real_of_int sc" "real_of_int sc \<le> 100"
    using sd sg sl sc by simp_all
  have P1: "\<bar>doubleValue p1 - of_int sd * (34 / 100)\<bar> \<le> 2 / 10000000000000" "0 \<le> fst p1"
    using product_close[OF sd(1,2) literals_close(1,2)] by (simp_all add: p1_def)
  have P2: "\<bar>doubleValue p2 - of_int sg * (30 / 100)\<bar> \<le> 2 / 10000000000000" "0 \<le> fst p2"
    using product_close[OF sg(1,2) literals_close(3,4)] by (simp_all add: p2_def)
  have P3: "\<bar>doubleValue p3 - of_int sl * (20 / 100)\<bar> \<le> 2 / 10000000000000" "0 \<le> fst p3"
    using product_close[OF sl(1,2) literals_close(5,6)] by (simp_all add: p3_def)
  have P4: "\<bar>doubleValue p4 - of_int sc * (16 / 100)\<bar> \<le> 2 / 10000000000000" "0 \<le> fst p4"
    using product_close[OF sc(1,2) literals_close(7,8)] by (simp_all add: p4_def)
  have S1: "\<bar>doubleValue s1 - (of_int sd * (34 / 100) + of_int sg * (30 / 100))\<bar>
      \<le> 2 / 10000000000000 + 2 / 10000000000000 + 1 / 10000000000000" "0 \<le> fst s1"
    using sum_close[OF P1(2,1) _ P2(2,1)] rsd rsg by (simp_all add: s1_def)
  have S2: "\<bar>doubleValue s2 - (of_int sd * (34 / 100) + of_int sg * (30 / 100) + of_int sl * (20 / 100))\<bar>
      \<le> 5 / 10000000000000 + 2 / 10000000000000 + 1 / 10000000000000" "0 \<le> fst s2"
    using sum_close[OF S1(2) _ _ P3(2,1), of "of_int sd * (34 / 100) + of_int sg * (30 / 100)" "5 / 10000000000000"]
      S1(1) rsd rsg rsl by (simp_all add: s2_def)
  have S3: "\<bar>doubleValue s3 - (of_int sd * (34 / 100) + of_int sg * (30 / 100) + of_int sl * (20 / 100)
        + of_int sc * (16 / 100))\<bar>
      \<le> 8 / 10000000000000 + 2 / 10000000000000 + 1 / 10000000000000"
    using sum_close[OF S2(2) _ _ P4(2,1), of "of_int sd * (34 / 100) + of_int sg * (30 / 100)
        + of_int sl * (20 / 100)" "8 / 10000000000000"]
      S2(1) rsd rsg rsl rsc by (simp_all add: s3_def)
  have exact: "of_int sd * (34 / 100) + of_int sg * (30 / 100) + of_int sl * (20 / 100)
        + of_int sc * (16 / 100) = real_of_int S / 100"
    by (simp add: S_def)
  have "S mod 4 = 0"
    using sd(3) sg(3) sl(3) sc(3) unfolding S_def by presburger
  from tie_free[OF this] have r: "2 \<le> r" "r \<le> 98" by (simp_all add: r_def)
  have "S + 50 = 100 * n + r" by (simp add: n_def r_def)
  then have "real_of_int (S + 50) = real_of_int (100 * n + r)" by simp
  then have split: "real_of_int S / 100 + 1 / 2 = of_int n + of_int r / 100" by simp
  have rr: "2 \<le> real_of_int r" "real_of_int r \<le> 98" using r by simp_all
  have "\<lfloor>doubleValue s3 + 1 / 2\<rfloor> = n"
  proof (rule floor_unique)
    show "of_int n \<le> doubleValue s3 + 1 / 2"
      using S3 split rr unfolding exact by linarith
    show "doubleValue s3 + 1 / 2 < of_int n + 1"
      using S3 split rr unfolding exact by linarith
  qed
  then show ?thesis by (simp add: w n_def S_def)
qed

section \<open>Properties of the schedule evaluator\<close>

lemma countSessionConflicts_nonneg: "0 \<le> countSessionConflicts ss"
  by (induction ss) simp_all

lemma gapsOfDay_nonneg: "0 \<le> gapsOfDay used"
  by (simp add: gapsOfDay_def)

lemma evalDay_gaps_nonneg: "0 \<le> snd acc \<Longrightarrow> 0 \<le> snd (foldl (evalDay occ) acc ds)"
proof (induction ds arbitrary: acc)
  case Nil
  then show ?case by simp
next
  case (Cons d ds)
  have "0 \<le> snd (evalDay occ acc d)"
    using Cons.prems gapsOfDay_nonneg[of "occ d"] by (simp add: evalDay_def)
  then show ?case using Cons.IH by simp
qed

lemma sub_score_range:
  fixes k c :: int
  assumes "0 \<le> k" "even c"
  shows "0 \<le> max 0 (100 - k * c)" "even (max 0 (100 - k * c))"
  using assms by (auto simp: max_def)

lemma sub_score_upper:
  fixes k c :: int
  assumes "0 \<le> k" "0 \<le> c"
  shows "max 0 (100 - k * c) \<le> 100"
  using assms by (simp add: max_def)

lemma exactOverall_div:
  "exactOverall sd sg sl sc = (34 * sd + 30 * sg + 20 * sl + 16 * sc + 50) div 100"
proof -
  have "(34 / 100) * real_of_int sd + (30 / 100) * real_of_int sg + (20 / 100) * real_of_int sl
        + (16 / 100) * real_of_int sc + 1 / 2
      = real_of_int (34 * sd + 30 * sg + 20 * sl + 16 * sc + 50) / real_of_int 100"
    by simp
  then show ?thesis
    unfolding exactOverall_def by (simp only: floor_divide_of_int_eq)
qed

lemma evaluateSchedule_fields:
  "scoreDays (evaluateSchedule ss) = max 0 (100 - 18 * max 0 (activeDays (evaluateSchedule ss) - 1))"
  "scoreGaps (evaluateSchedule ss) = max 0 (100 - 10 * gapSlots (evaluateSchedule ss))"
  "scoreLate (evaluateSchedule ss) = max 0 (100 - 24 * after4Sessions (evaluateSchedule ss))"
  "scoreConflict (evaluateSchedule ss) = max 0 (100 - 40 * conflictCount (evaluateSchedule ss))"
  "overall (evaluateSchedule ss) =
     weightedOverall (scoreDays (evaluateSchedule ss)) (scoreGaps (evaluateSchedule ss))
       (scoreLate (evaluateSchedule ss)) (scoreConflict (evaluateSchedule ss))"
  by (simp_all add: evaluateSchedule_def Let_def mult.commute)

lemma evaluateSchedule_counts_nonneg:
  "0 \<le> gapSlots (evaluateSchedule ss)" "0 \<le> after4Sessions (evaluateSchedule ss)"
  "0 \<le> conflictCount (evaluateSchedule ss)"
  using evalDay_gaps_nonneg[of "(0, 0)"] countSessionConflicts_nonneg
  by (simp_all add: evaluateSchedule_def Let_def)

lemma evaluateSchedule_overall_exact:
  "overall (evaluateSchedule ss) =
     exactOverall (scoreDays (evaluateSchedule ss)) (scoreGaps (evaluateSchedule ss))
       (scoreLate (evaluateSchedule ss)) (scoreConflict (evaluateSchedule ss))"
proof -
  let ?r = "evaluateSchedule ss"
  have k: "0 \<le> max 0 (activeDays ?r - 1)" by simp
  have sd: "0 \<le> scoreDays ?r" "scoreDays ?r \<le> 100" "even (scoreDays ?r)"
    using sub_score_range[OF k, of 18] sub_score_upper[OF k, of 18]
    by (simp_all add: evaluateSchedule_fields mult.commute)
  have sg: "0 \<le> scoreGaps ?r" "scoreGaps ?r \<le> 100" "even (scoreGaps ?r)"
    using sub_score_range[OF evaluateSchedule_counts_nonneg(1), of 10 ss]
      sub_score_upper[OF evaluateSchedule_counts_nonneg(1), of 10 ss]
    by (simp_all add: evaluateSchedule_fields mult.commute)
  have sl: "0 \<le> scoreLate ?r" "scoreLate ?r \<le> 100" "even (scoreLate ?r)"
    using sub_score_range[OF evaluateSchedule_counts_nonneg(2), of 24 ss]
      sub_score_upper[OF evaluateSchedule_counts_nonneg(2), of 24 ss]
    by (simp_all add: evaluateSchedule_fields mult.commute)
  have sc: "0 \<le> scoreConflict ?r" "scoreConflict ?r \<le> 100" "even (scoreConflict ?r)"
    using sub_score_range[OF evaluateSchedule_counts_nonneg(3), of 40 ss]
      sub_score_upper[OF evaluateSchedule_counts_nonneg(3), of 40 ss]
    by (simp_all add: evaluateSchedule_fields mult.commute)
  show ?thesis
    unfolding evaluateSchedule_fields(5) exactOverall_div
    by (rule weightedOverall_exact[OF sd sg sl sc])
qed

lemma evaluateSchedule_empty:
  "evaluateSchedule [] =
     \<lparr>activeDays = 0, gapSlots = 0, after4Sessions = 0, conflictCount = 0,
      scoreDays = 100, scoreGaps = 100, scoreLate = 100, scoreConflict = 100, overall = 100\<rparr>"
  by code_simp

lemma evaluateSchedule_example:
  "evaluateSchedule
     [sessionAt ''Monday'' ''16:15 - 17:00'' ''Group'', sessionAt ''Monday'' ''08:45 - 10:15'' ''SubGroup'',
      sessionAt ''Monday'' ''09:30 - 10:15'' ''Group'', sessionAt ''Sunday'' ''09:30 - 10:15'' ''Group'']
   = \<lparr>activeDays = 2, gapSlots = 8, after4Sessions = 1, conflictCount = 1,
      scoreDays = 82, scoreGaps = 20, scoreLate = 76, scoreConflict = 60, overall = 59\<rparr>"
  by code_simp

text \<open>
  Claim C4. The evaluator's sub-scores are
  \<open>scoreDays = max 0 (100 - 18 * max 0 (activeDays - 1))\<close>,
  \<open>scoreGaps = max 0 (100 - 10 * gapSlots)\<close>,
  \<open>scoreLate = max 0 (100 - 24 * lateSessions)\<close> and
  \<open>scoreConflict = max 0 (100 - 40 * conflictCount)\<close>, and the overall score, which the
  code computes in doubles, is the weighted sum
  \<open>0.34 * scoreDays + 0.30 * scoreGaps + 0.20 * scoreLate + 0.16 * scoreConflict\<close> rounded to
  the nearest integer. Evaluating no session gives no active day, no gap, no late session,
  no conflict and the overall score 100.
\<close>

theorem evaluator_scores:
  "scoreDays (evaluateSchedule ss) = max 0 (100 - 18 * max 0 (activeDays (evaluateSchedule ss) - 1))
   \<and> scoreGaps (evaluateSchedule ss) = max 0 (100 - 10 * gapSlots (evaluateSchedule ss))
   \<and> scoreLate (evaluateSchedule ss) = max 0 (100 - 24 * after4Sessions (evaluateSchedule ss))
   \<and> scoreConflict (evaluateSchedule ss) = max 0 (100 - 40 * conflictCount (evaluateSchedule ss))
   \<and> overall (evaluateSchedule ss) =
       \<lfloor>(34 / 100) * real_of_int (scoreDays (evaluateSchedule ss))
          + (30 / 100) * real_of_int (scoreGaps (evaluateSchedule ss))
          + (20 / 100) * real_of_int (scoreLate (evaluateSchedule ss))
          + (16 / 100) * real_of_int (scoreConflict (evaluateSchedule ss)) + 1 / 2\<rfloor>
   \<and> activeDays (evaluateSchedule []) = 0 \<and> gapSlots (evaluateSchedule []) = 0
   \<and> after4Sessions (evaluateSchedule []) = 0 \<and> conflictCount (evaluateSchedule []) = 0
   \<and> overall (evaluateSchedule []) = 100"
  using evaluateSchedule_overall_exact[of ss]
  by (simp add: evaluateSchedule_fields(1-4) evaluateSchedule_empty exactOverall_def)

section \<open>Properties of registration\<close>

lemma registerSelection_cases:
  "(case registerSelection courses sel lp sp st of
      (st', r) \<Rightarrow>
        (r \<noteq> Saved \<longrightarrow> registrations st' = registrations st)
        \<and> (r = Saved \<longrightarrow>
             (\<exists>c. sel = Some c \<and> truthyId lp \<and>
                registrations st'
                  = upsert \<lparr>regCourseId = courseKey c,
                      selectedGroupIds = the lp # (if truthyId sp then [the sp] else [])\<rparr>
                      (registrations st))))"
  by (simp add: registerSelection_def Let_def showNotice_def split: option.split)

lemma handleRegistrationSubmit_cases:
  "(case handleRegistrationSubmit lv bv st of
      (st', r) \<Rightarrow>
        (r \<noteq> Registered \<longrightarrow> pageRegistrations st' = pageRegistrations st)
        \<and> (r = Registered \<longrightarrow>
             (\<exists>cid lec. selectedCourseId st = Some cid \<and> lv = Some lec \<and>
                pageRegistrations st'
                  = upsertRegistration cid (lec # (case bv of None \<Rightarrow> [] | Some lab \<Rightarrow> [lab]))
                      (pageRegistrations st))))"
  by (simp add: handleRegistrationSubmit_def Let_def split: option.split validation.split)

text \<open>
  Claim C7. A registration attempt that does not save leaves the registration set as it
  was, in both applications: whether no lecture is chosen, more than one lecture or more
  than one section is chosen, or the chosen sessions conflict with the sessions of the
  other registered courses.
\<close>

theorem registration_unchanged_on_failure:
  "(snd (registerSelection courses sel lp sp st) \<noteq> Saved \<longrightarrow>
      registrations (fst (registerSelection courses sel lp sp st)) = registrations st)
   \<and> (snd (handleRegistrationSubmit lv bv ps) \<noteq> Registered \<longrightarrow>
      pageRegistrations (fst (handleRegistrationSubmit lv bv ps)) = pageRegistrations ps)"
  using registerSelection_cases[where courses = courses and sel = sel and lp = lp and sp = sp
      and st = st]
    handleRegistrationSubmit_cases[where lv = lv and bv = bv and st = ps]
  by (simp add: case_prod_unfold)

text \<open>
  Instances, with Pathology group 1 and Microbiology groups 2 and 3 registered: choosing
  the two Microbiology lecture groups is rejected, choosing no lecture is rejected, and
  choosing lecture group 1 with section 3 conflicts with Pathology on Monday in slot 0.
  The registrations stay as they were each time.
\<close>

theorem registration_unchanged_on_failure_witness:
  "snd (registerSelection [exampleMicro, examplePatho] (Some exampleMicro) (Some 1) (Some 2)
          exampleApp) = ValidationError
   \<and> registrations (fst (registerSelection [exampleMicro, examplePatho] (Some exampleMicro)
          (Some 1) (Some 2) exampleApp)) = exampleRegistrations
   \<and> snd (registerSelection [exampleMicro, examplePatho] (Some exampleMicro) None (Some 3)
          exampleApp) = ValidationError
   \<and> registrations (fst (registerSelection [exampleMicro, examplePatho] (Some exampleMicro)
          None (Some 3) exampleApp)) = exampleRegistrations
   \<and> snd (registerSelection [exampleMicro, examplePatho] (Some exampleMicro) (Some 1) (Some 3)
          exampleApp) = ConflictError
   \<and> registrations (fst (registerSelection [exampleMicro, examplePatho] (Some exampleMicro)
          (Some 1) (Some 3) exampleApp)) = exampleRegistrations
   \<and> snd (handleRegistrationSubmit (Some 1) (Some 2) examplePage) = Invalid TooManyGroups
   \<and> pageRegistrations (fst (handleRegistrationSubmit (Some 1) (Some 2) examplePage))
        = exampleRegistrations
   \<and> snd (handleRegistrationSubmit None (Some 3) examplePage) = Invalid NoLecture
   \<and> pageRegistrations (fst (handleRegistrationSubmit None (Some 3) examplePage))
        = exampleRegistrations
   \<and> pageRegistrations (fst (handleRegistrationSubmit (Some 1) (Some 3) examplePage))
        = exampleRegistrations"
proof -
  have r1: "snd (registerSelection [exampleMicro, examplePatho] (Some exampleMicro) (Some 1) (Some 2)
          exampleApp) = ValidationError"
    by code_simp
  have r2: "snd (registerSelection [exampleMicro, examplePatho] (Some exampleMicro) None (Some 3)
          exampleApp) = ValidationError"
    by code_simp
  have r3: "snd (registerSelection [exampleMicro, examplePatho] (Some exampleMicro) (Some 1) (Some 3)
          exampleApp) = ConflictError"
    by code_simp
  have p1: "snd (handleRegistrationSubmit (Some 1) (Some 2) examplePage) = Invalid TooManyGroups"
    by code_simp
  have p2: "snd (handleRegistrationSubmit None (Some 3) examplePage) = Invalid NoLecture"
    by code_simp
  have p3: "snd (handleRegistrationSubmit (Some 1) (Some 3) examplePage) \<noteq> Registered"
    by code_simp
  have a: "registrations exampleApp = exampleRegistrations"
    "pageRegistrations examplePage = exampleRegistrations"
    by (simp_all add: exampleApp_def examplePage_def)
  show ?thesis
    using registration_unchanged_on_failure[where courses = "[exampleMicro, examplePatho]"
        and sel = "Some exampleMicro" and lp = "Some 1" and sp = "Some 2" and st = exampleApp
        and lv = "Some 1" and bv = "Some 2" and ps = examplePage]
      registration_unchanged_on_failure[where courses = "[exampleMicro, examplePatho]"
        and sel = "Some exampleMicro" and lp = "None" and sp = "Some 3" and st = exampleApp
        and lv = "None" and bv = "Some 3" and ps = examplePage]
      registration_unchanged_on_failure[where courses = "[exampleMicro, examplePatho]"
        and sel = "Some exampleMicro" and lp = "Some 1" and sp = "Some 3" and st = exampleApp
        and lv = "Some 1" and bv = "Some 3" and ps = examplePage]
    by (simp add: r1 r2 r3 p1 p2 p3 a)
qed

text \<open>
  An attempt that saves: Microbiology lecture group 2 with section 3 replaces the
  registration of the course and leaves the other one.
\<close>

lemma registration_saved_example:
  "snd (registerSelection [exampleMicro, examplePatho] (Some exampleMicro) (Some 2) (Some 3)
          (exampleApp\<lparr>registrations := [\<lparr>regCourseId = ''patho'', selectedGroupIds = [1]\<rparr>]\<rparr>))
     = Saved
   \<and> registrations (fst (registerSelection [exampleMicro, examplePatho] (Some exampleMicro)
          (Some 2) (Some 3)
          (exampleApp\<lparr>registrations := [\<lparr>regCourseId = ''patho'', selectedGroupIds = [1]\<rparr>]\<rparr>)))
     = exampleRegistrations"
  by code_simp

section \<open>Properties of the planner\<close>

subsection \<open>The search\<close>

lemma dfs_stop: "searchStops ctx n st \<Longrightarrow> dfs ctx rest n st = st"
  by (auto simp: dfs.simps[of ctx rest n st] searchStops_def)

lemma dfs_leaf:
  "\<not> searchStops ctx n st \<Longrightarrow>
     dfs ctx [] n st
       = st\<lparr>explored := explored st + 1,
            pool := pool st @ [leafPlan ctx (st\<lparr>explored := explored st + 1\<rparr>)]\<rparr>"
  by (simp add: dfs.simps[of ctx "[]" n st] searchStops_def Let_def)

lemma dfs_node:
  "\<not> searchStops ctx n st \<Longrightarrow> dfs ctx (c # cs) n st = dfsChoices ctx c cs (choices c) n st"
  by (simp add: dfs.simps[of ctx "c # cs" n st] searchStops_def)

lemma leafPlan_consistent: "planConsistent ctx (leafPlan ctx st)"
  by (simp add: planConsistent_def leafPlan_def Let_def damageOf_def)


lemma dfs_pool_invariant:
  fixes P :: "planner_context \<Rightarrow> plan \<Rightarrow> bool"
  assumes leaf: "\<And>ctx st. P ctx (leafPlan ctx st)"
  shows "(\<forall>p\<in>set (pool st). P ctx p) \<longrightarrow> (\<forall>p\<in>set (pool (dfs ctx rest n st)). P ctx p)"
    and "(\<forall>p\<in>set (pool st). P ctx p) \<longrightarrow> (\<forall>p\<in>set (pool (dfsChoices ctx c cs chs n st)). P ctx p)"
proof (induction ctx rest n st and ctx c cs chs n st rule: dfs_dfsChoices.induct)
  case (1 ctx rest changeCnt st)
  show ?case
  proof (cases "searchStops ctx changeCnt st")
    case True
    then show ?thesis by (simp add: dfs_stop)
  next
    case False
    then have guards: "\<not> MAX_PLAN_SEARCH_LIMIT \<le> explored st"
      "\<not> plannerMaxChanges (request ctx) < changeCnt"
      by (simp_all add: searchStops_def)
    show ?thesis
    proof (cases rest)
      case Nil
      with False leaf show ?thesis by (auto simp: dfs_leaf)
    next
      case (Cons c cs)
      with False "1.IH"[OF guards Cons] show ?thesis by (simp add: dfs_node)
    qed
  qed
next
  case (2 ctx c cs changeCnt st)
  then show ?case by simp
next
  case (3 ctx c cs ch chs changeCnt st)
  show ?case
  proof (cases "\<not> allowChange c \<and> comboKey ch \<noteq> currentKey c")
    case True
    with "3.IH"(1) show ?thesis by simp
  next
    case False
    define st1 where "st1 = st\<lparr>selectedChoices := (selectedChoices st)(altCourseId c \<mapsto> ch)\<rparr>"
    define st2 where "st2 = dfs ctx cs (changeCnt + changeCost ch) st1"
    define st3 where "st3 = st2\<lparr>selectedChoices := (selectedChoices st2)(altCourseId c := None)\<rparr>"
    have unf: "dfsChoices ctx c cs (ch # chs) changeCnt st = dfsChoices ctx c cs chs changeCnt st3"
      using False by (auto simp: Let_def st1_def st2_def st3_def)
    show ?thesis
    proof
      assume a: "\<forall>p\<in>set (pool st). P ctx p"
      then have "\<forall>p\<in>set (pool st1). P ctx p" by (simp add: st1_def)
      with "3.IH"(2)[OF False st1_def] have "\<forall>p\<in>set (pool st2). P ctx p"
        by (simp add: st2_def)
      then have "\<forall>p\<in>set (pool st3). P ctx p" by (simp add: st3_def)
      with "3.IH"(3)[OF False st1_def st2_def st3_def] show "\<forall>p\<in>set (pool (dfsChoices ctx c cs (ch # chs) changeCnt st)). P ctx p"
        unfolding unf by simp
    qed
  qed
qed








subsection \<open>The ranking\<close>




lemma set_insertBy: "set (insertBy le x ys) = insert x (set ys)"
  by (induction ys) auto

lemma mset_insertBy: "mset (insertBy le x ys) = add_mset x (mset ys)"
  by (induction ys) simp_all

lemma mset_sortBy: "mset (sortBy le xs) = mset xs"
  by (induction xs) (simp_all add: sortBy_def mset_insertBy)

lemma set_sortBy: "set (sortBy le xs) = set xs"
  using mset_sortBy[of le xs] by (metis set_mset_mset)

lemma sorted_insertBy:
  assumes total: "\<And>a b. le a b \<or> le b a"
    and trans: "\<And>a b c. le a b \<Longrightarrow> le b c \<Longrightarrow> le a c"
  shows "sorted_wrt le ys \<Longrightarrow> sorted_wrt le (insertBy le x ys)"
proof (induction ys)
  case Nil
  then show ?case by simp
next
  case (Cons y ys)
  show ?case
  proof (cases "le x y")
    case True
    with Cons.prems trans show ?thesis by auto
  next
    case False
    with total have "le y x" by blast
    with Cons False show ?thesis by (auto simp: set_insertBy)
  qed
qed

lemma sorted_sortBy:
  assumes "\<And>a b. le a b \<or> le b a" and "\<And>a b c. le a b \<Longrightarrow> le b c \<Longrightarrow> le a c"
  shows "sorted_wrt le (sortBy le xs)"
proof (induction xs)
  case Nil
  show ?case by (simp add: sortBy_def)
next
  case (Cons x xs)
  have "sortBy le (x # xs) = insertBy le x (sortBy le xs)" by (simp add: sortBy_def)
  with Cons sorted_insertBy[of le, OF assms] show ?case by simp
qed


subsection \<open>The courses to plan\<close>








lemma generateDamagePlans_unfold:
  "generateDamagePlans inp =
     (if registeredCourseAlternatives (plannerCourses inp) (plannerRegistrations inp) = [] then []
      else take 8 (sortBy planLe
             (pool (dfs (plannerContext inp) (orderedCourses inp) 0 startState))))"
  by (simp add: generateDamagePlans_def Let_def orderedCourses_def startState_def)

lemma generated_plans_in_pool:
  "set (generateDamagePlans inp)
     \<subseteq> set (pool (dfs (plannerContext inp) (orderedCourses inp) 0 startState))"
proof -
  have "set (take 8 (sortBy planLe xs)) \<subseteq> set xs" for xs :: "plan list"
    using set_take_subset[of 8 "sortBy planLe xs"] by (simp add: set_sortBy)
  then show ?thesis by (simp add: generateDamagePlans_unfold)
qed


text \<open>
  Registering keeps the registration set with one registration per course.
\<close>

lemma upsert_keeps_courses_distinct:
  assumes "distinct (map regCourseId prev)"
  shows "distinct (map regCourseId (upsert payload prev))"
proof (cases "findIndex (\<lambda>r. regCourseId r = regCourseId payload) prev < 0")
  case True
  then have "\<forall>r\<in>set prev. regCourseId r \<noteq> regCourseId payload"
    by (simp add: findIndex_neg_iff)
  moreover have "findIndex (\<lambda>r. regCourseId r = regCourseId payload) prev = -1"
    using True findIndex_bounds[of "\<lambda>r. regCourseId r = regCourseId payload" prev] by simp
  ultimately show ?thesis using assms by (auto simp: upsert_def)
next
  case False
  let ?i = "findIndex (\<lambda>r. regCourseId r = regCourseId payload) prev"
  from False have nn: "0 \<le> ?i" by simp
  have lt: "nat ?i < length prev"
    using findIndex_bounds[of "\<lambda>r. regCourseId r = regCourseId payload" prev] nn by simp
  have "regCourseId (prev ! nat ?i) = regCourseId payload"
    using findIndex_first[OF nn] by simp
  then have "map regCourseId (prev[nat ?i := payload]) = map regCourseId prev"
    using lt by (simp add: map_update list_update_same_conv)
  with assms False show ?thesis by (simp add: upsert_def)
qed

lemma registerSelection_keeps_courses_distinct:
  assumes "distinct (map regCourseId (registrations st))"
  shows "distinct (map regCourseId (registrations (fst (registerSelection courses sel lp sp st))))"
proof (cases "snd (registerSelection courses sel lp sp st) = Saved")
  case True
  with registerSelection_cases[where courses = courses and sel = sel and lp = lp and sp = sp
      and st = st]
  have "\<exists>c. sel = Some c \<and> truthyId lp
      \<and> registrations (fst (registerSelection courses sel lp sp st))
          = upsert \<lparr>regCourseId = courseKey c,
              selectedGroupIds = the lp # (if truthyId sp then [the sp] else [])\<rparr>
              (registrations st)"
    by (simp add: case_prod_unfold)
  then obtain c :: course where "registrations (fst (registerSelection courses sel lp sp st))
      = upsert \<lparr>regCourseId = courseKey c,
          selectedGroupIds = the lp # (if truthyId sp then [the sp] else [])\<rparr>
          (registrations st)"
    by blast
  with assms show ?thesis by (simp add: upsert_keeps_courses_distinct)
next
  case False
  with registerSelection_cases[where courses = courses and sel = sel and lp = lp and sp = sp
      and st = st]
  have "registrations (fst (registerSelection courses sel lp sp st)) = registrations st"
    by (simp add: case_prod_unfold)
  with assms show ?thesis by simp
qed


subsection \<open>The example\<close>

lemma example_courses_to_plan:
  "map (toPlanCourse exampleRequest)
     (registeredCourseAlternatives [exampleMicro, examplePatho] exampleRegistrations)
     = [examplePathoPlan, exampleMicroPlan]"
  by code_simp

lemma example_alternatives_nonempty:
  "registeredCourseAlternatives [exampleMicro, examplePatho] exampleRegistrations \<noteq> []"
  using example_courses_to_plan by auto

lemma example_scores:
  "evaluateSchedule (flattenSessions (coursesById [exampleMicro, examplePatho])
     [\<lparr>regCourseId = ''patho'', selectedGroupIds = [1]\<rparr>,
      \<lparr>regCourseId = ''micro'', selectedGroupIds = [1, 3]\<rparr>]) = score (examplePool 0 ! 0)"
  "evaluateSchedule (flattenSessions (coursesById [exampleMicro, examplePatho])
     [\<lparr>regCourseId = ''patho'', selectedGroupIds = [1]\<rparr>,
      \<lparr>regCourseId = ''micro'', selectedGroupIds = [2, 3]\<rparr>]) = score (examplePool 0 ! 1)"
  "evaluateSchedule (flattenSessions (coursesById [exampleMicro, examplePatho])
     [\<lparr>regCourseId = ''patho'', selectedGroupIds = [2]\<rparr>,
      \<lparr>regCourseId = ''micro'', selectedGroupIds = [2, 3]\<rparr>]) = score (examplePool 0 ! 2)"
  unfolding examplePool_def by (simp_all, code_simp+)

lemma example_table_scores:
  "evaluateSchedule (tableSessions (tableInputsOf examplePlanner))
     = \<lparr>activeDays = 2, gapSlots = 1, after4Sessions = 0, conflictCount = 0, scoreDays = 82,
        scoreGaps = 90, scoreLate = 100, scoreConflict = 100, overall = 91\<rparr>"
  "evaluateSchedule (tableSessions (tableInputsOf examplePreviewPlanner))
     = \<lparr>activeDays = 2, gapSlots = 1, after4Sessions = 0, conflictCount = 1, scoreDays = 82,
        scoreGaps = 90, scoreLate = 100, scoreConflict = 60, overall = 84\<rparr>"
  by code_simp+

lemma example_current_damage:
  "currentDamageOf examplePlanner = 26" "currentDamageOf examplePreviewPlanner = 1226"
  by (simp_all add: currentDamageOf_def currentScheduleScore_def example_table_scores)

lemma example_inputs:
  "plannerCourses examplePlanner = [exampleMicro, examplePatho]"
  "plannerRegistrations examplePlanner = exampleRegistrations"
  "plannerRequest examplePlanner = exampleRequest"
  "plannerCourses examplePreviewPlanner = [exampleMicro, examplePatho]"
  "plannerRegistrations examplePreviewPlanner = exampleRegistrations"
  "plannerRequest examplePreviewPlanner = exampleRequest"
  by (simp_all add: examplePreviewPlanner_def examplePlanner_def)

lemma example_context:
  "plannerContext examplePlanner = exampleContext 26"
  "plannerContext examplePreviewPlanner = exampleContext 1226"
  by (simp_all add: plannerContext_def example_inputs example_courses_to_plan
      example_current_damage exampleContext_def)

lemma example_ordered:
  "orderedCourses examplePlanner = [examplePathoPlan, exampleMicroPlan]"
  "orderedCourses examplePreviewPlanner = [examplePathoPlan, exampleMicroPlan]"
  by (simp_all add: orderedCourses_def example_context sortBy_def exampleContext_def
      examplePathoPlan_def exampleMicroPlan_def)

lemma example_plan_ids:
  "numberToString 1 = ''1''" "numberToString 2 = ''2''" "numberToString 3 = ''3''"
  "numberToString 4 = ''4''"
  by code_simp+

lemma example_search:
  "pool (dfs (exampleContext n) [examplePathoPlan, exampleMicroPlan] 0 startState)
     = examplePool n"
proof -
  have "request (exampleContext n) = exampleRequest" by (simp add: exampleContext_def)
  then show ?thesis
    by (simp add: dfs_node dfs_leaf dfs_stop searchStops_def examplePathoPlan_def
        exampleMicroPlan_def exampleRequest_def startState_def MAX_PLAN_SEARCH_LIMIT_def
        Let_def leafPlan_def exampleContext_def exampleRegistrations_def example_scores
        examplePool_def example_plan_ids)
qed

lemma example_plans:
  "generateDamagePlans examplePlanner = [examplePool 26 ! 2, examplePool 26 ! 1, examplePool 26 ! 0]"
  "generateDamagePlans examplePreviewPlanner
     = [examplePool 1226 ! 2, examplePool 1226 ! 1, examplePool 1226 ! 0]"
  by (simp_all add: generateDamagePlans_unfold example_inputs example_context example_ordered
      example_search sortBy_def planLe_def examplePool_def
      example_alternatives_nonempty)

lemma example_summaries:
  "map planSummary (generateDamagePlans examplePlanner)
     = [(''plan-3'', 1, 12, 88, True), (''plan-2'', 0, 26, 91, False),
        (''plan-1'', 1, 1222, 91, False)]"
  "map planSummary (generateDamagePlans examplePreviewPlanner)
     = [(''plan-3'', 1, 12, 88, True), (''plan-2'', 0, 26, 91, True),
        (''plan-1'', 1, 1222, 91, True)]"
  by (simp_all add: example_plans examplePool_def planSummary_def)













subsection \<open>Budget, ranking and the flag of a plan\<close>




text \<open>
  What the flag \<^verbatim>\<open>improves\<close> compares in the code: the damage of the plan, which is
  1200 * conflictCount + 18 * gapSlots + 28 * lateSessions + 4 * activeDays over the
  sessions of the registrations of the plan, with \<^verbatim>\<open>currentDamageScore\<close>, which is the same
  formula over the sessions of the displayed table. The table holds the registered
  sessions together with the sessions of the active track and the previewed sessions,
  after the overrides and without duplicate rows.
\<close>

lemma improves_compares_with_table:
  "\<forall>p\<in>set (generateDamagePlans inp).
     improves p = (damage p < currentDamageOf inp)
     \<and> damage p
         = damageOf (evaluateSchedule
             (flattenSessions (coursesById (plannerCourses inp)) (nextRegistrations p)))
     \<and> currentDamageOf inp = damageOf (evaluateSchedule (tableSessions (tableInputsOf inp)))"
proof -
  have "\<forall>p\<in>set (pool (dfs (plannerContext inp) (orderedCourses inp) 0 startState)).
          planConsistent (plannerContext inp) p"
    using dfs_pool_invariant(1)[of planConsistent startState "plannerContext inp"
        "orderedCourses inp" 0, OF leafPlan_consistent]
    by (simp add: startState_def)
  with generated_plans_in_pool[of inp] show ?thesis
    by (auto simp: planConsistent_def plannerContext_def currentDamageOf_def damageOf_def
        currentScheduleScore_def)
qed

text \<open>
  Without track, preview or override the damage of the table is 26, and only the plan of
  damage 12 is flagged.
\<close>

lemma improves_compares_with_table_example:
  "map planSummary (generateDamagePlans examplePlanner)
     = [(''plan-3'', 1, 12, 88, True), (''plan-2'', 0, 26, 91, False),
        (''plan-1'', 1, 1222, 91, False)]
   \<and> currentDamageOf examplePlanner = 26
   \<and> damageOf (evaluateSchedule (tableSessions (tableInputsOf examplePlanner))) = 26"
proof -
  have s: "map planSummary (generateDamagePlans examplePlanner)
     = [(''plan-3'', 1, 12, 88, True), (''plan-2'', 0, 26, 91, False),
        (''plan-1'', 1, 1222, 91, False)]"
    by (rule example_summaries(1))
  have c: "currentDamageOf examplePlanner = 26"
    by (rule example_current_damage(1))
  from improves_compares_with_table[of examplePlanner]
  have "currentDamageOf examplePlanner
      = damageOf (evaluateSchedule (tableSessions (tableInputsOf examplePlanner)))"
    by (simp add: example_plans)
  with s c show ?thesis by simp
qed

lemma example_preview_table:
  "map (\<lambda>s. (courseId s, GroupId s, source s)) (tableSessions (tableInputsOf examplePreviewPlanner))
     = [(Some ''patho'', 1, Some ''registered''), (Some ''micro'', 2, Some ''registered''),
        (Some ''micro'', 3, Some ''registered''), (Some ''micro'', 1, Some ''preview'')]"
  by code_simp

text \<open>
  Claim C8 does not hold of the code. The claim compares the damage of a plan with the
  damage of the sessions of the current registrations. With the lectures of Microbiology
  previewed, the table holds the previewed lecture group 1 beside the registered
  sessions, and with it a conflict that the registrations do not have: the damage of the
  sessions of the current registrations is 26 and \<^verbatim>\<open>currentDamageScore\<close> is 1226. Every
  returned plan is flagged as improving: the plan that keeps the current registrations
  (damage 26) and the plan of damage 1222 as well.
\<close>

theorem improves_flag_with_preview_shown:
  "map planSummary (generateDamagePlans examplePreviewPlanner)
     = [(''plan-3'', 1, 12, 88, True), (''plan-2'', 0, 26, 91, True),
        (''plan-1'', 1, 1222, 91, True)]
   \<and> nextRegistrations (generateDamagePlans examplePreviewPlanner ! 1)
       = plannerRegistrations examplePreviewPlanner
   \<and> damageOf (evaluateSchedule
        (flattenSessions (coursesById (plannerCourses examplePreviewPlanner))
           (plannerRegistrations examplePreviewPlanner))) = 26
   \<and> currentDamageOf examplePreviewPlanner = 1226
   \<and> map (\<lambda>s. (courseId s, GroupId s, source s))
        (tableSessions (tableInputsOf examplePreviewPlanner))
       = [(Some ''patho'', 1, Some ''registered''), (Some ''micro'', 2, Some ''registered''),
          (Some ''micro'', 3, Some ''registered''), (Some ''micro'', 1, Some ''preview'')]"
proof -
  have "nextRegistrations (generateDamagePlans examplePreviewPlanner ! 1)
       = plannerRegistrations examplePreviewPlanner"
    by (simp add: example_plans example_inputs examplePool_def exampleRegistrations_def)
  moreover have "damageOf (evaluateSchedule
        (flattenSessions (coursesById (plannerCourses examplePreviewPlanner))
           (plannerRegistrations examplePreviewPlanner))) = 26"
    by (simp add: example_inputs exampleRegistrations_def example_scores examplePool_def
        damageOf_def)
  ultimately show ?thesis
    by (simp add: example_summaries example_current_damage example_preview_table)
qed

section \<open>Properties of the track merger\<close>

subsection \<open>The two-level map\<close>

lemma map_of_mapSet: "map_of (mapSet k v m) = (map_of m)(k \<mapsto> v)"
  by (induction m) (auto simp: fun_eq_iff)

lemma keys_mapSet: "fst ` set (mapSet k v m) = insert k (fst ` set m)"
  by (simp add: map_of_mapSet flip: dom_map_of_conv_image_fst)

lemma distinct_mapSet: "distinct (map fst m) \<Longrightarrow> distinct (map fst (mapSet k v m))"
proof (induction m)
  case Nil
  then show ?case by simp
next
  case (Cons a m)
  obtain k' v' where a: "a = (k', v')" by (cases a)
  from Cons show ?case using keys_mapSet[of k v m] by (auto simp: a)
qed

lemma rawOf_Nil: "rawOf [] P n = None"
  by (simp add: rawOf_def)

lemma rawOf_snoc:
  "rawOf (ps @ [p]) P n
     = (if prefixText p = P \<and> number p = n then Some (raw p) else rawOf ps P n)"
  by (simp add: rawOf_def)

lemma rawOf_Some_iff:
  "(rawOf ps P n \<noteq> None) = (\<exists>p\<in>set ps. prefixText p = P \<and> number p = n)"
  by (induction ps rule: rev_induct) (auto simp: rawOf_Nil rawOf_snoc)

lemma lookup2_addParsed:
  "lookup2 (addParsed bp p) P n
     = (if prefixText p = P \<and> number p = n then Some (raw p) else lookup2 bp P n)"
  by (auto simp: lookup2_def addParsed_def mapGet_def map_of_mapSet Let_def split: option.splits)

lemma lookup2_byPrefix: "lookup2 (foldl addParsed [] ps) P n = rawOf ps P n"
  by (induction ps rule: rev_induct) (simp_all add: lookup2_def rawOf_Nil rawOf_snoc lookup2_addParsed[unfolded lookup2_def])

lemma distinct_byPrefix: "distinct (map fst (foldl addParsed [] ps))"
  by (induction ps rule: rev_induct) (simp_all add: addParsed_def Let_def distinct_mapSet)

lemma byPrefix_inner:
  assumes "(P, m) \<in> set (foldl addParsed [] ps)"
  shows "map_of m = rawOf ps P"
proof -
  have "map_of (foldl addParsed [] ps) P = Some m"
    using assms distinct_byPrefix[of ps] by simp
  then have "lookup2 (foldl addParsed [] ps) P n = map_of m n" for n
    by (simp add: lookup2_def)
  then show ?thesis by (simp add: fun_eq_iff lookup2_byPrefix)
qed


subsection \<open>The tracks of the pairs\<close>

lemma toDouble_exact: "\<bar>k\<bar> < 9007199254740992 \<Longrightarrow> toDouble k = Num k"
proof -
  assume a: "\<bar>k\<bar> < 9007199254740992"
  then have "excessBits \<bar>k\<bar> = 0" by (simp add: excessBits.simps[of "\<bar>k\<bar>"])
  then have "doubleOfInt k = (k, 0)" by (simp add: doubleOfInt_def roundDouble_def)
  moreover have "k < 2 ^ 1024"
  proof -
    have "k < (2::int) ^ 53" using a by simp
    also have "(2::int) ^ 53 \<le> 2 ^ 1024" by (rule power_increasing) simp_all
    finally show ?thesis .
  qed
  ultimately show ?thesis by (simp add: toDouble_def)
qed

lemma pairStartOf_safe:
  assumes "0 \<le> i" "i < 9007199254740992"
  shows "pairStartOf (Num i) = Num (if even i then i - 1 else i)"
  using assms by (simp add: pairStartOf_def isEvenNumber_def addNumber_def toDouble_exact
      even_iff_mod_2_eq_zero)

lemma pairStartOf_partner:
  assumes "0 \<le> i" "i < 9007199254740992"
  shows "Num i = pairStartOf (Num i) \<or> Num i = addNumber (pairStartOf (Num i)) 1"
  using assms by (simp add: pairStartOf_safe addNumber_def toDouble_exact)

lemma pairStartOf_cases:
  "safeNumber n \<Longrightarrow> n = pairStartOf n \<or> n = addNumber (pairStartOf n) 1"
  using pairStartOf_partner by (cases n) (simp_all add: safeNumber_def)

lemma pairTrack_sections:
  assumes "rawAt s \<noteq> None \<or> rawAt (addNumber s 1) \<noteq> None"
  shows "List.map_filter id [rawAt s, rawAt (addNumber s 1)] \<noteq> []"
    and "regularTrack
           (if length (List.map_filter id [rawAt s, rawAt (addNumber s 1)]) = 2
            then pre @ numberToText s @ ''/'' @ pre @ numberToText (addNumber s 1)
            else hd (List.map_filter id [rawAt s, rawAt (addNumber s 1)]))
           pre (List.map_filter id [rawAt s, rawAt (addNumber s 1)])
         = pairTrack pre rawAt s"
  using assms
  by (cases "rawAt s"; cases "rawAt (addNumber s 1)"; simp add: pairTrack_def)+

lemma pairTracks_map:
  "\<forall>n\<in>set ns. map_of m n \<noteq> None \<and> safeNumber n \<Longrightarrow>
     pairTracks pre m seen ns = map (pairTrack pre (map_of m)) (pairStarts seen ns)"
proof (induction ns arbitrary: seen)
  case Nil
  show ?case by simp
next
  case (Cons n ns)
  from Cons.prems have "map_of m n \<noteq> None" and "safeNumber n" by simp_all
  with pairStartOf_cases[of n]
  have some: "map_of m (pairStartOf n) \<noteq> None
      \<or> map_of m (addNumber (pairStartOf n) 1) \<noteq> None"
    by metis
  from Cons.prems have rest: "\<forall>n\<in>set ns. map_of m n \<noteq> None \<and> safeNumber n" by simp
  show ?case
  proof (cases "pairStartOf n \<in> set seen")
    case True
    then show ?thesis using Cons.IH[OF rest] by (simp add: Let_def)
  next
    case False
    then show ?thesis
      using Cons.IH[OF rest] pairTrack_sections[OF some]
      by (simp add: Let_def mapGet_def del: List.map_filter_simps)
  qed
qed

lemma pairStarts_set: "set (pairStarts seen ns) = pairStartOf ` set ns - set seen"
  by (induction ns arbitrary: seen) auto

lemma pairStarts_distinct: "distinct (pairStarts seen ns)"
  by (induction ns arbitrary: seen) (auto simp: pairStarts_set)

lemma prefixTracks_map:
  assumes safe: "\<forall>p\<in>set ps. safeNumber (number p)"
    and e: "e \<in> set (foldl addParsed [] ps)"
  shows "prefixTracks e
     = map (pairTrackOf ps)
         (map (Pair (fst e)) (pairStarts [] (sortBy numberLe (map fst (snd e)))))"
proof -
  obtain P m where pm: "e = (P, m)" by (cases e)
  have inner: "map_of m = rawOf ps P" using e byPrefix_inner by (simp add: pm)
  have keys: "\<forall>n\<in>set (sortBy numberLe (map fst m)). map_of m n \<noteq> None \<and> safeNumber n"
  proof
    fix n
    assume "n \<in> set (sortBy numberLe (map fst m))"
    then have n: "map_of m n \<noteq> None" by (simp add: set_sortBy map_of_eq_None_iff)
    then have "rawOf ps P n \<noteq> None" by (simp add: inner)
    then obtain p :: parsed_name where "p \<in> set ps" "number p = n"
      using rawOf_Some_iff[of ps P n] by blast
    with safe have "safeNumber n" by auto
    with n show "map_of m n \<noteq> None \<and> safeNumber n" by simp
  qed
  show ?thesis
    by (simp add: pm prefixTracks_def pairTracks_map[OF keys] pairTrackOf_def comp_def inner)
qed

lemma concat_map_eq_map_concat:
  "(\<And>e. e \<in> set bp \<Longrightarrow> g e = map f (h e)) \<Longrightarrow> concat (map g bp) = map f (concat (map h bp))"
  by (induction bp) simp_all

lemma concat_prefixTracks:
  assumes "\<forall>p\<in>set ps. safeNumber (number p)"
  shows "concat (map prefixTracks (foldl addParsed [] ps))
     = map (pairTrackOf ps) (pairKeysOf (foldl addParsed [] ps))"
  unfolding pairKeysOf_def by (rule concat_map_eq_map_concat) (rule prefixTracks_map[OF assms])

lemma pairKeysOf_set:
  "set (pairKeysOf bp) = (\<Union>e\<in>set bp. Pair (fst e) ` pairStartOf ` fst ` set (snd e))"
  by (simp add: pairKeysOf_def pairStarts_set set_sortBy)

lemma pairKeysOf_distinct: "distinct (map fst bp) \<Longrightarrow> distinct (pairKeysOf bp)"
proof (induction bp)
  case Nil
  show ?case by (simp add: pairKeysOf_def)
next
  case (Cons e bp)
  have tail: "pairKeysOf (e # bp)
      = map (Pair (fst e)) (pairStarts [] (sortBy numberLe (map fst (snd e)))) @ pairKeysOf bp"
    by (simp add: pairKeysOf_def)
  have d1: "distinct (map (Pair (fst e)) (pairStarts [] (sortBy numberLe (map fst (snd e)))))"
    by (simp add: distinct_map pairStarts_distinct inj_on_def)
  have d2: "distinct (pairKeysOf bp)" using Cons by simp
  have "fst k \<in> fst ` set bp" if "k \<in> set (pairKeysOf bp)" for k
    using that by (force simp: pairKeysOf_set)
  moreover have "fst e \<notin> fst ` set bp" using Cons.prems by simp
  ultimately have d3: "set (map (Pair (fst e)) (pairStarts [] (sortBy numberLe (map fst (snd e)))))
      \<inter> set (pairKeysOf bp) = {}"
    by auto
  from d1 d2 d3 show ?case unfolding tail by simp
qed

lemma pairKeys_byPrefix: "set (pairKeysOf (foldl addParsed [] ps)) = pairKeyOf ` set ps"
proof (intro set_eqI iffI)
  fix k
  assume "k \<in> set (pairKeysOf (foldl addParsed [] ps))"
  then obtain e n where k': "k = (fst e, pairStartOf n)"
    and e: "e \<in> set (foldl addParsed [] ps)" and n': "n \<in> fst ` set (snd e)"
    by (auto simp: pairKeysOf_set)
  obtain P m where pm: "e = (P, m)" by (cases e)
  from k' e n' have k: "k = (P, pairStartOf n)"
    and m: "(P, m) \<in> set (foldl addParsed [] ps)" and n: "n \<in> fst ` set m"
    by (simp_all add: pm)
  from n have "map_of m n \<noteq> None" by (simp add: map_of_eq_None_iff)
  then have "rawOf ps P n \<noteq> None" using byPrefix_inner[OF m] by simp
  then obtain p :: parsed_name where "p \<in> set ps" "prefixText p = P" "number p = n"
    using rawOf_Some_iff[of ps P n] by blast
  then show "k \<in> pairKeyOf ` set ps" by (auto simp: k pairKeyOf_def)
next
  fix k
  assume "k \<in> pairKeyOf ` set ps"
  then obtain p where p: "p \<in> set ps" and k: "k = (prefixText p, pairStartOf (number p))"
    by (auto simp: pairKeyOf_def)
  from p have "rawOf ps (prefixText p) (number p) \<noteq> None"
    using rawOf_Some_iff[of ps "prefixText p" "number p"] by blast
  then have "lookup2 (foldl addParsed [] ps) (prefixText p) (number p) \<noteq> None"
    by (simp add: lookup2_byPrefix)
  then obtain m where m: "map_of (foldl addParsed [] ps) (prefixText p) = Some m"
    and n: "map_of m (number p) \<noteq> None"
    by (auto simp: lookup2_def split: option.splits)
  from m have "(prefixText p, m) \<in> set (foldl addParsed [] ps)" by (rule map_of_SomeD)
  moreover from n have "number p \<in> fst ` set m" by (simp add: map_of_eq_None_iff)
  ultimately show "k \<in> set (pairKeysOf (foldl addParsed [] ps))"
    unfolding pairKeysOf_set k by force
qed

lemma mset_pair_tracks:
  assumes "\<forall>p\<in>set ps. safeNumber (number p)"
  shows "mset (concat (map prefixTracks (foldl addParsed [] ps)))
     = mset (map (pairTrackOf ps) (remdups (map pairKeyOf ps)))"
proof -
  have "mset (pairKeysOf (foldl addParsed [] ps)) = mset (remdups (map pairKeyOf ps))"
    by (rule set_eq_iff_mset_eq_distinct[THEN iffD1])
       (simp_all add: pairKeysOf_distinct distinct_byPrefix pairKeys_byPrefix)
  then show ?thesis
    unfolding concat_prefixTracks[OF assms] by (metis mset_map)
qed


subsection \<open>The merged tracks\<close>

lemma singleTracks_map:
  "singleTracks xs = map singleTrack (filter (\<lambda>n. extractSectionPrefix (Some n) \<noteq> []) xs)"
  by (induction xs) (simp_all add: singleTracks_def singleTrack_def Let_def)

lemma mset_single_tracks:
  "mset (singleTracks (sortBy le (filter (\<lambda>n. parseSectionGroupName (Some n) = None) names)))
     = mset (map singleTrack (filter keptUnpaired names))"
  unfolding singleTracks_map
  by (simp add: mset_sortBy keptUnpaired_def[abs_def] filter_filter_mset)

lemma merged_tracks_mset:
  assumes "safeNames names"
  shows "mset (buildMergedTrackOptions le names)
     = mset (map (pairTrackOf (parsedNames names)) (remdups (map pairKeyOf (parsedNames names))))
       + mset (map singleTrack (filter keptUnpaired names))"
proof -
  from assms have "\<forall>p\<in>set (parsedNames names). safeNumber (number p)"
    by (simp add: safeNames_def list_all_iff)
  from mset_pair_tracks[OF this] show ?thesis
    by (simp add: buildMergedTrackOptions_def Let_def mset_sortBy mset_single_tracks
        parsedNames_def)
qed

lemma merged_tracks_sorted:
  assumes "\<And>a b. le a b \<or> le b a" and "\<And>a b c. le a b \<Longrightarrow> le b c \<Longrightarrow> le a c"
  shows "sorted_wrt (\<lambda>a b. le (trackLabel a) (trackLabel b)) (buildMergedTrackOptions le names)"
  unfolding buildMergedTrackOptions_def Let_def
  by (rule sorted_sortBy) (use assms in blast)+


subsection \<open>Examples of merging\<close>

lemma codeUnitLe_total: "codeUnitLe a b \<or> codeUnitLe b a"
proof (induction a arbitrary: b)
  case Nil
  show ?case by simp
next
  case (Cons x xs)
  show ?case
  proof (cases b)
    case Nil
    then show ?thesis by simp
  next
    case (Cons y ys)
    have "(of_char x :: nat) < of_char y \<or> (of_char y :: nat) < of_char x \<or> x = y"
      using of_char_eq_iff[of x y, where ?'a = nat] by linarith
    with Cons.IH[of ys] show ?thesis by (auto simp: Cons)
  qed
qed

lemma codeUnitLe_trans: "codeUnitLe a b \<Longrightarrow> codeUnitLe b c \<Longrightarrow> codeUnitLe a c"
proof (induction a arbitrary: b c)
  case Nil
  show ?case by simp
next
  case (Cons x xs)
  from Cons.prems(1) obtain y ys where b: "b = y # ys" by (cases b) auto
  from Cons.prems(2) b obtain z zs where c: "c = z # zs" by (cases c) auto
  from Cons.prems Cons.IH[of ys zs] show ?case by (auto simp: b c)
qed

lemma codeUnitLe_order:
  "\<forall>a b. codeUnitLe a b \<or> codeUnitLe b a"
  "\<forall>a b c. codeUnitLe a b \<longrightarrow> codeUnitLe b c \<longrightarrow> codeUnitLe a c"
  using codeUnitLe_total codeUnitLe_trans by blast+

lemma example_B_options:
  "concat (map prefixTracks (foldl addParsed []
      (List.map_filter (\<lambda>n. parseSectionGroupName (Some n)) [''B1'', ''B2'', ''B3''])))
     = [regularTrack ''B1/B2'' ''B'' [''B1'', ''B2''], regularTrack ''B3'' ''B'' [''B3'']]"
  "filter (\<lambda>n. parseSectionGroupName (Some n) = None) [''B1'', ''B2'', ''B3''] = []"
  by code_simp+

lemma merged_tracks_B:
  "buildMergedTrackOptions le [''B1'', ''B2'', ''B3'']
     = (if le ''B1/B2'' ''B3''
        then [regularTrack ''B1/B2'' ''B'' [''B1'', ''B2''], regularTrack ''B3'' ''B'' [''B3'']]
        else [regularTrack ''B3'' ''B'' [''B3''], regularTrack ''B1/B2'' ''B'' [''B1'', ''B2'']])"
  unfolding buildMergedTrackOptions_def Let_def example_B_options
  by (simp add: sortBy_def singleTracks_def regularTrack_def)

lemma example_mixed_labels:
  "map trackLabel (buildMergedTrackOptions codeUnitLe [''B3'', ''b2'', ''B1'', ''C 4'', ''Lab'', ''12''])
     = [''B1/B2'', ''B3'', ''C 4'', ''Lab'']"
  by code_simp

lemma example_name_without_letter:
  "parseSectionGroupName (Some ''12'') = None" "extractSectionPrefix (Some ''12'') = []"
  by code_simp+

text \<open>
  Group numbers from \<open>2\<^sup>5\<^sup>3\<close> on are rounded: the digits 9007199254740993 and
  9007199254740992 denote the same double, so the two names share one number and one
  track; and the number 9007199254740994 is even, one less rounds to 9007199254740992, one
  more than that rounds to 9007199254740992 again, so that the name is in no pair and
  gets no track.
\<close>

lemma merged_tracks_of_rounded_numbers:
  "buildMergedTrackOptions codeUnitLe [''A9007199254740993'', ''A9007199254740992'']
     = [regularTrack ''A9007199254740992'' ''A'' [''A9007199254740992'']]"
  "buildMergedTrackOptions codeUnitLe [''A9007199254740994''] = []"
  by code_simp+

text \<open>
  Claim C6 says that the names that do not parse are kept as singleton tracks. A name that
  does not start with a letter is not kept: the only name \<^verbatim>\<open>12\<close> gives no track at all,
  whatever the comparator.
\<close>

theorem name_without_letter_is_dropped: "\<forall>le. buildMergedTrackOptions le [''12''] = []"
proof
  fix le :: "string \<Rightarrow> string \<Rightarrow> bool"
  have "safeNames [''12'']"
    by (simp add: safeNames_def parsedNames_def example_name_without_letter)
  from merged_tracks_mset[OF this, of le]
  have "mset (buildMergedTrackOptions le [''12'']) = {#}"
    by (simp add: parsedNames_def keptUnpaired_def example_name_without_letter)
  then show "buildMergedTrackOptions le [''12''] = []" by simp
qed

text \<open>
  Claim C6, as the code has it. When every group number is below \<open>2\<^sup>5\<^sup>3\<close>, the merger
  returns, up to order, one track for every pair key (prefix, odd start) of a parsed name
  and one singleton track for every name that does not parse and starts with a letter, and
  nothing else. For a comparator of the labels that is total and transitive, the list is
  ordered by label. The start of the pair of a number \<open>i\<close> below \<open>2\<^sup>5\<^sup>3\<close> is \<open>i\<close> when \<open>i\<close> is odd
  and \<open>i - 1\<close> when \<open>i\<close> is even, and \<open>i\<close> is the start or the number after it, so that every
  number belongs to exactly one pair. The names \<^verbatim>\<open>B1\<close>, \<^verbatim>\<open>B2\<close>, \<^verbatim>\<open>B3\<close> give exactly the tracks
  \<^verbatim>\<open>B1/B2\<close> and \<^verbatim>\<open>B3\<close>, in the order of the comparator.
\<close>

theorem merged_tracks_by_odd_start:
  assumes total: "\<forall>a b. localeLe a b \<or> localeLe b a"
    and trans: "\<forall>a b c. localeLe a b \<longrightarrow> localeLe b c \<longrightarrow> localeLe a c"
  shows "(safeNames names \<longrightarrow>
          mset (buildMergedTrackOptions localeLe names)
            = mset (map (pairTrackOf (parsedNames names))
                     (remdups (map pairKeyOf (parsedNames names))))
              + mset (map singleTrack (filter keptUnpaired names)))
     \<and> sorted_wrt (\<lambda>a b. localeLe (trackLabel a) (trackLabel b))
         (buildMergedTrackOptions localeLe names)
     \<and> (0 \<le> i \<and> i < 9007199254740992 \<longrightarrow>
          pairStartOf (Num i) = Num (if even i then i - 1 else i)
          \<and> (Num i = pairStartOf (Num i) \<or> Num i = addNumber (pairStartOf (Num i)) 1))
     \<and> buildMergedTrackOptions localeLe [''B1'', ''B2'', ''B3'']
         = (if localeLe ''B1/B2'' ''B3''
            then [regularTrack ''B1/B2'' ''B'' [''B1'', ''B2''],
                  regularTrack ''B3'' ''B'' [''B3'']]
            else [regularTrack ''B3'' ''B'' [''B3''],
                  regularTrack ''B1/B2'' ''B'' [''B1'', ''B2'']])"
proof -
  have s: "sorted_wrt (\<lambda>a b. localeLe (trackLabel a) (trackLabel b))
      (buildMergedTrackOptions localeLe names)"
    by (rule merged_tracks_sorted) (use total trans in blast)+
  show ?thesis
    using merged_tracks_mset[of names localeLe] s pairStartOf_safe[of i] pairStartOf_partner[of i]
      merged_tracks_B[of localeLe]
    by blast
qed

text \<open>
  An instance with the order of the code units: the names of the scenario, and a list
  with a lower-case name, a name with a space, a name without number and a name without
  letter. The number 4 of the name \<^verbatim>\<open>C 4\<close> is in the pair that starts at 3.
\<close>

theorem merged_tracks_by_odd_start_witness:
  "safeNames [''B3'', ''b2'', ''B1'', ''C 4'', ''Lab'', ''12'']
   \<and> buildMergedTrackOptions codeUnitLe [''B1'', ''B2'', ''B3'']
       = [regularTrack ''B1/B2'' ''B'' [''B1'', ''B2''], regularTrack ''B3'' ''B'' [''B3'']]
   \<and> map trackLabel
        (buildMergedTrackOptions codeUnitLe [''B3'', ''b2'', ''B1'', ''C 4'', ''Lab'', ''12''])
       = [''B1/B2'', ''B3'', ''C 4'', ''Lab'']
   \<and> sorted_wrt (\<lambda>a b. codeUnitLe (trackLabel a) (trackLabel b))
        (buildMergedTrackOptions codeUnitLe [''B3'', ''b2'', ''B1'', ''C 4'', ''Lab'', ''12''])
   \<and> mset (buildMergedTrackOptions codeUnitLe [''B3'', ''b2'', ''B1'', ''C 4'', ''Lab'', ''12''])
       = mset [regularTrack ''B3'' ''B'' [''B3''],
               regularTrack ''B1/B2'' ''B'' [''B1'', ''b2''],
               regularTrack ''C 4'' ''C'' [''C 4'']]
         + mset [regularTrack ''Lab'' ''LAB'' [''Lab'']]
   \<and> pairStartOf (Num 4) = Num 3"
proof -
  have safe: "safeNames [''B3'', ''b2'', ''B1'', ''C 4'', ''Lab'', ''12'']" by code_simp
  have le: "codeUnitLe ''B1/B2'' ''B3''" by code_simp
  have pairs: "map (pairTrackOf (parsedNames [''B3'', ''b2'', ''B1'', ''C 4'', ''Lab'', ''12'']))
       (remdups (map pairKeyOf (parsedNames [''B3'', ''b2'', ''B1'', ''C 4'', ''Lab'', ''12''])))
     = [regularTrack ''B3'' ''B'' [''B3''], regularTrack ''B1/B2'' ''B'' [''B1'', ''b2''],
        regularTrack ''C 4'' ''C'' [''C 4'']]"
    by code_simp
  have singles: "map singleTrack (filter keptUnpaired [''B3'', ''b2'', ''B1'', ''C 4'', ''Lab'', ''12''])
     = [regularTrack ''Lab'' ''LAB'' [''Lab'']]"
    by code_simp
  note th = merged_tracks_by_odd_start[of codeUnitLe
      "[''B3'', ''b2'', ''B1'', ''C 4'', ''Lab'', ''12'']" 4,
      OF codeUnitLe_order]
  from th safe
  have "mset (buildMergedTrackOptions codeUnitLe [''B3'', ''b2'', ''B1'', ''C 4'', ''Lab'', ''12''])
      = mset (map (pairTrackOf (parsedNames [''B3'', ''b2'', ''B1'', ''C 4'', ''Lab'', ''12'']))
          (remdups (map pairKeyOf (parsedNames [''B3'', ''b2'', ''B1'', ''C 4'', ''Lab'', ''12'']))))
        + mset (map singleTrack
            (filter keptUnpaired [''B3'', ''b2'', ''B1'', ''C 4'', ''Lab'', ''12'']))"
    by blast
  then have m: "mset (buildMergedTrackOptions codeUnitLe
        [''B3'', ''b2'', ''B1'', ''C 4'', ''Lab'', ''12''])
      = mset [regularTrack ''B3'' ''B'' [''B3''],
              regularTrack ''B1/B2'' ''B'' [''B1'', ''b2''],
              regularTrack ''C 4'' ''C'' [''C 4'']]
        + mset [regularTrack ''Lab'' ''LAB'' [''Lab'']]"
    unfolding pairs singles .
  from th have srt: "sorted_wrt (\<lambda>a b. codeUnitLe (trackLabel a) (trackLabel b))
      (buildMergedTrackOptions codeUnitLe [''B3'', ''b2'', ''B1'', ''C 4'', ''Lab'', ''12''])"
    by blast
  from th have ps: "pairStartOf (Num 4) = Num 3" by simp
  from th have "buildMergedTrackOptions codeUnitLe [''B1'', ''B2'', ''B3'']
      = (if codeUnitLe ''B1/B2'' ''B3''
         then [regularTrack ''B1/B2'' ''B'' [''B1'', ''B2''], regularTrack ''B3'' ''B'' [''B3'']]
         else [regularTrack ''B3'' ''B'' [''B3''], regularTrack ''B1/B2'' ''B'' [''B1'', ''B2'']])"
    by blast
  with le have b: "buildMergedTrackOptions codeUnitLe [''B1'', ''B2'', ''B3'']
      = [regularTrack ''B1/B2'' ''B'' [''B1'', ''B2''], regularTrack ''B3'' ''B'' [''B3'']]"
    by simp
  show ?thesis
    by (intro conjI safe b example_mixed_labels srt m ps)
qed

end
